theory Spec2Isabelle
  imports Main "HOL-Library.Word"
begin

unbundle bit_operations_syntax

section \<open>Stub TLS for QUIC (platform/tls\_stub.c): data model\<close>

text \<open>
  The embedding follows \<^verbatim>\<open>src/platform/tls_stub.c\<close>. Machine integers are words of
  the width the C code declares. Pointers into the caller's byte ranges are offsets into
  byte lists; every read and every write is bounds-checked against the list, and an access
  outside it (undefined behaviour in C) is the fault \<open>ReadOverrun\<close> or \<open>WriteOverrun\<close>.
  A failed \<^verbatim>\<open>QUIC_FRE_ASSERT\<close> (release assertion: the process aborts) is the fault
  \<open>FreAssert\<close>; a failed \<^verbatim>\<open>QUIC_DBG_ASSERT\<close> (checked builds; where it is paired with
  \<^verbatim>\<open>__assume\<close> the violation is undefined in free builds too) is \<open>DbgAssert\<close>;
  dereferencing a null pointer is \<open>NullDeref\<close>.
\<close>

type_synonym uint8_t = "8 word"
type_synonym uint16_t = "16 word"
type_synonym uint32_t = "32 word"

datatype fault = FreAssert | DbgAssert | ReadOverrun | WriteOverrun | NullDeref

text \<open>Sequencing of fallible steps: the first fault ends the call.\<close>

definition fbind :: "fault + 'a \<Rightarrow> ('a \<Rightarrow> fault + 'b) \<Rightarrow> fault + 'b" where
  "fbind m f = (case m of Inl e \<Rightarrow> Inl e | Inr x \<Rightarrow> f x)"

text \<open>\<open>mem_read b off n\<close>: the \<open>n\<close> bytes at \<open>b + off\<close>.\<close>

definition mem_read :: "uint8_t list \<Rightarrow> nat \<Rightarrow> nat \<Rightarrow> fault + uint8_t list" where
  "mem_read b off n =
     (if off + n \<le> length b then Inr (take n (drop off b)) else Inl ReadOverrun)"

text \<open>\<open>mem_write b off bs\<close>: the bytes \<open>bs\<close> stored at \<open>b + off\<close> (an assignment to a
  field, or a \<^verbatim>\<open>memcpy\<close>).\<close>

definition poke :: "uint8_t list \<Rightarrow> nat \<Rightarrow> uint8_t list \<Rightarrow> uint8_t list" where
  "poke b off bs = take off b @ bs @ drop (off + length bs) b"

definition mem_write :: "uint8_t list \<Rightarrow> nat \<Rightarrow> uint8_t list \<Rightarrow> fault + uint8_t list" where
  "mem_write b off bs =
     (if off + length bs \<le> length b then Inr (poke b off bs) else Inl WriteOverrun)"

text \<open>A run of stores, in program order.\<close>

fun mem_writes :: "uint8_t list \<Rightarrow> (nat \<times> uint8_t list) list \<Rightarrow> fault + uint8_t list" where
  "mem_writes b [] = Inr b"
| "mem_writes b ((off, bs) # ws) = fbind (mem_write b off bs) (\<lambda>b'. mem_writes b' ws)"

subsection \<open>Constants and enumerations\<close>

definition TLS_MESSAGE_HEADER_LENGTH :: nat where "TLS_MESSAGE_HEADER_LENGTH = 4"
definition TLS_RANDOM_LENGTH :: nat where "TLS_RANDOM_LENGTH = 32"
definition MAX_PARAM_LENGTH :: nat where "MAX_PARAM_LENGTH = 256"

definition TlsHandshake_ClientHello :: uint8_t where "TlsHandshake_ClientHello = 0x01"

definition TlsExt_ServerName :: uint16_t where "TlsExt_ServerName = 0x00"
definition TlsExt_AppProtocolNegotiation :: uint16_t where "TlsExt_AppProtocolNegotiation = 0x10"
definition TlsExt_SessionTicket :: uint16_t where "TlsExt_SessionTicket = 0x23"
definition TlsExt_QuicTransportParameters :: uint16_t where
  "TlsExt_QuicTransportParameters = 0xffa5"

definition TlsExt_Sni_NameType_HostName :: uint8_t where "TlsExt_Sni_NameType_HostName = 0"

datatype QUIC_FAKE_TLS_MESSAGE_TYPE =
    QUIC_TLS_MESSAGE_INVALID
  | QUIC_TLS_MESSAGE_CLIENT_INITIAL
  | QUIC_TLS_MESSAGE_CLIENT_HANDSHAKE
  | QUIC_TLS_MESSAGE_SERVER_INITIAL
  | QUIC_TLS_MESSAGE_SERVER_HANDSHAKE
  | QUIC_TLS_MESSAGE_TICKET
  | QUIC_TLS_MESSAGE_MAX

text \<open>The enumerator's value, as stored in the one-byte \<^verbatim>\<open>Type\<close> field of a message.\<close>

fun message_type_value :: "QUIC_FAKE_TLS_MESSAGE_TYPE \<Rightarrow> uint8_t" where
  "message_type_value QUIC_TLS_MESSAGE_INVALID = 0"
| "message_type_value QUIC_TLS_MESSAGE_CLIENT_INITIAL = 1"
| "message_type_value QUIC_TLS_MESSAGE_CLIENT_HANDSHAKE = 2"
| "message_type_value QUIC_TLS_MESSAGE_SERVER_INITIAL = 3"
| "message_type_value QUIC_TLS_MESSAGE_SERVER_HANDSHAKE = 4"
| "message_type_value QUIC_TLS_MESSAGE_TICKET = 5"
| "message_type_value QUIC_TLS_MESSAGE_MAX = 6"

fun MinMessageLengths :: "QUIC_FAKE_TLS_MESSAGE_TYPE \<Rightarrow> uint16_t" where
  "MinMessageLengths QUIC_TLS_MESSAGE_INVALID = 0"
| "MinMessageLengths QUIC_TLS_MESSAGE_CLIENT_INITIAL = 0"
| "MinMessageLengths QUIC_TLS_MESSAGE_CLIENT_HANDSHAKE = 7 + 1"
| "MinMessageLengths QUIC_TLS_MESSAGE_SERVER_INITIAL = 7 + 1"
| "MinMessageLengths QUIC_TLS_MESSAGE_SERVER_HANDSHAKE = 7 + 3 + 256"
| "MinMessageLengths QUIC_TLS_MESSAGE_TICKET = 7 + 1"
| "MinMessageLengths QUIC_TLS_MESSAGE_MAX = 0"

subsection \<open>Wire codec\<close>

text \<open>The readers take the bytes the pointer designates (two or three of them).\<close>

definition TlsReadUint16 :: "uint8_t list \<Rightarrow> uint16_t" where
  "TlsReadUint16 b =
     ucast (push_bit 8 (ucast (b ! 0) :: uint32_t) + (ucast (b ! 1) :: uint32_t))"

definition TlsWriteUint16 :: "uint16_t \<Rightarrow> uint8_t list" where
  "TlsWriteUint16 v = [ucast (drop_bit 8 v), ucast v]"

definition TlsReadUint24 :: "uint8_t list \<Rightarrow> uint32_t" where
  "TlsReadUint24 b =
     push_bit 16 (ucast (b ! 0) :: uint32_t) + push_bit 8 (ucast (b ! 1) :: uint32_t)
       + (ucast (b ! 2) :: uint32_t)"

definition TlsWriteUint24 :: "uint32_t \<Rightarrow> uint8_t list" where
  "TlsWriteUint24 v = [ucast (drop_bit 16 v), ucast (drop_bit 8 v), ucast v]"

text \<open>Field offsets of the packed wire structures (\<^verbatim>\<open>#pragma pack(1)\<close>), from the start
  of the structure.\<close>

definition sizeof_QUIC_TLS_CLIENT_HELLO :: nat where
  "sizeof_QUIC_TLS_CLIENT_HELLO = 2 + TLS_RANDOM_LENGTH + 1 + 2 + 1 + 1 + 2"

definition off_Type :: nat where "off_Type = 0"
definition off_Length :: nat where "off_Length = 1"
definition off_Version :: nat where "off_Version = 4"
definition off_SessionIdLength :: nat where "off_SessionIdLength = 4 + 2 + 32"
definition off_CipherSuiteLength :: nat where "off_CipherSuiteLength = 4 + 2 + 32 + 1"
definition off_CompressionMethodLength :: nat where
  "off_CompressionMethodLength = 4 + 2 + 32 + 1 + 2"
definition off_ExtListLength :: nat where "off_ExtListLength = 4 + 2 + 32 + 1 + 2 + 1 + 1"
definition off_ExtList :: nat where "off_ExtList = 4 + 2 + 32 + 1 + 2 + 1 + 1 + 2"
definition off_Body :: nat where "off_Body = 4"
definition off_QuicTP :: nat where "off_QuicTP = 4 + 1"
definition off_CertificateLength :: nat where "off_CertificateLength = 4 + 1 + 256"
definition off_Certificate :: nat where "off_Certificate = 4 + 1 + 256 + 2"

subsection \<open>Keys, session, security configuration, context, process state\<close>

datatype QUIC_PACKET_KEY_TYPE =
    QUIC_PACKET_KEY_INITIAL
  | QUIC_PACKET_KEY_0_RTT
  | QUIC_PACKET_KEY_HANDSHAKE
  | QUIC_PACKET_KEY_1_RTT

text \<open>A packet key is a zeroed allocation tagged with its epoch. \<^verbatim>\<open>QUIC_PACKET_KEY\<close> is
  declared outside this file; only its \<^verbatim>\<open>Type\<close> field is used here.
  \<open>QuicStubAllocKey t\<close> is the object that \<^verbatim>\<open>QuicStubAllocKey\<close> leaves in the block it
  allocates.\<close>

record QUIC_PACKET_KEY =
  Type :: QUIC_PACKET_KEY_TYPE

definition QuicStubAllocKey :: "QUIC_PACKET_KEY_TYPE \<Rightarrow> QUIC_PACKET_KEY" where
  "QuicStubAllocKey t = \<lparr> Type = t \<rparr>"

datatype QUIC_STATUS =
    QUIC_STATUS_SUCCESS
  | QUIC_STATUS_INVALID_STATE
  | QUIC_STATUS_INVALID_PARAMETER
  | QUIC_STATUS_OUT_OF_MEMORY
  | QUIC_STATUS_BUFFER_TOO_SMALL
  | QUIC_STATUS_NOT_SUPPORTED

text \<open>Where the identity of a key matters, a \<^verbatim>\<open>QUIC_PACKET_KEY*\<close> is the address of the
  key object, 0 for \<^verbatim>\<open>NULL\<close>, and the key objects that are allocated and not freed form a
  heap from their addresses. (The key tables of the process state are modelled by the
  objects themselves: what is said of them is which slot holds a key of which epoch.)\<close>

type_synonym key_heap = "nat \<rightharpoonup> QUIC_PACKET_KEY"

text \<open>Modelled from the spec: \<^verbatim>\<open>QUIC_ALLOC_NONPAGED\<close> is the platform's allocator, an
  external collaborator declared outside this file. It is a parameter of the model: from
  the live blocks, the address of the block it hands out, 0 when it has none to give.\<close>

type_synonym allocator = "key_heap \<Rightarrow> nat"

text \<open>\<^verbatim>\<open>QuicStubAllocKey\<close> with the allocation written out: the block handed out receives
  the zeroed object tagged with the epoch; \<^verbatim>\<open>QUIC_DBG_ASSERT(Key != NULL)\<close> stands before
  the stores.\<close>

definition QuicStubAllocKey_heap ::
  "allocator \<Rightarrow> key_heap \<Rightarrow> QUIC_PACKET_KEY_TYPE \<Rightarrow> fault + (nat \<times> key_heap)" where
  "QuicStubAllocKey_heap QUIC_ALLOC_NONPAGED h t =
     (let Key = QUIC_ALLOC_NONPAGED h in
      if Key = 0 then Inl DbgAssert
      else Inr (Key, h(Key \<mapsto> QuicStubAllocKey t)))"

text \<open>\<^verbatim>\<open>QuicPacketKeyUpdate\<close>: the status, \<^verbatim>\<open>*NewKey\<close> where it is assigned, and the heap
  after the call. Reading \<^verbatim>\<open>OldKey->Type\<close> through a pointer to no live key object is a
  fault.\<close>

definition QuicPacketKeyUpdate ::
  "allocator \<Rightarrow> key_heap \<Rightarrow> nat \<Rightarrow> fault + (QUIC_STATUS \<times> nat option \<times> key_heap)" where
  "QuicPacketKeyUpdate QUIC_ALLOC_NONPAGED h OldKey =
     (if OldKey = 0 then Inr (QUIC_STATUS_INVALID_STATE, None, h)
      else
        case h OldKey of
          None \<Rightarrow> Inl ReadOverrun
        | Some k \<Rightarrow>
            if Type k \<noteq> QUIC_PACKET_KEY_1_RTT then Inr (QUIC_STATUS_INVALID_STATE, None, h)
            else
              fbind (QuicStubAllocKey_heap QUIC_ALLOC_NONPAGED h QUIC_PACKET_KEY_1_RTT) (\<lambda>r.
                Inr (QUIC_STATUS_SUCCESS, Some (fst r), snd r)))"

record QUIC_TLS_SESSION =
  AlpnLength :: uint16_t
  Alpn :: "uint8_t list"

type_synonym PQUIC_CERT = nat

text \<open>The reference count and the cleanup rundown of \<^verbatim>\<open>QUIC_SEC_CONFIG\<close> concern teardown
  only and are left out; a context holds its configuration or a null pointer.\<close>

record QUIC_SEC_CONFIG =
  Flags :: uint32_t
  Certificate :: "PQUIC_CERT option"
  FormatLength :: uint16_t
  FormatBuffer :: "uint8_t list"

text \<open>\<^verbatim>\<open>SNI\<close> holds the bytes of the allocation without its terminating NUL.
  \<open>ReceivedTP\<close> is the trace of the calls of \<^verbatim>\<open>ReceiveTPCallback\<close> on
  \<^verbatim>\<open>Connection\<close>: the length passed and the bytes designated.\<close>

record QUIC_TLS =
  IsServer :: bool
  TicketReady :: bool
  LastMessageType :: QUIC_FAKE_TLS_MESSAGE_TYPE
  TlsSession :: QUIC_TLS_SESSION
  SecConfig :: "QUIC_SEC_CONFIG option"
  ReceivedTP :: "(uint16_t \<times> uint8_t list) list"
  SNI :: "uint8_t list option"
  LocalTPBuffer :: "uint8_t list"
  LocalTPLength :: uint32_t

text \<open>Modelled from the spec: \<^verbatim>\<open>QUIC_TLS_PROCESS_STATE\<close> is declared in a header that is
  not part of this file. The fields are the ones this file uses; the two buffer lengths are
  16 bits wide, as the locals they are copied to (\<^verbatim>\<open>PrevBufferLength\<close>,
  \<^verbatim>\<open>MaxServerMessageLength\<close>), the totals and offsets 32 bits. \<open>Buffer\<close> is the
  allocation \<^verbatim>\<open>State->Buffer\<close> points to.\<close>

record QUIC_TLS_PROCESS_STATE =
  HandshakeComplete :: bool
  EarlyDataAttempted :: bool
  EarlyDataAccepted :: bool
  BufferAllocLength :: uint16_t
  BufferLength :: uint16_t
  BufferTotalLength :: uint32_t
  BufferOffsetHandshake :: uint32_t
  BufferOffset1Rtt :: uint32_t
  Buffer :: "uint8_t list"
  ReadKey :: QUIC_PACKET_KEY_TYPE
  WriteKey :: QUIC_PACKET_KEY_TYPE
  ReadKeys :: "QUIC_PACKET_KEY_TYPE \<Rightarrow> QUIC_PACKET_KEY option"
  WriteKeys :: "QUIC_PACKET_KEY_TYPE \<Rightarrow> QUIC_PACKET_KEY option"

text \<open>Modelled from the spec: the values of the result flags are declared outside this
  file. Each is one bit of the mask, so the mask is the set of the flags raised.\<close>

datatype QUIC_TLS_RESULT_FLAG =
    QUIC_TLS_RESULT_ERROR
  | QUIC_TLS_RESULT_DATA
  | QUIC_TLS_RESULT_READ_KEY_UPDATED
  | QUIC_TLS_RESULT_WRITE_KEY_UPDATED
  | QUIC_TLS_RESULT_EARLY_DATA_ACCEPT
  | QUIC_TLS_RESULT_EARLY_DATA_REJECT
  | QUIC_TLS_RESULT_COMPLETE
  | QUIC_TLS_RESULT_TICKET

type_synonym QUIC_TLS_RESULT_FLAGS = "QUIC_TLS_RESULT_FLAG set"

text \<open>The certificate collaborator and the validation flag, which this file only calls.\<close>

record cert_platform =
  QuicCertSelect :: "PQUIC_CERT option \<Rightarrow> uint16_t list \<Rightarrow> uint16_t option"
  QuicCertParseChain :: "uint16_t \<Rightarrow> uint8_t list \<Rightarrow> PQUIC_CERT option"
  QuicCertValidateChain :: "PQUIC_CERT \<Rightarrow> uint8_t list option \<Rightarrow> uint32_t \<Rightarrow> bool"
  QUIC_CERTIFICATE_FLAG_DISABLE_CERT_VALIDATION :: uint32_t

text \<open>What a processing call hands back: the flags, \<^verbatim>\<open>*BufferLength\<close> (the bytes
  consumed), and the context and the state as the call leaves them.\<close>

record process_result =
  ResultFlags :: QUIC_TLS_RESULT_FLAGS
  DrainLength :: uint32_t
  TlsContext :: QUIC_TLS
  State :: QUIC_TLS_PROCESS_STATE

text \<open>\<^verbatim>\<open>strlen\<close> and the bytes it counts.\<close>

definition cstring :: "uint8_t list \<Rightarrow> uint8_t list" where
  "cstring s = takeWhile (\<lambda>c. c \<noteq> 0) s"

definition strlen :: "uint8_t list \<Rightarrow> nat" where
  "strlen s = length (cstring s)"

text \<open>\<^verbatim>\<open>QuicTlsReset\<close>.\<close>

definition QuicTlsReset :: "QUIC_TLS \<Rightarrow> fault + QUIC_TLS" where
  "QuicTlsReset ctx =
     (if IsServer ctx then Inl DbgAssert
      else Inr (ctx\<lparr>LastMessageType := QUIC_TLS_MESSAGE_INVALID\<rparr>))"

section \<open>The server's state machine\<close>

text \<open>The body of the \<^verbatim>\<open>switch (ExtType)\<close> of the extension loop. \<open>ext\<close> is the offset of
  \<^verbatim>\<open>ExtList\<close> in the input. The test \<^verbatim>\<open>SNI->NameLength != 0\<close> compares the address of an
  array member with null and always holds, so the name is stored whatever its length.\<close>

definition ServerProcessExtension ::
  "uint8_t list \<Rightarrow> nat \<Rightarrow> uint16_t \<Rightarrow> uint16_t \<Rightarrow> QUIC_TLS \<Rightarrow> QUIC_TLS_PROCESS_STATE
     \<Rightarrow> fault + (QUIC_TLS \<times> QUIC_TLS_PROCESS_STATE)" where
  "ServerProcessExtension b ext ExtType ExtLength ctx st =
     (if ExtType = TlsExt_ServerName then
        fbind (mem_read b (ext + 7) 2) (\<lambda>nl.
        fbind (mem_read b (ext + 9) (unat (TlsReadUint16 nl))) (\<lambda>name.
          Inr (ctx\<lparr>SNI := Some name\<rparr>, st)))
      else if ExtType = TlsExt_AppProtocolNegotiation then Inr (ctx, st)
      else if ExtType = TlsExt_SessionTicket then
        Inr (ctx, st\<lparr>EarlyDataAttempted := True, EarlyDataAccepted := True\<rparr>)
      else if ExtType = TlsExt_QuicTransportParameters then
        fbind (mem_read b (ext + 4) (unat ExtLength)) (\<lambda>tp.
          Inr (ctx\<lparr>ReceivedTP := ReceivedTP ctx @ [(ExtLength, tp)]\<rparr>, st))
      else Inl FreAssert)"

lemma fbind_cong [fundef_cong]:
  "m = m' \<Longrightarrow> (\<And>x. m' = Inr x \<Longrightarrow> f x = f' x) \<Longrightarrow> fbind m f = fbind m' f'"
  by (simp add: fbind_def split: sum.split)

text \<open>The loop \<^verbatim>\<open>while (ExtListLength > 0)\<close>.\<close>

function ServerReadExtList ::
  "uint8_t list \<Rightarrow> nat \<Rightarrow> uint16_t \<Rightarrow> QUIC_TLS \<Rightarrow> QUIC_TLS_PROCESS_STATE
     \<Rightarrow> fault + (QUIC_TLS \<times> QUIC_TLS_PROCESS_STATE)" where
  "ServerReadExtList b ext ExtListLength ctx st =
     (if 0 < ExtListLength then
        fbind (mem_read b ext 2) (\<lambda>tb.
        fbind (mem_read b (ext + 2) 2) (\<lambda>lb.
          if unat (TlsReadUint16 lb) + 4 \<le> unat ExtListLength then
            fbind (ServerProcessExtension b ext (TlsReadUint16 tb) (TlsReadUint16 lb) ctx st)
              (\<lambda>r. ServerReadExtList b (ext + (unat (TlsReadUint16 lb) + 4))
                     (ExtListLength - (TlsReadUint16 lb + 4)) (fst r) (snd r))
          else Inl FreAssert))
      else Inr (ctx, st))"
  by pat_completeness auto
termination
proof (relation "measure (\<lambda>(b, ext, l, ctx, st). unat l)")
  show "wf (measure (\<lambda>(b, ext, l, ctx, st). unat l))" by simp
next
  fix b :: "uint8_t list" and ext :: nat and ExtListLength :: uint16_t
    and ctx :: QUIC_TLS and st :: QUIC_TLS_PROCESS_STATE
    and tb lb :: "uint8_t list" and r :: "QUIC_TLS \<times> QUIC_TLS_PROCESS_STATE"
  assume le: "unat (TlsReadUint16 lb) + 4 \<le> unat ExtListLength"
  have "unat ExtListLength < 2 ^ 16" using unsigned_less [of ExtListLength] by simp
  with le have a: "unat (TlsReadUint16 lb + 4) = unat (TlsReadUint16 lb) + 4"
    by (simp add: unat_word_ariths)
  with le have "TlsReadUint16 lb + 4 \<le> ExtListLength" by (simp add: word_le_nat_alt)
  then have "unat (ExtListLength - (TlsReadUint16 lb + 4)) =
      unat ExtListLength - unat (TlsReadUint16 lb + 4)"
    by (rule unat_sub)
  with a le show "((b, ext + (unat (TlsReadUint16 lb) + 4),
       ExtListLength - (TlsReadUint16 lb + 4), fst r, snd r), (b, ext, ExtListLength, ctx, st))
      \<in> measure (\<lambda>(b, ext, l, ctx, st). unat l)"
    by simp
qed

declare ServerReadExtList.simps [simp del]

text \<open>The bit-field \<^verbatim>\<open>SERVER_INITIAL.EarlyDataAccepted\<close> is bit 1 of the body byte
  (\<^verbatim>\<open>Success\<close> is bit 0); storing it leaves the other bits of the byte as they are.\<close>

definition store_EarlyDataAccepted :: "uint8_t \<Rightarrow> bool \<Rightarrow> uint8_t" where
  "store_EarlyDataAccepted old v = (old AND NOT 2) OR (if v then 2 else 0)"

definition load_EarlyDataAccepted :: "uint8_t \<Rightarrow> bool" where
  "load_EarlyDataAccepted v = (v AND 2 \<noteq> 0)"

text \<open>\<^verbatim>\<open>SERVER_HANDSHAKE.CertificateLength\<close> is a \<^verbatim>\<open>uint16_t\<close> member stored in host
  byte order, little-endian on the supported targets.\<close>

definition store_host_uint16 :: "uint16_t \<Rightarrow> uint8_t list" where
  "store_host_uint16 v = [ucast v, ucast (drop_bit 8 v)]"

definition load_host_uint16 :: "uint8_t list \<Rightarrow> uint16_t" where
  "load_host_uint16 b = ucast (b ! 0) + push_bit 8 (ucast (b ! 1))"

text \<open>An exit through \<^verbatim>\<open>*ResultFlags |= QUIC_TLS_RESULT_ERROR; break;\<close>:
  \<^verbatim>\<open>DrainLength\<close> still has its initial value 0.\<close>

definition error_exit ::
  "QUIC_TLS_RESULT_FLAGS \<Rightarrow> QUIC_TLS \<Rightarrow> QUIC_TLS_PROCESS_STATE \<Rightarrow> fault + process_result" where
  "error_exit rf ctx st =
     Inr \<lparr> ResultFlags = insert QUIC_TLS_RESULT_ERROR rf, DrainLength = 0,
           TlsContext = ctx, State = st \<rparr>"

text \<open>\<^verbatim>\<open>DrainLength = (uint16_t)TlsReadUint24(Message->Length) + 4\<close>, where
  \<^verbatim>\<open>DrainLength\<close> is a \<^verbatim>\<open>uint16_t\<close>, then \<^verbatim>\<open>*BufferLength = DrainLength\<close>.\<close>

definition drain_length :: "uint8_t list \<Rightarrow> uint32_t" where
  "drain_length len = ucast ((ucast (TlsReadUint24 len) :: uint16_t) + 4)"

text \<open>The second half of the server's first flight: the preflight for the ServerHandshake,
  the keys, the record, the drain length. \<open>st\<close> is the state after the ServerInitial was
  emitted; \<open>b\<close> the input.\<close>

definition ServerSendHandshake ::
  "QUIC_SEC_CONFIG \<Rightarrow> QUIC_TLS \<Rightarrow> QUIC_TLS_RESULT_FLAGS \<Rightarrow> QUIC_TLS_PROCESS_STATE
     \<Rightarrow> uint8_t list \<Rightarrow> fault + process_result" where
  "ServerSendHandshake sc ctx rf st b =
     (let sm = unat (BufferLength st);
          MaxServerMessageLength = BufferAllocLength st - BufferLength st
      in
      if unat MaxServerMessageLength
           < unat (MinMessageLengths QUIC_TLS_MESSAGE_SERVER_HANDSHAKE) + unat (FormatLength sc)
      then error_exit rf ctx st
      else
        let rf1 = (if EarlyDataAccepted st
                   then insert QUIC_TLS_RESULT_EARLY_DATA_ACCEPT rf else rf);
            st1 = (if EarlyDataAccepted st
                   then st\<lparr>ReadKeys := (ReadKeys st)
                          (QUIC_PACKET_KEY_0_RTT \<mapsto> QuicStubAllocKey QUIC_PACKET_KEY_0_RTT)\<rparr>
                   else st);
            rf2 = insert QUIC_TLS_RESULT_READ_KEY_UPDATED rf1;
            st2 = st1\<lparr>ReadKey := QUIC_PACKET_KEY_HANDSHAKE,
                      ReadKeys := (ReadKeys st1)
                        (QUIC_PACKET_KEY_HANDSHAKE \<mapsto> QuicStubAllocKey QUIC_PACKET_KEY_HANDSHAKE)\<rparr>;
            rf3 = insert QUIC_TLS_RESULT_WRITE_KEY_UPDATED rf2;
            st3 = st2\<lparr>WriteKey := QUIC_PACKET_KEY_HANDSHAKE,
                      WriteKeys := (WriteKeys st2)
                        (QUIC_PACKET_KEY_HANDSHAKE \<mapsto> QuicStubAllocKey QUIC_PACKET_KEY_HANDSHAKE)\<rparr>;
            MessageLength =
              MinMessageLengths QUIC_TLS_MESSAGE_SERVER_HANDSHAKE + FormatLength sc
        in
        fbind (mem_read (LocalTPBuffer ctx) 0 (unat (LocalTPLength ctx))) (\<lambda>tp.
        fbind (mem_read (FormatBuffer sc) 0 (unat (FormatLength sc))) (\<lambda>cert.
        fbind (mem_writes (Buffer st3)
                 [(sm + off_Length, TlsWriteUint24 (ucast MessageLength - 4)),
                  (sm + off_Type, [message_type_value QUIC_TLS_MESSAGE_SERVER_HANDSHAKE]),
                  (sm + off_Body, [ucast (LocalTPLength ctx)]),
                  (sm + off_QuicTP, tp),
                  (sm + off_CertificateLength, store_host_uint16 (FormatLength sc)),
                  (sm + off_Certificate, cert)]) (\<lambda>b'.
          let st4 = st3\<lparr>Buffer := b',
                        BufferLength := BufferLength st3 + MessageLength,
                        BufferTotalLength := BufferTotalLength st3 + ucast MessageLength\<rparr>;
              st5 = st4\<lparr>BufferOffset1Rtt := BufferTotalLength st4\<rparr>;
              rf4 = insert QUIC_TLS_RESULT_DATA rf3;
              rf5 = insert QUIC_TLS_RESULT_WRITE_KEY_UPDATED rf4;
              st6 = st5\<lparr>WriteKey := QUIC_PACKET_KEY_1_RTT,
                        WriteKeys := (WriteKeys st5)
                          (QUIC_PACKET_KEY_1_RTT \<mapsto> QuicStubAllocKey QUIC_PACKET_KEY_1_RTT)\<rparr>
          in
          fbind (mem_read b off_Length 3) (\<lambda>len.
            Inr \<lparr> ResultFlags = rf5, DrainLength = drain_length len,
                  TlsContext = ctx\<lparr>LastMessageType := QUIC_TLS_MESSAGE_SERVER_HANDSHAKE\<rparr>,
                  State = st6 \<rparr>)))))"

text \<open>The first half, after the extension loop: the preflight for the ServerInitial, the
  signature algorithm, the record. \<open>MaxServerMessageLength\<close> was computed on entry.\<close>

definition ServerSendInitial ::
  "cert_platform \<Rightarrow> uint16_t \<Rightarrow> QUIC_TLS \<Rightarrow> QUIC_TLS_RESULT_FLAGS \<Rightarrow> QUIC_TLS_PROCESS_STATE
     \<Rightarrow> uint8_t list \<Rightarrow> fault + process_result" where
  "ServerSendInitial cp MaxServerMessageLength ctx rf st b =
     (case SecConfig ctx of
        None \<Rightarrow> Inl DbgAssert
      | Some sc \<Rightarrow>
          if MaxServerMessageLength < MinMessageLengths QUIC_TLS_MESSAGE_SERVER_INITIAL
          then error_exit rf ctx st
          else if QuicCertSelect cp (Certificate sc) [0x0804] = None
          then error_exit rf ctx st
          else
            let MessageLength = MinMessageLengths QUIC_TLS_MESSAGE_SERVER_INITIAL;
                sm = unat (BufferLength st)
            in
            fbind (mem_writes (Buffer st)
                     [(sm + off_Length, TlsWriteUint24 (ucast MessageLength - 4)),
                      (sm + off_Type, [message_type_value QUIC_TLS_MESSAGE_SERVER_INITIAL])])
              (\<lambda>b1.
            fbind (mem_read b1 (sm + off_Body) 1) (\<lambda>old.
            fbind (mem_write b1 (sm + off_Body)
                     [store_EarlyDataAccepted (old ! 0) (EarlyDataAccepted st)]) (\<lambda>b2.
              ServerSendHandshake sc ctx rf
                (st\<lparr>Buffer := b2, BufferLength := MessageLength,
                    BufferTotalLength := ucast MessageLength,
                    BufferOffsetHandshake := ucast MessageLength\<rparr>) b))))"

text \<open>\<^verbatim>\<open>case QUIC_TLS_MESSAGE_INVALID\<close> of the server.\<close>

definition ServerProcessClientInitial ::
  "cert_platform \<Rightarrow> uint16_t \<Rightarrow> QUIC_TLS \<Rightarrow> QUIC_TLS_RESULT_FLAGS \<Rightarrow> QUIC_TLS_PROCESS_STATE
     \<Rightarrow> uint8_t list \<Rightarrow> fault + process_result" where
  "ServerProcessClientInitial cp MaxServerMessageLength ctx rf st b =
     fbind (mem_read b off_Type 1) (\<lambda>ty.
       if ty ! 0 \<noteq> message_type_value QUIC_TLS_MESSAGE_CLIENT_INITIAL then Inl FreAssert
       else
         fbind (mem_read b off_ExtListLength 2) (\<lambda>ell.
         fbind (ServerReadExtList b off_ExtList (TlsReadUint16 ell) ctx
                  (st\<lparr>EarlyDataAttempted := False, EarlyDataAccepted := False\<rparr>)) (\<lambda>r.
           ServerSendInitial cp MaxServerMessageLength (fst r) rf (snd r) b)))"

text \<open>\<^verbatim>\<open>case QUIC_TLS_MESSAGE_SERVER_HANDSHAKE\<close> of the server: first the part after the
  security configuration is released (the preflight, the Ticket record, the 1-RTT read
  key, the drain length), then the whole case.\<close>

definition ServerSendTicket ::
  "uint16_t \<Rightarrow> QUIC_TLS \<Rightarrow> QUIC_TLS_RESULT_FLAGS \<Rightarrow> QUIC_TLS_PROCESS_STATE
     \<Rightarrow> uint8_t list \<Rightarrow> fault + process_result" where
  "ServerSendTicket MaxServerMessageLength ctx rf st b =
     (if MaxServerMessageLength < MinMessageLengths QUIC_TLS_MESSAGE_TICKET
      then error_exit rf ctx st
      else
        let MessageLength = MinMessageLengths QUIC_TLS_MESSAGE_TICKET;
            sm = unat (BufferLength st)
        in
        fbind (mem_writes (Buffer st)
                 [(sm + off_Length, TlsWriteUint24 (ucast MessageLength - 4)),
                  (sm + off_Type, [message_type_value QUIC_TLS_MESSAGE_TICKET]),
                  (sm + off_Body, [1])]) (\<lambda>b'.
          let rf2 = insert QUIC_TLS_RESULT_DATA rf;
              st1 = st\<lparr>Buffer := b',
                       BufferLength := BufferLength st + MessageLength,
                       BufferTotalLength := BufferTotalLength st + ucast MessageLength\<rparr>;
              rf3 = insert QUIC_TLS_RESULT_READ_KEY_UPDATED rf2;
              st2 = st1\<lparr>ReadKey := QUIC_PACKET_KEY_1_RTT,
                        ReadKeys := (ReadKeys st1)
                          (QUIC_PACKET_KEY_1_RTT \<mapsto> QuicStubAllocKey QUIC_PACKET_KEY_1_RTT)\<rparr>;
              ctx2 = ctx\<lparr>LastMessageType := QUIC_TLS_MESSAGE_TICKET\<rparr>
          in
          fbind (mem_read b off_Length 3) (\<lambda>len.
            Inr \<lparr> ResultFlags = rf3, DrainLength = drain_length len,
                  TlsContext = ctx2, State = st2 \<rparr>)))"

definition ServerProcessClientHandshake ::
  "uint16_t \<Rightarrow> QUIC_TLS \<Rightarrow> QUIC_TLS_RESULT_FLAGS \<Rightarrow> QUIC_TLS_PROCESS_STATE
     \<Rightarrow> uint8_t list \<Rightarrow> fault + process_result" where
  "ServerProcessClientHandshake MaxServerMessageLength ctx rf st b =
     fbind (mem_read b off_Type 1) (\<lambda>ty.
       if ty ! 0 = message_type_value QUIC_TLS_MESSAGE_CLIENT_HANDSHAKE then
         fbind (mem_read b off_Body 1) (\<lambda>su.
           if su ! 0 = 0 then error_exit rf ctx st
           else
             case SecConfig ctx of
               None \<Rightarrow> Inl NullDeref
             | Some sc \<Rightarrow>
                 ServerSendTicket MaxServerMessageLength (ctx\<lparr>SecConfig := None\<rparr>)
                   (insert QUIC_TLS_RESULT_COMPLETE rf) st b)
       else error_exit rf ctx st)"

text \<open>\<^verbatim>\<open>QuicTlsServerProcess\<close>. \<open>rf\<close> is \<^verbatim>\<open>*ResultFlags\<close> on entry, \<open>b\<close> the
  \<^verbatim>\<open>*BufferLength\<close> bytes at \<^verbatim>\<open>Buffer\<close>.\<close>

definition QuicTlsServerProcess ::
  "cert_platform \<Rightarrow> QUIC_TLS \<Rightarrow> QUIC_TLS_RESULT_FLAGS \<Rightarrow> QUIC_TLS_PROCESS_STATE
     \<Rightarrow> uint8_t list \<Rightarrow> fault + process_result" where
  "QuicTlsServerProcess cp ctx rf st b =
     (if \<not> BufferLength st < BufferAllocLength st then Inl DbgAssert
      else
        let MaxServerMessageLength = BufferAllocLength st - BufferLength st in
        case LastMessageType ctx of
          QUIC_TLS_MESSAGE_INVALID \<Rightarrow>
            ServerProcessClientInitial cp MaxServerMessageLength ctx rf st b
        | QUIC_TLS_MESSAGE_SERVER_HANDSHAKE \<Rightarrow>
            ServerProcessClientHandshake MaxServerMessageLength ctx rf st b
        | _ \<Rightarrow> error_exit rf ctx st)"

section \<open>The client's state machine\<close>

text \<open>The client's extension list (from \<^verbatim>\<open>uint16_t ExtListLength = 0\<close> up to the store
  of \<^verbatim>\<open>CLIENT_INITIAL.ExtListLength\<close>, which the caller does). \<open>ext\<close> is the offset of
  \<^verbatim>\<open>ClientMessage->CLIENT_INITIAL.ExtList\<close> in the output buffer \<open>b\<close>; the result is the
  final \<^verbatim>\<open>ExtListLength\<close> and the buffer. The running length is a \<^verbatim>\<open>uint16_t\<close> and
  wraps; the lengths written into the extensions are truncated as the casts do.\<close>

definition ClientWriteSni :: "QUIC_TLS \<Rightarrow> uint8_t list \<Rightarrow> nat \<Rightarrow> fault + (uint16_t \<times> uint8_t list)"
  where
  "ClientWriteSni ctx b ext =
     (case SNI ctx of
        None \<Rightarrow> Inr (0, b)
      | Some s \<Rightarrow>
          let SniNameLength = (of_nat (strlen s) :: uint16_t) in
          fbind (mem_writes b
                   [(ext, TlsWriteUint16 TlsExt_ServerName),
                    (ext + 2, TlsWriteUint16 (5 + SniNameLength)),
                    (ext + 4, TlsWriteUint16 (3 + SniNameLength)),
                    (ext + 6, [TlsExt_Sni_NameType_HostName]),
                    (ext + 7, TlsWriteUint16 SniNameLength),
                    (ext + 9, take (unat SniNameLength) (cstring s))])
            (\<lambda>b'. Inr (0 + (9 + SniNameLength), b')))"

definition ClientWriteAlpn ::
  "QUIC_TLS \<Rightarrow> uint16_t \<Rightarrow> uint8_t list \<Rightarrow> nat \<Rightarrow> fault + (uint16_t \<times> uint8_t list)" where
  "ClientWriteAlpn ctx ExtListLength b ext =
     (let e = ext + unat ExtListLength;
          AlpnLen = AlpnLength (TlsSession ctx)
      in
      fbind (mem_read (Alpn (TlsSession ctx)) 0 (unat AlpnLen)) (\<lambda>alpn.
      fbind (mem_writes b
               [(e, TlsWriteUint16 TlsExt_AppProtocolNegotiation),
                (e + 2, TlsWriteUint16 (3 + AlpnLen)),
                (e + 4, TlsWriteUint16 (1 + AlpnLen)),
                (e + 6, [ucast AlpnLen]),
                (e + 7, alpn)])
        (\<lambda>b'. Inr (ExtListLength + (7 + AlpnLen), b'))))"

definition ClientWriteTicket ::
  "QUIC_TLS_PROCESS_STATE \<Rightarrow> uint16_t \<Rightarrow> uint8_t list \<Rightarrow> nat
     \<Rightarrow> fault + (uint16_t \<times> uint8_t list)" where
  "ClientWriteTicket st ExtListLength b ext =
     (if EarlyDataAttempted st then
        let e = ext + unat ExtListLength in
        fbind (mem_writes b
                 [(e, TlsWriteUint16 TlsExt_SessionTicket),
                  (e + 2, TlsWriteUint16 0)])
          (\<lambda>b'. Inr (ExtListLength + 4, b'))
      else Inr (ExtListLength, b))"

definition ClientWriteQuicTP ::
  "QUIC_TLS \<Rightarrow> uint16_t \<Rightarrow> uint8_t list \<Rightarrow> nat \<Rightarrow> fault + (uint16_t \<times> uint8_t list)" where
  "ClientWriteQuicTP ctx ExtListLength b ext =
     (let e = ext + unat ExtListLength in
      fbind (mem_read (LocalTPBuffer ctx) 0 (unat (LocalTPLength ctx))) (\<lambda>tp.
      fbind (mem_writes b
               [(e, TlsWriteUint16 TlsExt_QuicTransportParameters),
                (e + 2, TlsWriteUint16 (ucast (LocalTPLength ctx))),
                (e + 4, tp)])
        (\<lambda>b'. Inr (ExtListLength + (4 + ucast (LocalTPLength ctx)), b'))))"

definition ClientWriteExtList ::
  "QUIC_TLS \<Rightarrow> QUIC_TLS_PROCESS_STATE \<Rightarrow> uint8_t list \<Rightarrow> nat
     \<Rightarrow> fault + (uint16_t \<times> uint8_t list)" where
  "ClientWriteExtList ctx st b ext =
     fbind (ClientWriteSni ctx b ext) (\<lambda>r1.
     fbind (ClientWriteAlpn ctx (fst r1) (snd r1) ext) (\<lambda>r2.
     fbind (ClientWriteTicket st (fst r2) (snd r2) ext) (\<lambda>r3.
       ClientWriteQuicTP ctx (fst r3) (snd r3) ext)))"

text \<open>\<^verbatim>\<open>case QUIC_TLS_MESSAGE_INVALID\<close> of the client: the ClientInitial. No test of the
  room left in the buffer precedes the stores; \<^verbatim>\<open>Random\<close> and \<^verbatim>\<open>CompressionMethod\<close>
  are not stored.\<close>

definition ClientSendInitial ::
  "QUIC_TLS \<Rightarrow> QUIC_TLS_RESULT_FLAGS \<Rightarrow> QUIC_TLS_PROCESS_STATE \<Rightarrow> fault + process_result" where
  "ClientSendInitial ctx rf st =
     (let st1 = st\<lparr>EarlyDataAttempted := True, EarlyDataAccepted := False\<rparr>;
          cm = unat (BufferLength st)
      in
      fbind (mem_writes (Buffer st1)
               [(cm + off_Type, [TlsHandshake_ClientHello]),
                (cm + off_Version, TlsWriteUint16 0x0302),
                (cm + off_SessionIdLength, [0]),
                (cm + off_CipherSuiteLength, TlsWriteUint16 0),
                (cm + off_CompressionMethodLength, [1])]) (\<lambda>b1.
      fbind (ClientWriteExtList ctx st1 b1 (cm + off_ExtList)) (\<lambda>r.
        let ExtListLength = fst r;
            MessageLength =
              (of_nat sizeof_QUIC_TLS_CLIENT_HELLO + ExtListLength + 4 :: uint16_t)
        in
        fbind (mem_writes (snd r)
                 [(cm + off_ExtListLength, TlsWriteUint16 ExtListLength),
                  (cm + off_Length, TlsWriteUint24 (ucast MessageLength - 4))]) (\<lambda>b2.
          let rf1 = insert QUIC_TLS_RESULT_DATA rf;
              st2 = st1\<lparr>Buffer := b2, BufferLength := MessageLength,
                        BufferTotalLength := ucast MessageLength\<rparr>;
              st3 = (if EarlyDataAttempted st2
                     then st2\<lparr>WriteKey := QUIC_PACKET_KEY_0_RTT,
                              WriteKeys := (WriteKeys st2)
                                (QUIC_PACKET_KEY_0_RTT \<mapsto>
                                   QuicStubAllocKey QUIC_PACKET_KEY_0_RTT)\<rparr>
                     else st2)
          in
          Inr \<lparr> ResultFlags = rf1, DrainLength = 0,
                TlsContext = ctx\<lparr>LastMessageType := QUIC_TLS_MESSAGE_CLIENT_INITIAL\<rparr>,
                State = st3 \<rparr>))))"

text \<open>The tail of the ServerHandshake branch, after the certificate checks: completion,
  the preflight, the ClientHandshake record, the 1-RTT keys.\<close>

definition ClientSendHandshake ::
  "uint16_t \<Rightarrow> QUIC_TLS \<Rightarrow> QUIC_TLS_RESULT_FLAGS \<Rightarrow> QUIC_TLS_PROCESS_STATE
     \<Rightarrow> uint8_t list \<Rightarrow> fault + process_result" where
  "ClientSendHandshake MaxClientMessageLength ctx rf st b =
     (let st1 = st\<lparr>HandshakeComplete := True\<rparr>;
          rf1 = insert QUIC_TLS_RESULT_COMPLETE rf
      in
      if MaxClientMessageLength < MinMessageLengths QUIC_TLS_MESSAGE_CLIENT_HANDSHAKE
      then error_exit rf1 ctx st1
      else
        let MessageLength = MinMessageLengths QUIC_TLS_MESSAGE_CLIENT_HANDSHAKE;
            cm = unat (BufferLength st1)
        in
        fbind (mem_writes (Buffer st1)
                 [(cm + off_Length, TlsWriteUint24 (ucast MessageLength - 4)),
                  (cm + off_Type, [message_type_value QUIC_TLS_MESSAGE_CLIENT_HANDSHAKE]),
                  (cm + off_Body, [1])]) (\<lambda>b'.
          let rf2 = insert QUIC_TLS_RESULT_DATA rf1;
              st2 = st1\<lparr>Buffer := b',
                        BufferLength := BufferLength st1 + MessageLength,
                        BufferTotalLength := BufferTotalLength st1 + ucast MessageLength\<rparr>;
              st3 = st2\<lparr>BufferOffset1Rtt := BufferTotalLength st2\<rparr>;
              rf3 = insert QUIC_TLS_RESULT_READ_KEY_UPDATED rf2;
              st4 = st3\<lparr>ReadKey := QUIC_PACKET_KEY_1_RTT,
                        ReadKeys := (ReadKeys st3)
                          (QUIC_PACKET_KEY_1_RTT \<mapsto> QuicStubAllocKey QUIC_PACKET_KEY_1_RTT)\<rparr>;
              rf4 = insert QUIC_TLS_RESULT_WRITE_KEY_UPDATED rf3;
              st5 = st4\<lparr>WriteKey := QUIC_PACKET_KEY_1_RTT,
                        WriteKeys := (WriteKeys st4)
                          (QUIC_PACKET_KEY_1_RTT \<mapsto> QuicStubAllocKey QUIC_PACKET_KEY_1_RTT)\<rparr>
          in
          fbind (mem_read b off_Length 3) (\<lambda>len.
            Inr \<lparr> ResultFlags = rf4, DrainLength = drain_length len,
                  TlsContext = ctx\<lparr>LastMessageType := QUIC_TLS_MESSAGE_CLIENT_HANDSHAKE\<rparr>,
                  State = st5 \<rparr>)))"

text \<open>The certificate checks of the ServerHandshake branch: whether the handshake may go
  on. Both failures (no chain parsed, chain not valid) leave through the same error exit.\<close>

definition ClientCheckCertificate ::
  "cert_platform \<Rightarrow> QUIC_TLS \<Rightarrow> QUIC_SEC_CONFIG \<Rightarrow> uint8_t list \<Rightarrow> fault + bool" where
  "ClientCheckCertificate cp ctx sc b =
     (if Flags sc AND QUIC_CERTIFICATE_FLAG_DISABLE_CERT_VALIDATION cp \<noteq> 0 then Inr True
      else
        fbind (mem_read b off_CertificateLength 2) (\<lambda>cl.
          case QuicCertParseChain cp (load_host_uint16 cl) (drop off_Certificate b) of
            None \<Rightarrow> Inr False
          | Some ServerCert \<Rightarrow> Inr (QuicCertValidateChain cp ServerCert (SNI ctx) (Flags sc))))"

text \<open>The ServerHandshake branch of \<^verbatim>\<open>case QUIC_TLS_MESSAGE_CLIENT_INITIAL\<close>.\<close>

definition ClientProcessServerHandshake ::
  "cert_platform \<Rightarrow> uint16_t \<Rightarrow> QUIC_TLS \<Rightarrow> QUIC_TLS_RESULT_FLAGS \<Rightarrow> QUIC_TLS_PROCESS_STATE
     \<Rightarrow> uint8_t list \<Rightarrow> fault + process_result" where
  "ClientProcessServerHandshake cp MaxClientMessageLength ctx rf st b =
     fbind (mem_read b off_Body 1) (\<lambda>tl.
     fbind (mem_read b off_QuicTP (unat (tl ! 0))) (\<lambda>tp.
       let ctx1 = ctx\<lparr>ReceivedTP := ReceivedTP ctx @ [(ucast (tl ! 0), tp)]\<rparr> in
       case SecConfig ctx1 of
         None \<Rightarrow> Inl NullDeref
       | Some sc \<Rightarrow>
           fbind (ClientCheckCertificate cp ctx1 sc b) (\<lambda>ok.
             if \<not> ok then error_exit rf ctx1 st
             else ClientSendHandshake MaxClientMessageLength ctx1 rf st b)))"

text \<open>The ServerInitial branch of \<^verbatim>\<open>case QUIC_TLS_MESSAGE_CLIENT_INITIAL\<close>: first the
  block under \<^verbatim>\<open>if (State->EarlyDataAttempted)\<close>, then the handshake keys.\<close>

definition ClientEarlyDataOutcome ::
  "QUIC_TLS_RESULT_FLAGS \<Rightarrow> QUIC_TLS_PROCESS_STATE \<Rightarrow> uint8_t list
     \<Rightarrow> fault + (QUIC_TLS_RESULT_FLAGS \<times> QUIC_TLS_PROCESS_STATE)" where
  "ClientEarlyDataOutcome rf st b =
     (if EarlyDataAttempted st then
        fbind (mem_read b off_Body 1) (\<lambda>body.
          if \<not> load_EarlyDataAccepted (body ! 0)
          then Inr (insert QUIC_TLS_RESULT_EARLY_DATA_REJECT rf,
                    st\<lparr>EarlyDataAccepted := False\<rparr>)
          else Inr (insert QUIC_TLS_RESULT_EARLY_DATA_ACCEPT rf,
                    st\<lparr>EarlyDataAccepted := True\<rparr>))
      else Inr (rf, st))"

definition ClientProcessServerInitial ::
  "QUIC_TLS \<Rightarrow> QUIC_TLS_RESULT_FLAGS \<Rightarrow> QUIC_TLS_PROCESS_STATE \<Rightarrow> uint8_t list
     \<Rightarrow> fault + process_result" where
  "ClientProcessServerInitial ctx rf st b =
     fbind (ClientEarlyDataOutcome rf st b) (\<lambda>r.
       let rf1 = fst r;
           st1 = (snd r)\<lparr>BufferOffsetHandshake := BufferTotalLength (snd r)\<rparr>;
           rf2 = insert QUIC_TLS_RESULT_READ_KEY_UPDATED rf1;
           st2 = st1\<lparr>ReadKey := QUIC_PACKET_KEY_HANDSHAKE,
                     ReadKeys := (ReadKeys st1)
                       (QUIC_PACKET_KEY_HANDSHAKE \<mapsto> QuicStubAllocKey QUIC_PACKET_KEY_HANDSHAKE)\<rparr>;
           rf3 = insert QUIC_TLS_RESULT_WRITE_KEY_UPDATED rf2;
           st3 = st2\<lparr>WriteKey := QUIC_PACKET_KEY_HANDSHAKE,
                     WriteKeys := (WriteKeys st2)
                       (QUIC_PACKET_KEY_HANDSHAKE \<mapsto> QuicStubAllocKey QUIC_PACKET_KEY_HANDSHAKE)\<rparr>
       in
       fbind (mem_read b off_Length 3) (\<lambda>len.
         Inr \<lparr> ResultFlags = rf3, DrainLength = drain_length len,
               TlsContext = ctx, State = st3 \<rparr>))"

text \<open>\<^verbatim>\<open>case QUIC_TLS_MESSAGE_CLIENT_HANDSHAKE\<close> of the client.\<close>

definition ClientProcessTicket ::
  "QUIC_TLS \<Rightarrow> QUIC_TLS_RESULT_FLAGS \<Rightarrow> QUIC_TLS_PROCESS_STATE \<Rightarrow> uint8_t list
     \<Rightarrow> fault + process_result" where
  "ClientProcessTicket ctx rf st b =
     fbind (mem_read b off_Type 1) (\<lambda>ty.
       if ty ! 0 \<noteq> message_type_value QUIC_TLS_MESSAGE_TICKET then error_exit rf ctx st
       else
         fbind (mem_read b off_Length 3) (\<lambda>len.
           Inr \<lparr> ResultFlags = insert QUIC_TLS_RESULT_TICKET rf,
                 DrainLength = drain_length len,
                 TlsContext = ctx\<lparr>TicketReady := True\<rparr>, State = st \<rparr>))"

text \<open>\<^verbatim>\<open>QuicTlsClientProcess\<close>.\<close>

definition QuicTlsClientProcess ::
  "cert_platform \<Rightarrow> QUIC_TLS \<Rightarrow> QUIC_TLS_RESULT_FLAGS \<Rightarrow> QUIC_TLS_PROCESS_STATE
     \<Rightarrow> uint8_t list \<Rightarrow> fault + process_result" where
  "QuicTlsClientProcess cp ctx rf st b =
     (if \<not> BufferLength st < BufferAllocLength st then Inl DbgAssert
      else
        let MaxClientMessageLength = BufferAllocLength st - BufferLength st in
        case LastMessageType ctx of
          QUIC_TLS_MESSAGE_INVALID \<Rightarrow> ClientSendInitial ctx rf st
        | QUIC_TLS_MESSAGE_CLIENT_INITIAL \<Rightarrow>
            fbind (mem_read b off_Type 1) (\<lambda>ty.
              if ty ! 0 = message_type_value QUIC_TLS_MESSAGE_SERVER_INITIAL
              then ClientProcessServerInitial ctx rf st b
              else if ty ! 0 = message_type_value QUIC_TLS_MESSAGE_SERVER_HANDSHAKE
              then ClientProcessServerHandshake cp MaxClientMessageLength ctx rf st b
              else error_exit rf ctx st)
        | QUIC_TLS_MESSAGE_CLIENT_HANDSHAKE \<Rightarrow> ClientProcessTicket ctx rf st b
        | _ \<Rightarrow> error_exit rf ctx st)"

section \<open>The entry point\<close>

text \<open>\<^verbatim>\<open>QuicTlsHasValidMessageToProcess\<close>; \<^verbatim>\<open>BufferLength\<close> is the length of \<open>b\<close>.\<close>

definition QuicTlsHasValidMessageToProcess :: "QUIC_TLS \<Rightarrow> uint8_t list \<Rightarrow> bool" where
  "QuicTlsHasValidMessageToProcess ctx b =
     (if \<not> IsServer ctx \<and> LastMessageType ctx = QUIC_TLS_MESSAGE_INVALID \<and> length b = 0
      then True
      else if length b < 7 then False
      else
        let MessageLength = TlsReadUint24 (take 3 (drop off_Length b)) + 4 in
        if length b < unat MessageLength then False else True)"

text \<open>\<^verbatim>\<open>QuicTlsProcessData\<close>.\<close>

definition QuicTlsProcessData ::
  "cert_platform \<Rightarrow> QUIC_TLS \<Rightarrow> uint8_t list \<Rightarrow> QUIC_TLS_PROCESS_STATE
     \<Rightarrow> fault + process_result" where
  "QuicTlsProcessData cp ctx b st =
     (if QuicTlsHasValidMessageToProcess ctx b then
        if IsServer ctx then QuicTlsServerProcess cp ctx {} st b
        else QuicTlsClientProcess cp ctx {} st b
      else Inr \<lparr> ResultFlags = {}, DrainLength = 0, TlsContext = ctx, State = st \<rparr>)"

section \<open>Example values\<close>

text \<open>A certificate collaborator that accepts everything, and contexts and states of the
  two roles, for the concrete runs below.\<close>

definition example_platform :: cert_platform where
  "example_platform =
     \<lparr> QuicCertSelect = (\<lambda>c algs. Some 0x0804),
       QuicCertParseChain = (\<lambda>n c. Some 1),
       QuicCertValidateChain = (\<lambda>c n f. True),
       QUIC_CERTIFICATE_FLAG_DISABLE_CERT_VALIDATION = 0x80000000 \<rparr>"

definition example_session :: QUIC_TLS_SESSION where
  "example_session = \<lparr> AlpnLength = 2, Alpn = [0x68, 0x33] \<rparr>"

definition example_sec_config :: "nat \<Rightarrow> QUIC_SEC_CONFIG" where
  "example_sec_config n =
     \<lparr> Flags = 0, Certificate = Some 1, FormatLength = of_nat n, FormatBuffer = replicate n 0xcc \<rparr>"

definition example_context ::
  "bool \<Rightarrow> QUIC_FAKE_TLS_MESSAGE_TYPE \<Rightarrow> uint8_t list option \<Rightarrow> uint8_t list \<Rightarrow> nat \<Rightarrow> QUIC_TLS"
  where
  "example_context server lm sni tp certlen =
     \<lparr> IsServer = server, TicketReady = False, LastMessageType = lm,
       TlsSession = example_session, SecConfig = Some (example_sec_config certlen),
       ReceivedTP = [], SNI = sni, LocalTPBuffer = tp, LocalTPLength = of_nat (length tp) \<rparr>"

text \<open>A fresh process state whose buffer holds \<open>n\<close> bytes.\<close>

definition example_state :: "nat \<Rightarrow> QUIC_TLS_PROCESS_STATE" where
  "example_state n =
     \<lparr> HandshakeComplete = False, EarlyDataAttempted = False, EarlyDataAccepted = False,
       BufferAllocLength = of_nat n, BufferLength = 0, BufferTotalLength = 0,
       BufferOffsetHandshake = 0, BufferOffset1Rtt = 0, Buffer = replicate n 0,
       ReadKey = QUIC_PACKET_KEY_INITIAL, WriteKey = QUIC_PACKET_KEY_INITIAL,
       ReadKeys = (\<lambda>k. None), WriteKeys = (\<lambda>k. None) \<rparr>"

lemmas example_defs = example_platform_def example_session_def example_sec_config_def
  example_context_def example_state_def

section \<open>Basic facts\<close>

lemma fbind_Inr_iff: "fbind m f = Inr y \<longleftrightarrow> (\<exists>x. m = Inr x \<and> f x = Inr y)"
  by (cases m) (simp_all add: fbind_def)

lemma fbind_Inr [simp]: "fbind (Inr x) f = f x"
  by (simp add: fbind_def)

lemma fbind_Inl [simp]: "fbind (Inl e) f = Inl e"
  by (simp add: fbind_def)

lemma error_exit_Inr_iff:
  "error_exit rf ctx st = Inr r \<longleftrightarrow>
     r = \<lparr> ResultFlags = insert QUIC_TLS_RESULT_ERROR rf, DrainLength = 0,
           TlsContext = ctx, State = st \<rparr>"
  by (auto simp: error_exit_def)

lemmas offs = off_Type_def off_Length_def off_Version_def off_SessionIdLength_def
  off_CipherSuiteLength_def off_CompressionMethodLength_def off_ExtListLength_def
  off_ExtList_def off_Body_def off_QuicTP_def off_CertificateLength_def off_Certificate_def
  sizeof_QUIC_TLS_CLIENT_HELLO_def TLS_RANDOM_LENGTH_def

subsection \<open>Memory\<close>

lemma length_poke: "off + length bs \<le> length b \<Longrightarrow> length (poke b off bs) = length b"
  by (simp add: poke_def)

lemma mem_write_ok: "off + length bs \<le> length b \<Longrightarrow> mem_write b off bs = Inr (poke b off bs)"
  by (simp add: mem_write_def)

lemma mem_read_ok: "off + n \<le> length b \<Longrightarrow> mem_read b off n = Inr (take n (drop off b))"
  by (simp add: mem_read_def)

lemma poke_poke_adjacent:
  "off + length xs + length ys \<le> length b \<Longrightarrow>
     poke (poke b off xs) (off + length xs) ys = poke b off (xs @ ys)"
  by (simp add: poke_def ac_simps)

lemma poke_poke_fuse:
  "off2 = off + length xs \<Longrightarrow> off + length xs + length ys \<le> length b \<Longrightarrow>
     poke (poke b off xs) off2 ys = poke b off (xs @ ys)"
  by (simp add: poke_poke_adjacent)

lemma drop_poke_beyond:
  "off + length bs \<le> length b \<Longrightarrow> off + length bs \<le> k \<Longrightarrow> drop k (poke b off bs) = drop k b"
  by (simp add: poke_def)

lemma take_poke_before:
  "off + length bs \<le> length b \<Longrightarrow> k \<le> off \<Longrightarrow> take k (poke b off bs) = take k b"
  by (simp add: poke_def min_def)

lemma mem_read_poke_disjoint:
  assumes "off + length bs \<le> length b" "off' + n \<le> off \<or> off + length bs \<le> off'"
  shows "mem_read (poke b off bs) off' n = mem_read b off' n"
proof (cases "off' + n \<le> length b")
  case False
  with assms show ?thesis by (simp add: mem_read_def length_poke)
next
  case True
  from assms(2) show ?thesis
  proof
    assume a: "off' + n \<le> off"
    have "take n (drop off' (poke b off bs)) = take n (drop off' (take (off' + n) (poke b off bs)))"
      by (simp add: drop_take)
    also have "take (off' + n) (poke b off bs) = take (off' + n) b"
      using assms(1) a by (rule take_poke_before)
    also have "take n (drop off' (take (off' + n) b)) = take n (drop off' b)"
      by (simp add: drop_take)
    finally show ?thesis using True assms(1) by (simp add: mem_read_def length_poke)
  next
    assume a: "off + length bs \<le> off'"
    with assms(1) have "drop off' (poke b off bs) = drop off' b" by (rule drop_poke_beyond)
    with True assms(1) show ?thesis by (simp add: mem_read_def length_poke)
  qed
qed

lemma mem_read_poke_within:
  assumes "off + length bs \<le> length b" "off \<le> off'" "off' + n \<le> off + length bs"
  shows "mem_read (poke b off bs) off' n = Inr (take n (drop (off' - off) bs))"
proof -
  have "drop off' (poke b off bs) = drop (off' - off) bs @ drop (off + length bs) b"
    using assms by (simp add: poke_def)
  moreover have "n \<le> length (drop (off' - off) bs)" using assms by simp
  ultimately show ?thesis using assms by (simp add: mem_read_def length_poke)
qed

subsection \<open>Wire codec\<close>

lemmas to_nat = unsigned_ucast_eq unsigned_push_bit_eq unat_drop_bit_eq unat_word_ariths
  take_bit_eq_mod push_bit_eq_mult drop_bit_eq_div

lemma unat_lt_256: "unat (a :: uint8_t) < 256"
  using unsigned_less [of a] by simp

lemma unat_lt_65536: "unat (a :: uint16_t) < 65536"
  using unsigned_less [of a] by simp

lemma unat_TlsReadUint24:
  "unat (TlsReadUint24 [a, b, c]) = unat a * 65536 + unat b * 256 + unat c"
  using unat_lt_256 [of a] unat_lt_256 [of b] unat_lt_256 [of c]
  by (simp add: TlsReadUint24_def to_nat)

lemma unat_TlsReadUint16:
  "unat (TlsReadUint16 [a, b]) = unat a * 256 + unat b"
  using unat_lt_256 [of a] unat_lt_256 [of b]
  by (simp add: TlsReadUint16_def to_nat)

lemma TlsReadUint16_TlsWriteUint16: "TlsReadUint16 (TlsWriteUint16 v) = v"
  using unat_lt_65536 [of v]
  by (simp add: word_unat_eq_iff TlsWriteUint16_def unat_TlsReadUint16 to_nat)

lemma TlsWriteUint16_consts:
  "TlsWriteUint16 TlsExt_ServerName = [0, 0]"
  "TlsWriteUint16 TlsExt_AppProtocolNegotiation = [0, 0x10]"
  "TlsWriteUint16 TlsExt_SessionTicket = [0, 0x23]"
  "TlsWriteUint16 TlsExt_QuicTransportParameters = [0xff, 0xa5]"
  by (simp_all add: TlsWriteUint16_def TlsExt_ServerName_def TlsExt_AppProtocolNegotiation_def
      TlsExt_SessionTicket_def TlsExt_QuicTransportParameters_def)

lemma length_TlsWriteUint16 [simp]: "length (TlsWriteUint16 v) = 2"
  by (simp add: TlsWriteUint16_def)

lemma length_TlsWriteUint24 [simp]: "length (TlsWriteUint24 v) = 3"
  by (simp add: TlsWriteUint24_def)

section \<open>The packet-key update\<close>

text \<open>An allocator over an arena of three blocks, first fit, and a heap in which block 1
  holds a 1-RTT key and block 2 a Handshake key.\<close>

definition example_allocator :: allocator where
  "example_allocator h =
     (if h 1 = None then 1 else if h 2 = None then 2 else if h 3 = None then 3 else 0)"

definition example_key_heap :: key_heap where
  "example_key_heap =
     [1 \<mapsto> \<lparr>Type = QUIC_PACKET_KEY_1_RTT\<rparr>, 2 \<mapsto> \<lparr>Type = QUIC_PACKET_KEY_HANDSHAKE\<rparr>]"

text \<open>When the allocator has no block to give, the update of a 1-RTT key stops at the
  assertion of \<^verbatim>\<open>QuicStubAllocKey\<close>.\<close>

lemma QuicPacketKeyUpdate_no_block:
  "OldKey \<noteq> 0 \<Longrightarrow> h OldKey = Some k \<Longrightarrow> Type k = QUIC_PACKET_KEY_1_RTT \<Longrightarrow> alloc h = 0
     \<Longrightarrow> QuicPacketKeyUpdate alloc h OldKey = Inl DbgAssert"
  by (simp add: QuicPacketKeyUpdate_def QuicStubAllocKey_heap_def)

text \<open>Claim C9: the key-update operation fails with InvalidState when the old key is absent
  or its epoch is not 1-RTT, and then hands out no key and leaves the heap as it was; when
  the old key's epoch is 1-RTT (and the allocator hands out a block that is not live) it
  succeeds and produces a new 1-RTT key handle: the handle is not null, is not the old
  key's, is the handle of no key that was live before the call, and the object behind it
  is a 1-RTT key; the keys that were live stay as they were.\<close>

theorem QuicPacketKeyUpdate_epoch:
  "(OldKey = 0 \<longrightarrow>
      QuicPacketKeyUpdate alloc h OldKey = Inr (QUIC_STATUS_INVALID_STATE, None, h)) \<and>
   (\<forall>k. OldKey \<noteq> 0 \<and> h OldKey = Some k \<and> Type k \<noteq> QUIC_PACKET_KEY_1_RTT \<longrightarrow>
      QuicPacketKeyUpdate alloc h OldKey = Inr (QUIC_STATUS_INVALID_STATE, None, h)) \<and>
   (\<forall>k. OldKey \<noteq> 0 \<and> h OldKey = Some k \<and> Type k = QUIC_PACKET_KEY_1_RTT \<and>
        alloc h \<noteq> 0 \<and> alloc h \<notin> dom h \<longrightarrow>
      (\<exists>NewKey h'.
         QuicPacketKeyUpdate alloc h OldKey = Inr (QUIC_STATUS_SUCCESS, Some NewKey, h') \<and>
         NewKey \<noteq> 0 \<and> NewKey \<noteq> OldKey \<and> NewKey \<notin> dom h \<and>
         h' NewKey = Some \<lparr>Type = QUIC_PACKET_KEY_1_RTT\<rparr> \<and>
         h' OldKey = Some k \<and>
         h' = h(NewKey \<mapsto> \<lparr>Type = QUIC_PACKET_KEY_1_RTT\<rparr>)))"
  by (auto simp: QuicPacketKeyUpdate_def QuicStubAllocKey_heap_def QuicStubAllocKey_def Let_def)

theorem QuicPacketKeyUpdate_epoch_witness:
  "QuicPacketKeyUpdate example_allocator example_key_heap 0 =
     Inr (QUIC_STATUS_INVALID_STATE, None, example_key_heap) \<and>
   example_key_heap 2 = Some \<lparr>Type = QUIC_PACKET_KEY_HANDSHAKE\<rparr> \<and>
   QuicPacketKeyUpdate example_allocator example_key_heap 2 =
     Inr (QUIC_STATUS_INVALID_STATE, None, example_key_heap) \<and>
   example_key_heap 1 = Some \<lparr>Type = QUIC_PACKET_KEY_1_RTT\<rparr> \<and>
   example_allocator example_key_heap = 3 \<and>
   3 \<notin> dom example_key_heap \<and>
   (\<exists>NewKey h'.
      QuicPacketKeyUpdate example_allocator example_key_heap 1 =
        Inr (QUIC_STATUS_SUCCESS, Some NewKey, h') \<and>
      NewKey \<noteq> 0 \<and> NewKey \<noteq> 1 \<and> NewKey \<notin> dom example_key_heap \<and>
      h' NewKey = Some \<lparr>Type = QUIC_PACKET_KEY_1_RTT\<rparr> \<and>
      h' 1 = Some \<lparr>Type = QUIC_PACKET_KEY_1_RTT\<rparr> \<and>
      h' = example_key_heap(NewKey \<mapsto> \<lparr>Type = QUIC_PACKET_KEY_1_RTT\<rparr>))"
  using QuicPacketKeyUpdate_epoch [of 0 example_allocator example_key_heap]
    QuicPacketKeyUpdate_epoch [of 2 example_allocator example_key_heap]
    QuicPacketKeyUpdate_epoch [of 1 example_allocator example_key_heap]
  by (simp add: example_allocator_def example_key_heap_def)

section \<open>Error results consume nothing\<close>

lemma ServerSendHandshake_error_drain:
  assumes "ServerSendHandshake sc ctx rf st b = Inr r" "QUIC_TLS_RESULT_ERROR \<notin> rf"
    "QUIC_TLS_RESULT_ERROR \<in> ResultFlags r"
  shows "DrainLength r = 0"
  using assms unfolding ServerSendHandshake_def Let_def
  by (auto simp: fbind_Inr_iff error_exit_Inr_iff split: if_splits)

lemma ServerSendInitial_error_drain:
  assumes "ServerSendInitial cp m ctx rf st b = Inr r" "QUIC_TLS_RESULT_ERROR \<notin> rf"
    "QUIC_TLS_RESULT_ERROR \<in> ResultFlags r"
  shows "DrainLength r = 0"
  using assms unfolding ServerSendInitial_def Let_def
  by (auto simp: fbind_Inr_iff error_exit_Inr_iff split: if_splits option.splits
      dest: ServerSendHandshake_error_drain)

lemma ServerProcessClientInitial_error_drain:
  assumes "ServerProcessClientInitial cp m ctx rf st b = Inr r" "QUIC_TLS_RESULT_ERROR \<notin> rf"
    "QUIC_TLS_RESULT_ERROR \<in> ResultFlags r"
  shows "DrainLength r = 0"
  using assms unfolding ServerProcessClientInitial_def Let_def
  by (auto simp: fbind_Inr_iff split: if_splits dest: ServerSendInitial_error_drain)

lemma ServerSendTicket_error_drain:
  assumes "ServerSendTicket m ctx rf st b = Inr r" "QUIC_TLS_RESULT_ERROR \<notin> rf"
    "QUIC_TLS_RESULT_ERROR \<in> ResultFlags r"
  shows "DrainLength r = 0"
  using assms unfolding ServerSendTicket_def Let_def
  by (auto simp: fbind_Inr_iff error_exit_Inr_iff split: if_splits)

lemma ServerProcessClientHandshake_error_drain:
  assumes "ServerProcessClientHandshake m ctx rf st b = Inr r" "QUIC_TLS_RESULT_ERROR \<notin> rf"
    "QUIC_TLS_RESULT_ERROR \<in> ResultFlags r"
  shows "DrainLength r = 0"
  using assms unfolding ServerProcessClientHandshake_def
  by (auto simp: fbind_Inr_iff error_exit_Inr_iff split: if_splits option.split_asm
      dest: ServerSendTicket_error_drain)

lemma QuicTlsServerProcess_error_drain:
  assumes "QuicTlsServerProcess cp ctx rf st b = Inr r" "QUIC_TLS_RESULT_ERROR \<notin> rf"
    "QUIC_TLS_RESULT_ERROR \<in> ResultFlags r"
  shows "DrainLength r = 0"
  using assms unfolding QuicTlsServerProcess_def Let_def
  by (auto simp: error_exit_Inr_iff split: if_splits QUIC_FAKE_TLS_MESSAGE_TYPE.splits
      dest: ServerProcessClientInitial_error_drain ServerProcessClientHandshake_error_drain)

lemma ClientSendInitial_error_drain:
  assumes "ClientSendInitial ctx rf st = Inr r" "QUIC_TLS_RESULT_ERROR \<notin> rf"
    "QUIC_TLS_RESULT_ERROR \<in> ResultFlags r"
  shows "DrainLength r = 0"
  using assms unfolding ClientSendInitial_def Let_def
  by (auto simp: fbind_Inr_iff split: if_splits)

lemma ClientSendHandshake_error_drain:
  assumes "ClientSendHandshake m ctx rf st b = Inr r" "QUIC_TLS_RESULT_ERROR \<notin> rf"
    "QUIC_TLS_RESULT_ERROR \<in> ResultFlags r"
  shows "DrainLength r = 0"
  using assms unfolding ClientSendHandshake_def Let_def
  by (auto simp: fbind_Inr_iff error_exit_Inr_iff split: if_splits)

lemma ClientProcessServerHandshake_error_drain:
  assumes "ClientProcessServerHandshake cp m ctx rf st b = Inr r" "QUIC_TLS_RESULT_ERROR \<notin> rf"
    "QUIC_TLS_RESULT_ERROR \<in> ResultFlags r"
  shows "DrainLength r = 0"
  using assms unfolding ClientProcessServerHandshake_def Let_def
  by (auto simp: fbind_Inr_iff error_exit_Inr_iff split: if_splits option.split_asm
      dest: ClientSendHandshake_error_drain)

lemma ClientEarlyDataOutcome_error:
  "ClientEarlyDataOutcome rf st b = Inr (rf', st') \<Longrightarrow>
     QUIC_TLS_RESULT_ERROR \<in> rf' \<longleftrightarrow> QUIC_TLS_RESULT_ERROR \<in> rf"
  unfolding ClientEarlyDataOutcome_def
  by (auto simp: fbind_Inr_iff split: if_split_asm)

lemma ClientProcessServerInitial_error_drain:
  assumes "ClientProcessServerInitial ctx rf st b = Inr r" "QUIC_TLS_RESULT_ERROR \<notin> rf"
    "QUIC_TLS_RESULT_ERROR \<in> ResultFlags r"
  shows "DrainLength r = 0"
proof -
  from assms(1) obtain rf' st' where p: "ClientEarlyDataOutcome rf st b = Inr (rf', st')"
    and r: "ResultFlags r = insert QUIC_TLS_RESULT_WRITE_KEY_UPDATED
              (insert QUIC_TLS_RESULT_READ_KEY_UPDATED rf')"
    unfolding ClientProcessServerInitial_def Let_def
    by (auto simp: fbind_Inr_iff)
  from ClientEarlyDataOutcome_error [OF p] r assms(2,3) show ?thesis by auto
qed

lemma ClientProcessTicket_error_drain:
  assumes "ClientProcessTicket ctx rf st b = Inr r" "QUIC_TLS_RESULT_ERROR \<notin> rf"
    "QUIC_TLS_RESULT_ERROR \<in> ResultFlags r"
  shows "DrainLength r = 0"
  using assms unfolding ClientProcessTicket_def Let_def
  by (auto simp: fbind_Inr_iff error_exit_Inr_iff split: if_splits)

lemma QuicTlsClientProcess_error_drain:
  assumes "QuicTlsClientProcess cp ctx rf st b = Inr r" "QUIC_TLS_RESULT_ERROR \<notin> rf"
    "QUIC_TLS_RESULT_ERROR \<in> ResultFlags r"
  shows "DrainLength r = 0"
  using assms unfolding QuicTlsClientProcess_def Let_def
  by (auto simp: error_exit_Inr_iff fbind_Inr_iff
      split: if_splits QUIC_FAKE_TLS_MESSAGE_TYPE.splits
      dest: ClientSendInitial_error_drain ClientProcessServerInitial_error_drain
        ClientProcessServerHandshake_error_drain ClientProcessTicket_error_drain)

text \<open>Claim C10: for every processing call (server or client, any state, any input) whose
  result flags include Error, the reported consumed-byte count is zero.\<close>

theorem error_result_consumes_nothing:
  "QuicTlsProcessData cp ctx b st = Inr r \<Longrightarrow> QUIC_TLS_RESULT_ERROR \<in> ResultFlags r
     \<Longrightarrow> DrainLength r = 0"
  unfolding QuicTlsProcessData_def
  by (auto split: if_splits dest: QuicTlsServerProcess_error_drain QuicTlsClientProcess_error_drain)

text \<open>A server that has sent its Ticket is handed a ClientHandshake.\<close>

theorem error_result_consumes_nothing_witness:
  "QuicTlsProcessData example_platform
     (example_context True QUIC_TLS_MESSAGE_TICKET None [] 0) [2, 0, 0, 4, 1, 0, 0, 0]
     (example_state 16) =
   Inr \<lparr> ResultFlags = {QUIC_TLS_RESULT_ERROR}, DrainLength = 0,
         TlsContext = example_context True QUIC_TLS_MESSAGE_TICKET None [] 0,
         State = example_state 16 \<rparr> \<and>
   QUIC_TLS_RESULT_ERROR \<in> ResultFlags \<lparr> ResultFlags = {QUIC_TLS_RESULT_ERROR}, DrainLength = 0,
         TlsContext = example_context True QUIC_TLS_MESSAGE_TICKET None [] 0,
         State = example_state 16 \<rparr> \<and>
   DrainLength \<lparr> ResultFlags = {QUIC_TLS_RESULT_ERROR}, DrainLength = 0,
         TlsContext = example_context True QUIC_TLS_MESSAGE_TICKET None [] 0,
         State = example_state 16 \<rparr> = 0"
proof -
  have run: "QuicTlsProcessData example_platform
     (example_context True QUIC_TLS_MESSAGE_TICKET None [] 0) [2, 0, 0, 4, 1, 0, 0, 0]
     (example_state 16) =
   Inr \<lparr> ResultFlags = {QUIC_TLS_RESULT_ERROR}, DrainLength = 0,
         TlsContext = example_context True QUIC_TLS_MESSAGE_TICKET None [] 0,
         State = example_state 16 \<rparr>"
    by (simp add: QuicTlsProcessData_def QuicTlsHasValidMessageToProcess_def
        QuicTlsServerProcess_def error_exit_def example_context_def example_state_def
        TlsReadUint24_def offs)
  have flag: "QUIC_TLS_RESULT_ERROR \<in> ResultFlags \<lparr> ResultFlags = {QUIC_TLS_RESULT_ERROR},
         DrainLength = 0, TlsContext = example_context True QUIC_TLS_MESSAGE_TICKET None [] 0,
         State = example_state 16 \<rparr>"
    by simp
  from run flag error_result_consumes_nothing [OF run flag] show ?thesis by simp
qed

section \<open>The client's first flight\<close>

lemma ClientWriteExtList_h3:
  assumes "SNI ctx = None"
    "TlsSession ctx = \<lparr>AlpnLength = 2, Alpn = [0x68, 0x33]\<rparr>" "LocalTPLength ctx = 0"
    "EarlyDataAttempted st"
    "ext + 17 \<le> length b"
  shows "ClientWriteExtList ctx st b ext =
    Inr (17, poke b ext [0, 0x10, 0, 5, 0, 3, 2, 0x68, 0x33, 0, 0x23, 0, 0, 0xff, 0xa5, 0, 0])"
  using assms
  by (simp add: ClientWriteExtList_def ClientWriteSni_def ClientWriteAlpn_def ClientWriteTicket_def
       ClientWriteQuicTP_def TlsWriteUint16_consts TlsExt_Sni_NameType_HostName_def
       mem_read_ok mem_write_ok length_poke poke_poke_fuse)
     (simp add: TlsWriteUint16_def)

text \<open>Claim C7: for a client in state None with no SNI set, session ALPN "h3" and local
  transport parameters of length 0, one processing call produces a ClientInitial whose
  extension list holds exactly the ALPN, the empty SessionTicket and the empty
  QuicTransportParameters extensions, 17 bytes in all, sets the Data result flag, and
  installs a 0-RTT write key in the process state, without raising WriteKeyUpdated.
  The output buffer is the allocation of \<open>BufferAllocLength\<close> bytes and has room for the
  62 bytes of the record.\<close>

theorem client_first_flight_h3:
  assumes "\<not> IsServer ctx" "LastMessageType ctx = QUIC_TLS_MESSAGE_INVALID" "SNI ctx = None"
    "TlsSession ctx = \<lparr>AlpnLength = 2, Alpn = [0x68, 0x33]\<rparr>" "LocalTPLength ctx = 0"
    "length (Buffer st) = unat (BufferAllocLength st)"
    "unat (BufferLength st) + 62 \<le> unat (BufferAllocLength st)"
  shows "\<exists>r. QuicTlsProcessData cp ctx [] st = Inr r \<and>
      ResultFlags r = {QUIC_TLS_RESULT_DATA} \<and>
      QUIC_TLS_RESULT_WRITE_KEY_UPDATED \<notin> ResultFlags r \<and>
      DrainLength r = 0 \<and>
      LastMessageType (TlsContext r) = QUIC_TLS_MESSAGE_CLIENT_INITIAL \<and>
      BufferLength (State r) = 62 \<and>
      WriteKey (State r) = QUIC_PACKET_KEY_0_RTT \<and>
      WriteKeys (State r) QUIC_PACKET_KEY_0_RTT = Some \<lparr>Type = QUIC_PACKET_KEY_0_RTT\<rparr> \<and>
      mem_read (Buffer (State r)) (unat (BufferLength st) + off_Type) 1 = Inr [1] \<and>
      mem_read (Buffer (State r)) (unat (BufferLength st) + off_Length) 3 = Inr [0, 0, 58] \<and>
      mem_read (Buffer (State r)) (unat (BufferLength st) + off_ExtListLength) 2 = Inr [0, 17] \<and>
      mem_read (Buffer (State r)) (unat (BufferLength st) + off_ExtList) 17 =
        Inr ([0, 0x10, 0, 5, 0, 3, 2, 0x68, 0x33] @ [0, 0x23, 0, 0] @ [0xff, 0xa5, 0, 0])"
proof -
  from assms(6,7) have "BufferLength st < BufferAllocLength st"
    by (simp add: word_less_nat_alt)
  with assms show ?thesis
    by (simp add: QuicTlsProcessData_def QuicTlsHasValidMessageToProcess_def
        QuicTlsClientProcess_def ClientSendInitial_def Let_def ClientWriteExtList_h3 offs
        mem_write_ok length_poke QuicStubAllocKey_def TlsHandshake_ClientHello_def
        mem_read_poke_disjoint mem_read_poke_within TlsWriteUint16_def TlsWriteUint24_def)
qed

theorem client_first_flight_h3_witness:
  "\<not> IsServer (example_context False QUIC_TLS_MESSAGE_INVALID None [] 0) \<and>
   length (Buffer (example_state 64)) = unat (BufferAllocLength (example_state 64)) \<and>
   unat (BufferLength (example_state 64)) + 62 \<le> unat (BufferAllocLength (example_state 64)) \<and>
   (\<exists>r. QuicTlsProcessData example_platform
           (example_context False QUIC_TLS_MESSAGE_INVALID None [] 0) [] (example_state 64) = Inr r \<and>
      ResultFlags r = {QUIC_TLS_RESULT_DATA} \<and>
      QUIC_TLS_RESULT_WRITE_KEY_UPDATED \<notin> ResultFlags r \<and>
      DrainLength r = 0 \<and>
      LastMessageType (TlsContext r) = QUIC_TLS_MESSAGE_CLIENT_INITIAL \<and>
      BufferLength (State r) = 62 \<and>
      WriteKey (State r) = QUIC_PACKET_KEY_0_RTT \<and>
      WriteKeys (State r) QUIC_PACKET_KEY_0_RTT = Some \<lparr>Type = QUIC_PACKET_KEY_0_RTT\<rparr> \<and>
      mem_read (Buffer (State r)) (0 + off_Type) 1 = Inr [1] \<and>
      mem_read (Buffer (State r)) (0 + off_Length) 3 = Inr [0, 0, 58] \<and>
      mem_read (Buffer (State r)) (0 + off_ExtListLength) 2 = Inr [0, 17] \<and>
      mem_read (Buffer (State r)) (0 + off_ExtList) 17 =
        Inr ([0, 0x10, 0, 5, 0, 3, 2, 0x68, 0x33] @ [0, 0x23, 0, 0] @ [0xff, 0xa5, 0, 0]))"
  using client_first_flight_h3 [of "example_context False QUIC_TLS_MESSAGE_INVALID None [] 0"
      "example_state 64" example_platform]
  by (simp add: example_context_def example_state_def example_session_def)

section \<open>The order of the last-message marker\<close>

text \<open>A handshake context under a sequence of operations: processing calls (each with what
  the caller did to the process state since the previous call) and resets.\<close>

datatype operation =
    Process "uint8_t list" "QUIC_TLS_PROCESS_STATE \<Rightarrow> QUIC_TLS_PROCESS_STATE"
  | Reset

fun apply_operation ::
  "cert_platform \<Rightarrow> QUIC_TLS \<times> QUIC_TLS_PROCESS_STATE \<Rightarrow> operation
     \<Rightarrow> fault + (QUIC_TLS \<times> QUIC_TLS_PROCESS_STATE)" where
  "apply_operation cp (ctx, st) (Process b f) =
     fbind (QuicTlsProcessData cp ctx b (f st)) (\<lambda>r. Inr (TlsContext r, State r))"
| "apply_operation cp (ctx, st) Reset = fbind (QuicTlsReset ctx) (\<lambda>ctx'. Inr (ctx', st))"

fun run_operations ::
  "cert_platform \<Rightarrow> QUIC_TLS \<times> QUIC_TLS_PROCESS_STATE \<Rightarrow> operation list
     \<Rightarrow> fault + (QUIC_TLS \<times> QUIC_TLS_PROCESS_STATE)" where
  "run_operations cp s [] = Inr s"
| "run_operations cp s (x # xs) = fbind (apply_operation cp s x) (\<lambda>s'. run_operations cp s' xs)"

definition last_message_after ::
  "cert_platform \<Rightarrow> QUIC_TLS \<Rightarrow> QUIC_TLS_PROCESS_STATE \<Rightarrow> operation list
     \<Rightarrow> fault + QUIC_FAKE_TLS_MESSAGE_TYPE" where
  "last_message_after cp ctx st ops =
     fbind (run_operations cp (ctx, st) ops) (\<lambda>s. Inr (LastMessageType (fst s)))"

definition example_server_initial :: "uint8_t list" where
  "example_server_initial = [3, 0, 0, 4, 2, 0, 0, 0]"

definition example_server_handshake :: "uint8_t list" where
  "example_server_handshake =
     [4, 0, 1, 0x38] @ [0] @ replicate 256 0 @ [50, 0] @ replicate 50 0xcc @ replicate 3 0"

text \<open>The fixed sequence of each role (the first argument is \<open>IsServer\<close>): the value that
  follows a value of the marker, and the place of a value in the sequence.\<close>

fun next_message :: "bool \<Rightarrow> QUIC_FAKE_TLS_MESSAGE_TYPE \<Rightarrow> QUIC_FAKE_TLS_MESSAGE_TYPE option"
  where
  "next_message True QUIC_TLS_MESSAGE_INVALID = Some QUIC_TLS_MESSAGE_SERVER_HANDSHAKE"
| "next_message True QUIC_TLS_MESSAGE_SERVER_HANDSHAKE = Some QUIC_TLS_MESSAGE_TICKET"
| "next_message False QUIC_TLS_MESSAGE_INVALID = Some QUIC_TLS_MESSAGE_CLIENT_INITIAL"
| "next_message False QUIC_TLS_MESSAGE_CLIENT_INITIAL = Some QUIC_TLS_MESSAGE_CLIENT_HANDSHAKE"
| "next_message _ _ = None"

fun sequence_position :: "bool \<Rightarrow> QUIC_FAKE_TLS_MESSAGE_TYPE \<Rightarrow> nat" where
  "sequence_position True QUIC_TLS_MESSAGE_INVALID = 0"
| "sequence_position True QUIC_TLS_MESSAGE_SERVER_HANDSHAKE = 1"
| "sequence_position True QUIC_TLS_MESSAGE_TICKET = 2"
| "sequence_position False QUIC_TLS_MESSAGE_INVALID = 0"
| "sequence_position False QUIC_TLS_MESSAGE_CLIENT_INITIAL = 1"
| "sequence_position False QUIC_TLS_MESSAGE_CLIENT_HANDSHAKE = 2"
| "sequence_position _ _ = 3"

text \<open>One processing call: the role is kept, and the marker is kept or moves to the value
  that follows it in the sequence of the role.\<close>

definition advances :: "QUIC_TLS \<Rightarrow> QUIC_TLS \<Rightarrow> bool" where
  "advances ctx ctx' \<longleftrightarrow>
     IsServer ctx' = IsServer ctx \<and>
     (LastMessageType ctx' = LastMessageType ctx \<or>
      next_message (IsServer ctx) (LastMessageType ctx) = Some (LastMessageType ctx'))"

text \<open>What one operation may do to the context: a processing call advances it; a reset is
  for the client, and puts the marker back to its first value whatever it was.\<close>

fun step_allowed :: "operation \<Rightarrow> QUIC_TLS \<Rightarrow> QUIC_TLS \<Rightarrow> bool" where
  "step_allowed (Process b f) ctx ctx' = advances ctx ctx'"
| "step_allowed Reset ctx ctx' =
     (\<not> IsServer ctx \<and> ctx' = ctx\<lparr>LastMessageType := QUIC_TLS_MESSAGE_INVALID\<rparr>)"

lemma advances_refl: "advances ctx ctx"
  by (simp add: advances_def)

lemma ServerProcessExtension_keeps:
  "ServerProcessExtension b ext t l ctx st = Inr (ctx', st') \<Longrightarrow>
     IsServer ctx' = IsServer ctx \<and> LastMessageType ctx' = LastMessageType ctx \<and>
     SecConfig ctx' = SecConfig ctx"
  unfolding ServerProcessExtension_def
  by (auto simp: fbind_Inr_iff split: if_split_asm)

lemma ServerReadExtList_keeps:
  "ServerReadExtList b ext l ctx st = Inr (ctx', st') \<Longrightarrow>
     IsServer ctx' = IsServer ctx \<and> LastMessageType ctx' = LastMessageType ctx \<and>
     SecConfig ctx' = SecConfig ctx"
proof (induction b ext l ctx st rule: ServerReadExtList.induct)
  case (1 b ext ExtListLength ctx st)
  show ?case
  proof (cases "0 < ExtListLength")
    case False
    with "1.prems" show ?thesis by (simp add: ServerReadExtList.simps)
  next
    case True
    with "1.prems" obtain tb lb c1 s1 where
      tb: "mem_read b ext 2 = Inr tb" and lb: "mem_read b (ext + 2) 2 = Inr lb" and
      le: "unat (TlsReadUint16 lb) + 4 \<le> unat ExtListLength" and
      e: "ServerProcessExtension b ext (TlsReadUint16 tb) (TlsReadUint16 lb) ctx st = Inr (c1, s1)" and
      r: "ServerReadExtList b (ext + (unat (TlsReadUint16 lb) + 4))
             (ExtListLength - (TlsReadUint16 lb + 4)) c1 s1 = Inr (ctx', st')"
      by (subst (asm) ServerReadExtList.simps) (auto simp: fbind_Inr_iff split: if_split_asm)
    from "1.IH" [OF True tb lb le e] r
    have "IsServer ctx' = IsServer c1 \<and> LastMessageType ctx' = LastMessageType c1 \<and>
     SecConfig ctx' = SecConfig c1" by simp
    with ServerProcessExtension_keeps [OF e] show ?thesis by simp
  qed
qed

lemma ServerSendHandshake_advances:
  "ServerSendHandshake sc ctx rf st b = Inr r \<Longrightarrow>
     TlsContext r = ctx \<or>
     TlsContext r = ctx\<lparr>LastMessageType := QUIC_TLS_MESSAGE_SERVER_HANDSHAKE\<rparr>"
  unfolding ServerSendHandshake_def Let_def
  by (auto simp: fbind_Inr_iff error_exit_Inr_iff split: if_split_asm)

lemma ServerSendInitial_advances:
  "ServerSendInitial cp m ctx rf st b = Inr r \<Longrightarrow>
     TlsContext r = ctx \<or>
     TlsContext r = ctx\<lparr>LastMessageType := QUIC_TLS_MESSAGE_SERVER_HANDSHAKE\<rparr>"
  unfolding ServerSendInitial_def Let_def
  by (auto simp: fbind_Inr_iff error_exit_Inr_iff split: if_split_asm option.split_asm
      dest: ServerSendHandshake_advances)

lemma ServerProcessClientInitial_advances:
  assumes "ServerProcessClientInitial cp m ctx rf st b = Inr r"
    "IsServer ctx" "LastMessageType ctx = QUIC_TLS_MESSAGE_INVALID"
  shows "advances ctx (TlsContext r)"
proof -
  from assms(1) obtain ell c1 s1 where
    l: "ServerReadExtList b off_ExtList (TlsReadUint16 ell) ctx
          (st\<lparr>EarlyDataAttempted := False, EarlyDataAccepted := False\<rparr>) = Inr (c1, s1)"
    and s: "ServerSendInitial cp m c1 rf s1 b = Inr r"
    unfolding ServerProcessClientInitial_def
    by (auto simp: fbind_Inr_iff split: if_split_asm)
  from ServerReadExtList_keeps [OF l] ServerSendInitial_advances [OF s] assms(2,3)
  show ?thesis by (auto simp: advances_def)
qed

lemma ServerSendTicket_context:
  "ServerSendTicket m ctx rf st b = Inr r \<Longrightarrow>
     TlsContext r = ctx \<or> TlsContext r = ctx\<lparr>LastMessageType := QUIC_TLS_MESSAGE_TICKET\<rparr>"
  unfolding ServerSendTicket_def Let_def
  by (auto simp: fbind_Inr_iff error_exit_Inr_iff split: if_split_asm)

lemma ServerProcessClientHandshake_context:
  "ServerProcessClientHandshake m ctx rf st b = Inr r \<Longrightarrow>
     TlsContext r = ctx \<or> TlsContext r = ctx\<lparr>SecConfig := None\<rparr> \<or>
     TlsContext r = ctx\<lparr>SecConfig := None, LastMessageType := QUIC_TLS_MESSAGE_TICKET\<rparr>"
  unfolding ServerProcessClientHandshake_def
  by (auto simp: fbind_Inr_iff error_exit_Inr_iff split: if_split_asm option.split_asm
      dest!: ServerSendTicket_context)

lemma ServerProcessClientHandshake_advances:
  assumes "ServerProcessClientHandshake m ctx rf st b = Inr r"
    "IsServer ctx" "LastMessageType ctx = QUIC_TLS_MESSAGE_SERVER_HANDSHAKE"
  shows "advances ctx (TlsContext r)"
  using ServerProcessClientHandshake_context [OF assms(1)] assms(2,3)
  by (auto simp: advances_def)

lemma QuicTlsServerProcess_advances:
  assumes "QuicTlsServerProcess cp ctx rf st b = Inr r" "IsServer ctx"
  shows "advances ctx (TlsContext r)"
proof (cases "LastMessageType ctx")
  case QUIC_TLS_MESSAGE_INVALID
  with assms show ?thesis
    by (auto simp: QuicTlsServerProcess_def Let_def split: if_split_asm
        dest: ServerProcessClientInitial_advances)
next
  case QUIC_TLS_MESSAGE_SERVER_HANDSHAKE
  with assms show ?thesis
    by (auto simp: QuicTlsServerProcess_def Let_def split: if_split_asm
        dest: ServerProcessClientHandshake_advances)
qed (use assms in \<open>auto simp: QuicTlsServerProcess_def Let_def error_exit_Inr_iff advances_def
      split: if_split_asm\<close>)

lemma ClientSendInitial_advances:
  "ClientSendInitial ctx rf st = Inr r \<Longrightarrow>
     TlsContext r = ctx\<lparr>LastMessageType := QUIC_TLS_MESSAGE_CLIENT_INITIAL\<rparr>"
  unfolding ClientSendInitial_def Let_def
  by (auto simp: fbind_Inr_iff split: if_split_asm)

lemma ClientSendHandshake_advances:
  "ClientSendHandshake m ctx rf st b = Inr r \<Longrightarrow>
     TlsContext r = ctx \<or>
     TlsContext r = ctx\<lparr>LastMessageType := QUIC_TLS_MESSAGE_CLIENT_HANDSHAKE\<rparr>"
  unfolding ClientSendHandshake_def Let_def
  by (auto simp: fbind_Inr_iff error_exit_Inr_iff split: if_split_asm)

lemma ClientProcessServerHandshake_advances:
  assumes "ClientProcessServerHandshake cp m ctx rf st b = Inr r"
    "\<not> IsServer ctx" "LastMessageType ctx = QUIC_TLS_MESSAGE_CLIENT_INITIAL"
  shows "advances ctx (TlsContext r)"
  using assms unfolding ClientProcessServerHandshake_def Let_def
  by (auto simp: fbind_Inr_iff error_exit_Inr_iff advances_def
      split: if_split_asm option.split_asm dest!: ClientSendHandshake_advances)

lemma ClientProcessServerInitial_advances:
  "ClientProcessServerInitial ctx rf st b = Inr r \<Longrightarrow> TlsContext r = ctx"
  unfolding ClientProcessServerInitial_def Let_def
  by (auto simp: fbind_Inr_iff)

lemma ClientProcessTicket_advances:
  "ClientProcessTicket ctx rf st b = Inr r \<Longrightarrow>
     TlsContext r = ctx \<or> TlsContext r = ctx\<lparr>TicketReady := True\<rparr>"
  unfolding ClientProcessTicket_def
  by (auto simp: fbind_Inr_iff error_exit_Inr_iff split: if_split_asm)

lemma QuicTlsClientProcess_advances:
  assumes "QuicTlsClientProcess cp ctx rf st b = Inr r" "\<not> IsServer ctx"
  shows "advances ctx (TlsContext r)"
proof (cases "LastMessageType ctx")
  case QUIC_TLS_MESSAGE_INVALID
  with assms show ?thesis
    by (auto simp: QuicTlsClientProcess_def Let_def advances_def split: if_split_asm
        dest!: ClientSendInitial_advances)
next
  case QUIC_TLS_MESSAGE_CLIENT_INITIAL
  with assms show ?thesis
    by (auto simp: QuicTlsClientProcess_def Let_def fbind_Inr_iff error_exit_Inr_iff
        advances_refl split: if_split_asm
        dest: ClientProcessServerHandshake_advances ClientProcessServerInitial_advances)
next
  case QUIC_TLS_MESSAGE_CLIENT_HANDSHAKE
  with assms show ?thesis
    by (auto simp: QuicTlsClientProcess_def Let_def advances_def split: if_split_asm
        dest!: ClientProcessTicket_advances)
qed (use assms in \<open>auto simp: QuicTlsClientProcess_def Let_def error_exit_Inr_iff advances_def
      split: if_split_asm\<close>)

lemma QuicTlsProcessData_advances:
  "QuicTlsProcessData cp ctx b st = Inr r \<Longrightarrow> advances ctx (TlsContext r)"
  unfolding QuicTlsProcessData_def
  by (auto simp: advances_refl split: if_split_asm
      dest: QuicTlsServerProcess_advances QuicTlsClientProcess_advances)

lemma apply_operation_step:
  assumes "apply_operation cp s x = Inr s'"
  shows "step_allowed x (fst s) (fst s')"
proof (cases x)
  case (Process b f)
  with assms show ?thesis
    by (cases s) (auto simp: fbind_Inr_iff dest: QuicTlsProcessData_advances)
next
  case Reset
  with assms show ?thesis
    by (cases s) (auto simp: fbind_Inr_iff QuicTlsReset_def split: if_split_asm)
qed

lemma run_operations_append:
  "run_operations cp s (xs @ ys) =
     fbind (run_operations cp s xs) (\<lambda>s'. run_operations cp s' ys)"
proof (induction xs arbitrary: s)
  case Nil
  show ?case by simp
next
  case (Cons x xs)
  show ?case
    by (cases "apply_operation cp s x") (simp_all add: Cons.IH)
qed

lemma run_operations_last_step:
  assumes "run_operations cp s (xs @ [x]) = Inr s''"
  shows "\<exists>s'. run_operations cp s xs = Inr s' \<and> apply_operation cp s' x = Inr s'' \<and>
    step_allowed x (fst s') (fst s'')"
proof -
  from assms obtain s' where 1: "run_operations cp s xs = Inr s'"
    and 2: "run_operations cp s' [x] = Inr s''"
    by (auto simp: run_operations_append fbind_Inr_iff)
  from 2 have 3: "apply_operation cp s' x = Inr s''"
    by (cases "apply_operation cp s' x") simp_all
  from 1 3 apply_operation_step [OF 3] show ?thesis by blast
qed

lemma advances_position:
  assumes "advances ctx ctx'"
  shows "IsServer ctx' = IsServer ctx \<and>
    sequence_position (IsServer ctx) (LastMessageType ctx)
      \<le> sequence_position (IsServer ctx) (LastMessageType ctx')"
proof -
  have "next_message r m = Some m' \<Longrightarrow> sequence_position r m \<le> sequence_position r m'"
    for r m m'
    by (cases r; cases m) auto
  with assms show ?thesis by (auto simp: advances_def)
qed

lemma run_operations_position:
  "run_operations cp s ops = Inr s' \<Longrightarrow> Reset \<notin> set ops \<Longrightarrow>
     IsServer (fst s') = IsServer (fst s) \<and>
     sequence_position (IsServer (fst s)) (LastMessageType (fst s))
       \<le> sequence_position (IsServer (fst s)) (LastMessageType (fst s'))"
proof (induction ops arbitrary: s)
  case Nil
  then show ?case by simp
next
  case (Cons x xs)
  from Cons.prems(1) obtain s1 where 1: "apply_operation cp s x = Inr s1"
    and rest: "run_operations cp s1 xs = Inr s'"
    by (auto simp: fbind_Inr_iff)
  from Cons.prems(2) obtain b f where x: "x = Process b f" by (cases x) auto
  from apply_operation_step [OF 1] x have "advances (fst s) (fst s1)" by simp
  from advances_position [OF this] Cons.IH [OF rest] Cons.prems(2)
  show ?case by simp
qed

text \<open>A run of the client: its first flight, then the server's ServerInitial, then the
  server's ServerHandshake.\<close>

definition example_client_state1 :: QUIC_TLS_PROCESS_STATE where
  "example_client_state1 =
     (example_state 512)\<lparr>EarlyDataAttempted := True,
        Buffer := poke (poke (poke (poke (poke (poke (poke (poke (replicate 512 0) 0 [1])
               4 (TlsWriteUint16 0x0302)) 38 [0]) 39 [0, 0]) 41 [1])
               45 [0, 0x10, 0, 5, 0, 3, 2, 0x68, 0x33, 0, 0x23, 0, 0, 0xff, 0xa5, 0, 0])
               43 [0, 17]) 1 [0, 0, 58],
        BufferLength := 62, BufferTotalLength := 62,
        WriteKey := QUIC_PACKET_KEY_0_RTT,
        WriteKeys := (\<lambda>k. None)(QUIC_PACKET_KEY_0_RTT \<mapsto> \<lparr>Type = QUIC_PACKET_KEY_0_RTT\<rparr>)\<rparr>"

lemma example_run_initial:
  "QuicTlsProcessData example_platform
      (example_context False QUIC_TLS_MESSAGE_INVALID None [] 50) [] (example_state 512) =
    Inr \<lparr> ResultFlags = {QUIC_TLS_RESULT_DATA}, DrainLength = 0,
          TlsContext = example_context False QUIC_TLS_MESSAGE_CLIENT_INITIAL None [] 50,
          State = example_client_state1 \<rparr>"
  by (simp add: QuicTlsProcessData_def QuicTlsHasValidMessageToProcess_def
        QuicTlsClientProcess_def ClientSendInitial_def Let_def ClientWriteExtList_h3 offs
        mem_write_ok length_poke QuicStubAllocKey_def TlsHandshake_ClientHello_def
        TlsWriteUint16_def TlsWriteUint24_def example_defs example_client_state1_def)

definition example_client_state2 :: QUIC_TLS_PROCESS_STATE where
  "example_client_state2 =
     example_client_state1\<lparr>EarlyDataAccepted := True, BufferOffsetHandshake := 62,
        ReadKey := QUIC_PACKET_KEY_HANDSHAKE,
        ReadKeys := (\<lambda>k. None)(QUIC_PACKET_KEY_HANDSHAKE \<mapsto> \<lparr>Type = QUIC_PACKET_KEY_HANDSHAKE\<rparr>),
        WriteKey := QUIC_PACKET_KEY_HANDSHAKE,
        WriteKeys := (\<lambda>k. None)(QUIC_PACKET_KEY_0_RTT \<mapsto> \<lparr>Type = QUIC_PACKET_KEY_0_RTT\<rparr>,
           QUIC_PACKET_KEY_HANDSHAKE \<mapsto> \<lparr>Type = QUIC_PACKET_KEY_HANDSHAKE\<rparr>)\<rparr>"

lemma example_run_server_initial:
  "QuicTlsProcessData example_platform
      (example_context False QUIC_TLS_MESSAGE_CLIENT_INITIAL None [] 50) example_server_initial
      example_client_state1 =
    Inr \<lparr> ResultFlags = {QUIC_TLS_RESULT_EARLY_DATA_ACCEPT, QUIC_TLS_RESULT_READ_KEY_UPDATED,
            QUIC_TLS_RESULT_WRITE_KEY_UPDATED}, DrainLength = 8,
          TlsContext = example_context False QUIC_TLS_MESSAGE_CLIENT_INITIAL None [] 50,
          State = example_client_state2 \<rparr>"
  by (simp add: QuicTlsProcessData_def QuicTlsHasValidMessageToProcess_def
        QuicTlsClientProcess_def ClientProcessServerInitial_def ClientEarlyDataOutcome_def
        Let_def offs mem_read_def load_EarlyDataAccepted_def drain_length_def
        QuicStubAllocKey_def TlsReadUint24_def example_context_def example_state_def
        example_client_state1_def example_client_state2_def example_server_initial_def
        insert_commute)

definition example_client_state3 :: QUIC_TLS_PROCESS_STATE where
  "example_client_state3 =
     example_client_state2\<lparr>HandshakeComplete := True,
        Buffer := poke (poke (poke (Buffer example_client_state2) 63 [0, 0, 4]) 62 [2]) 66 [1],
        BufferLength := 70, BufferTotalLength := 70, BufferOffset1Rtt := 70,
        ReadKey := QUIC_PACKET_KEY_1_RTT,
        ReadKeys := (\<lambda>k. None)(QUIC_PACKET_KEY_HANDSHAKE \<mapsto> \<lparr>Type = QUIC_PACKET_KEY_HANDSHAKE\<rparr>,
           QUIC_PACKET_KEY_1_RTT \<mapsto> \<lparr>Type = QUIC_PACKET_KEY_1_RTT\<rparr>),
        WriteKey := QUIC_PACKET_KEY_1_RTT,
        WriteKeys := (\<lambda>k. None)(QUIC_PACKET_KEY_0_RTT \<mapsto> \<lparr>Type = QUIC_PACKET_KEY_0_RTT\<rparr>,
           QUIC_PACKET_KEY_HANDSHAKE \<mapsto> \<lparr>Type = QUIC_PACKET_KEY_HANDSHAKE\<rparr>,
           QUIC_PACKET_KEY_1_RTT \<mapsto> \<lparr>Type = QUIC_PACKET_KEY_1_RTT\<rparr>)\<rparr>"

lemma example_run_server_handshake:
  "QuicTlsProcessData example_platform
      (example_context False QUIC_TLS_MESSAGE_CLIENT_INITIAL None [] 50) example_server_handshake
      example_client_state2 =
    Inr \<lparr> ResultFlags = {QUIC_TLS_RESULT_COMPLETE, QUIC_TLS_RESULT_DATA,
            QUIC_TLS_RESULT_READ_KEY_UPDATED, QUIC_TLS_RESULT_WRITE_KEY_UPDATED},
          DrainLength = 316,
          TlsContext = (example_context False QUIC_TLS_MESSAGE_CLIENT_HANDSHAKE None [] 50)
            \<lparr>ReceivedTP := [(0, [])]\<rparr>,
          State = example_client_state3 \<rparr>"
  by (simp add: QuicTlsProcessData_def QuicTlsHasValidMessageToProcess_def
        QuicTlsClientProcess_def ClientProcessServerHandshake_def ClientCheckCertificate_def
        ClientSendHandshake_def
        Let_def offs mem_read_def mem_write_ok length_poke drain_length_def
        QuicStubAllocKey_def TlsReadUint24_def TlsWriteUint24_def example_defs
        example_client_state1_def example_client_state2_def example_client_state3_def
        example_server_handshake_def insert_commute)

text \<open>Claim C8, as amended: across every sequence of operations on a handshake context,
  each processing call keeps the last-message marker or moves it to the value that follows
  it in the fixed sequence of its role (server: None, ServerHandshake, Ticket; client: None,
  ClientInitial, ClientHandshake): it skips no value, and over any run of processing calls
  it never returns to an earlier one. The one exception is the reset operation, which
  returns a client to its initial state from every state (a debug assertion restricts it
  to the client role; nothing restricts it to a state).\<close>

theorem last_message_type_advances:
  "(run_operations cp s (xs @ [x]) = Inr s'' \<longrightarrow>
      (\<exists>s'. run_operations cp s xs = Inr s' \<and> apply_operation cp s' x = Inr s'' \<and>
         step_allowed x (fst s') (fst s''))) \<and>
   (run_operations cp s ops = Inr t \<and> Reset \<notin> set ops \<longrightarrow>
      IsServer (fst t) = IsServer (fst s) \<and>
      sequence_position (IsServer (fst s)) (LastMessageType (fst s))
        \<le> sequence_position (IsServer (fst s)) (LastMessageType (fst t))) \<and>
   (\<not> IsServer ctx \<longrightarrow>
      QuicTlsReset ctx = Inr (ctx\<lparr>LastMessageType := QUIC_TLS_MESSAGE_INVALID\<rparr>)) \<and>
   (IsServer ctx \<longrightarrow> QuicTlsReset ctx = Inl DbgAssert)"
  by (auto simp: QuicTlsReset_def dest: run_operations_last_step run_operations_position)

theorem last_message_type_advances_witness:
  "run_operations example_platform
     (example_context False QUIC_TLS_MESSAGE_INVALID None [] 50, example_state 512)
     ([Process [] id, Process example_server_initial id] @ [Process example_server_handshake id]) =
     Inr ((example_context False QUIC_TLS_MESSAGE_CLIENT_HANDSHAKE None [] 50)
            \<lparr>ReceivedTP := [(0, [])]\<rparr>, example_client_state3) \<and>
   (\<exists>s'. run_operations example_platform
        (example_context False QUIC_TLS_MESSAGE_INVALID None [] 50, example_state 512)
        [Process [] id, Process example_server_initial id] = Inr s' \<and>
      apply_operation example_platform s' (Process example_server_handshake id) =
        Inr ((example_context False QUIC_TLS_MESSAGE_CLIENT_HANDSHAKE None [] 50)
               \<lparr>ReceivedTP := [(0, [])]\<rparr>, example_client_state3) \<and>
      LastMessageType (fst s') = QUIC_TLS_MESSAGE_CLIENT_INITIAL \<and>
      advances (fst s') ((example_context False QUIC_TLS_MESSAGE_CLIENT_HANDSHAKE None [] 50)
               \<lparr>ReceivedTP := [(0, [])]\<rparr>)) \<and>
   Reset \<notin> set [Process [] id, Process example_server_initial id,
     Process example_server_handshake id] \<and>
   sequence_position False QUIC_TLS_MESSAGE_INVALID
     \<le> sequence_position False QUIC_TLS_MESSAGE_CLIENT_HANDSHAKE \<and>
   \<not> IsServer (example_context False QUIC_TLS_MESSAGE_INVALID None [] 50) \<and>
   QuicTlsReset (example_context False QUIC_TLS_MESSAGE_CLIENT_HANDSHAKE None [] 50) =
     Inr (example_context False QUIC_TLS_MESSAGE_INVALID None [] 50) \<and>
   IsServer (example_context True QUIC_TLS_MESSAGE_INVALID None [] 50) \<and>
   QuicTlsReset (example_context True QUIC_TLS_MESSAGE_INVALID None [] 50) = Inl DbgAssert"
  using last_message_type_advances [of example_platform
      "(example_context False QUIC_TLS_MESSAGE_INVALID None [] 50, example_state 512)"
      "[Process [] id, Process example_server_initial id]"
      "Process example_server_handshake id"
      "((example_context False QUIC_TLS_MESSAGE_CLIENT_HANDSHAKE None [] 50)
            \<lparr>ReceivedTP := [(0, [])]\<rparr>, example_client_state3)"
      "[Process [] id, Process example_server_initial id, Process example_server_handshake id]"
      "((example_context False QUIC_TLS_MESSAGE_CLIENT_HANDSHAKE None [] 50)
            \<lparr>ReceivedTP := [(0, [])]\<rparr>, example_client_state3)"
      "example_context False QUIC_TLS_MESSAGE_CLIENT_HANDSHAKE None [] 50"]
    last_message_type_advances [of example_platform _ "[]" _ _ "[]" _
      "example_context True QUIC_TLS_MESSAGE_INVALID None [] 50"]
  by (simp add: example_run_initial example_run_server_initial example_run_server_handshake)
     (simp add: example_context_def)

text \<open>The claim as first stated fails: after the client has processed both of the server's
  messages and stands at ClientHandshake, a reset still returns it to None.\<close>

theorem reset_after_server_response:
  "last_message_after example_platform (example_context False QUIC_TLS_MESSAGE_INVALID None [] 50)
      (example_state 512)
      [Process [] id, Process example_server_initial id, Process example_server_handshake id] =
    Inr QUIC_TLS_MESSAGE_CLIENT_HANDSHAKE \<and>
   last_message_after example_platform (example_context False QUIC_TLS_MESSAGE_INVALID None [] 50)
      (example_state 512)
      [Process [] id, Process example_server_initial id, Process example_server_handshake id,
       Reset] =
    Inr QUIC_TLS_MESSAGE_INVALID"
  by (simp add: last_message_after_def example_run_initial example_run_server_initial
      example_run_server_handshake QuicTlsReset_def)
     (simp add: example_context_def)

section \<open>The drain length and the buffer bound at particular inputs\<close>

text \<open>Claim C3 at a Ticket record whose declared length is 65536: the record is 65540 bytes
  long and all of them are present, yet the call reports 4 bytes consumed, since the drain
  length is computed in 16 bits.\<close>

theorem drain_length_truncated:
  "length ([5, 1, 0, 0] @ replicate 65536 (0 :: uint8_t)) = 65540 \<and>
   unat (TlsReadUint24 (take 3 (drop off_Length ([5, 1, 0, 0] @ replicate 65536 0)))) + 4 = 65540 \<and>
   QuicTlsProcessData example_platform
     (example_context False QUIC_TLS_MESSAGE_CLIENT_HANDSHAKE None [] 0)
     ([5, 1, 0, 0] @ replicate 65536 0) (example_state 16) =
   Inr \<lparr> ResultFlags = {QUIC_TLS_RESULT_TICKET}, DrainLength = 4,
         TlsContext = (example_context False QUIC_TLS_MESSAGE_CLIENT_HANDSHAKE None [] 0)
           \<lparr>TicketReady := True\<rparr>,
         State = example_state 16 \<rparr>"
  by (simp add: QuicTlsProcessData_def QuicTlsHasValidMessageToProcess_def
      QuicTlsClientProcess_def ClientProcessTicket_def drain_length_def
      example_context_def example_state_def TlsReadUint24_def offs mem_read_def)

text \<open>Claim C1 at the client's first flight into a buffer of 16 bytes: the 62 bytes of the
  ClientInitial are stored without a test of the room left, past the end of the buffer.
  Where the allocation happens to be larger than \<open>BufferAllocLength\<close> says, the call
  returns with \<open>BufferLength = 62\<close> above \<open>BufferAllocLength = 16\<close>.\<close>

theorem client_first_flight_overruns:
  "QuicTlsProcessData example_platform
     (example_context False QUIC_TLS_MESSAGE_INVALID None [] 0) [] (example_state 16) =
     Inl WriteOverrun \<and>
   (\<exists>r. QuicTlsProcessData example_platform
     (example_context False QUIC_TLS_MESSAGE_INVALID None [] 0) []
     ((example_state 64)\<lparr>BufferAllocLength := 16\<rparr>) = Inr r \<and>
     BufferLength (State r) = 62 \<and> BufferAllocLength (State r) = 16 \<and>
     \<not> BufferLength (State r) \<le> BufferAllocLength (State r))"
proof
  show "QuicTlsProcessData example_platform
     (example_context False QUIC_TLS_MESSAGE_INVALID None [] 0) [] (example_state 16) =
     Inl WriteOverrun"
    by (simp add: QuicTlsProcessData_def QuicTlsHasValidMessageToProcess_def
      QuicTlsClientProcess_def ClientSendInitial_def Let_def
      example_context_def example_state_def offs mem_write_def length_poke)
  show "\<exists>r. QuicTlsProcessData example_platform
     (example_context False QUIC_TLS_MESSAGE_INVALID None [] 0) []
     ((example_state 64)\<lparr>BufferAllocLength := 16\<rparr>) = Inr r \<and>
     BufferLength (State r) = 62 \<and> BufferAllocLength (State r) = 16 \<and>
     \<not> BufferLength (State r) \<le> BufferAllocLength (State r)"
    by (simp add: QuicTlsProcessData_def QuicTlsHasValidMessageToProcess_def
      QuicTlsClientProcess_def ClientSendInitial_def Let_def ClientWriteExtList_h3
      example_context_def example_state_def example_session_def offs mem_write_ok length_poke)
qed

section \<open>The extension list on the wire\<close>

text \<open>The wire format of the extension list, as the specification states it: an extension
  is \<open>type:2, length:2, value:length\<close>; the ServerName value is
  \<open>list_len:2, name_type:1, name_len:2, name\<close>; the ALPN value is
  \<open>list_len:2, proto_len:1, proto\<close>; the SessionTicket value is empty; the
  QuicTransportParameters value is the raw bytes. \<open>serialize_client_extensions\<close> is the
  fixed order of the client's list. An extension is well formed for the server when its type
  is one of the four, its value fits a 16-bit list, and, for a ServerName, the name lies
  inside the value. \<open>apply_ext\<close> is what the server's parser does with a well-formed
  extension.\<close>

definition recognised_extensions :: "uint16_t set" where
  "recognised_extensions =
     {TlsExt_ServerName, TlsExt_AppProtocolNegotiation, TlsExt_SessionTicket,
      TlsExt_QuicTransportParameters}"

definition ext_record :: "uint16_t \<Rightarrow> uint8_t list \<Rightarrow> uint8_t list" where
  "ext_record t v = TlsWriteUint16 t @ TlsWriteUint16 (of_nat (length v)) @ v"

definition sni_value :: "uint8_t list \<Rightarrow> uint8_t list" where
  "sni_value name =
     TlsWriteUint16 (of_nat (3 + length name)) @ [TlsExt_Sni_NameType_HostName]
       @ TlsWriteUint16 (of_nat (length name)) @ name"

definition alpn_value :: "uint8_t list \<Rightarrow> uint8_t list" where
  "alpn_value p = TlsWriteUint16 (of_nat (1 + length p)) @ [of_nat (length p)] @ p"

definition sni_name_of :: "uint8_t list \<Rightarrow> uint8_t list" where
  "sni_name_of v = take (unat (TlsReadUint16 (take 2 (drop 3 v)))) (drop 5 v)"

definition wf_ext :: "uint16_t \<times> uint8_t list \<Rightarrow> bool" where
  "wf_ext e \<longleftrightarrow>
     fst e \<in> recognised_extensions \<and> length (snd e) \<le> 65531 \<and>
     (if fst e = TlsExt_ServerName
      then 5 + unat (TlsReadUint16 (take 2 (drop 3 (snd e)))) \<le> length (snd e)
      else True)"

definition encode_exts :: "(uint16_t \<times> uint8_t list) list \<Rightarrow> uint8_t list" where
  "encode_exts es = concat (map (\<lambda>e. ext_record (fst e) (snd e)) es)"

definition apply_ext ::
  "uint16_t \<times> uint8_t list \<Rightarrow> QUIC_TLS \<times> QUIC_TLS_PROCESS_STATE
     \<Rightarrow> QUIC_TLS \<times> QUIC_TLS_PROCESS_STATE" where
  "apply_ext e s =
     (if fst e = TlsExt_ServerName then ((fst s)\<lparr>SNI := Some (sni_name_of (snd e))\<rparr>, snd s)
      else if fst e = TlsExt_SessionTicket
      then (fst s, (snd s)\<lparr>EarlyDataAttempted := True, EarlyDataAccepted := True\<rparr>)
      else if fst e = TlsExt_QuicTransportParameters
      then ((fst s)\<lparr>ReceivedTP := ReceivedTP (fst s) @ [(of_nat (length (snd e)), snd e)]\<rparr>, snd s)
      else s)"

definition serialize_client_extensions ::
  "uint8_t list option \<Rightarrow> uint8_t list \<Rightarrow> bool \<Rightarrow> uint8_t list \<Rightarrow> (uint16_t \<times> uint8_t list) list"
  where
  "serialize_client_extensions sni alpn early tp =
     (case sni of None \<Rightarrow> [] | Some name \<Rightarrow> [(TlsExt_ServerName, sni_value name)]) @
     [(TlsExt_AppProtocolNegotiation, alpn_value alpn)] @
     (if early then [(TlsExt_SessionTicket, [])] else []) @
     [(TlsExt_QuicTransportParameters, tp)]"

text \<open>What the client puts on the wire, in the terms of the wire format.\<close>

definition client_extensions ::
  "QUIC_TLS \<Rightarrow> QUIC_TLS_PROCESS_STATE \<Rightarrow> (uint16_t \<times> uint8_t list) list" where
  "client_extensions ctx st =
     serialize_client_extensions (map_option cstring (SNI ctx))
       (take (unat (AlpnLength (TlsSession ctx))) (Alpn (TlsSession ctx)))
       (EarlyDataAttempted st)
       (take (unat (LocalTPLength ctx)) (LocalTPBuffer ctx))"

definition client_ext_list_size :: "QUIC_TLS \<Rightarrow> QUIC_TLS_PROCESS_STATE \<Rightarrow> nat" where
  "client_ext_list_size ctx st =
     (case SNI ctx of None \<Rightarrow> 0 | Some s \<Rightarrow> 9 + strlen s) +
     (7 + unat (AlpnLength (TlsSession ctx))) +
     (if EarlyDataAttempted st then 4 else 0) + (4 + unat (LocalTPLength ctx))"

lemma mem_read_Inr_iff:
  "mem_read b off n = Inr xs \<longleftrightarrow> off + n \<le> length b \<and> xs = take n (drop off b)"
  by (auto simp: mem_read_def)

lemma mem_read_sub:
  assumes "mem_read b off n = Inr xs" "k + m \<le> n"
  shows "mem_read b (off + k) m = Inr (take m (drop k xs))"
proof -
  from assms(1) have le: "off + n \<le> length b" and xs: "xs = take n (drop off b)"
    by (simp_all add: mem_read_Inr_iff)
  have "take m (drop k xs) = take m (take (n - k) (drop k (drop off b)))"
    by (simp add: xs drop_take)
  also have "\<dots> = take m (drop (off + k) b)"
    using assms(2) by (simp add: min_def add.commute)
  finally show ?thesis using le assms(2) by (simp add: mem_read_def)
qed

lemma ServerReadExtList_done: "ServerReadExtList b ext 0 ctx st = Inr (ctx, st)"
  by (simp add: ServerReadExtList.simps)

lemma unat_of_nat_16: "n \<le> 65535 \<Longrightarrow> unat (of_nat n :: uint16_t) = n"
  by (simp add: unat_of_nat)

lemma ext_type_distinct:
  "TlsExt_ServerName \<noteq> TlsExt_AppProtocolNegotiation"
  "TlsExt_ServerName \<noteq> TlsExt_SessionTicket"
  "TlsExt_ServerName \<noteq> TlsExt_QuicTransportParameters"
  "TlsExt_AppProtocolNegotiation \<noteq> TlsExt_SessionTicket"
  "TlsExt_AppProtocolNegotiation \<noteq> TlsExt_QuicTransportParameters"
  "TlsExt_SessionTicket \<noteq> TlsExt_QuicTransportParameters"
  "TlsExt_AppProtocolNegotiation \<noteq> TlsExt_ServerName"
  "TlsExt_SessionTicket \<noteq> TlsExt_ServerName"
  "TlsExt_QuicTransportParameters \<noteq> TlsExt_ServerName"
  "TlsExt_SessionTicket \<noteq> TlsExt_AppProtocolNegotiation"
  "TlsExt_QuicTransportParameters \<noteq> TlsExt_AppProtocolNegotiation"
  "TlsExt_QuicTransportParameters \<noteq> TlsExt_SessionTicket"
  by (simp_all add: TlsExt_ServerName_def TlsExt_AppProtocolNegotiation_def
      TlsExt_SessionTicket_def TlsExt_QuicTransportParameters_def)

lemma ServerProcessExtension_wf:
  assumes wf: "wf_ext (t, v)"
    and rd: "mem_read b ext (4 + length v) = Inr (ext_record t v)"
  shows "ServerProcessExtension b ext t (of_nat (length v)) ctx st = Inr (apply_ext (t, v) (ctx, st))"
proof -
  from wf have len: "length v \<le> 65535" by (simp add: wf_ext_def)
  have u: "unat (of_nat (length v) :: uint16_t) = length v"
    using len by (rule unat_of_nat_16)
  from wf consider (sni) "t = TlsExt_ServerName" | (alpn) "t = TlsExt_AppProtocolNegotiation"
    | (ticket) "t = TlsExt_SessionTicket" | (tp) "t = TlsExt_QuicTransportParameters"
    by (auto simp: wf_ext_def recognised_extensions_def)
  then show ?thesis
  proof cases
    case sni
    with wf have n: "5 + unat (TlsReadUint16 (take 2 (drop 3 v))) \<le> length v"
      by (simp add: wf_ext_def)
    have 1: "mem_read b (ext + 7) 2 = Inr (take 2 (drop 3 v))"
      using mem_read_sub [OF rd, of 7 2] n by (simp add: ext_record_def)
    have 2: "mem_read b (ext + 9) (unat (TlsReadUint16 (take 2 (drop 3 v)))) =
        Inr (sni_name_of v)"
      using mem_read_sub [OF rd, of 9 "unat (TlsReadUint16 (take 2 (drop 3 v)))"] n
      by (simp add: ext_record_def sni_name_of_def)
    from sni 1 2 show ?thesis
      by (simp add: ServerProcessExtension_def apply_ext_def)
  next
    case alpn
    then show ?thesis by (simp add: ServerProcessExtension_def apply_ext_def ext_type_distinct)
  next
    case ticket
    then show ?thesis by (simp add: ServerProcessExtension_def apply_ext_def ext_type_distinct)
  next
    case tp
    have "mem_read b (ext + 4) (length v) = Inr v"
      using mem_read_sub [OF rd, of 4 "length v"] by (simp add: ext_record_def)
    with tp u show ?thesis
      by (simp add: ServerProcessExtension_def apply_ext_def ext_type_distinct)
  qed
qed

lemma unat_sub_16:
  fixes l :: uint16_t
  assumes "n \<le> unat l"
  shows "unat (l - of_nat n) = unat l - n"
proof -
  have "unat l < 65536" by (rule unat_lt_65536)
  with assms have n: "unat (of_nat n :: uint16_t) = n" by (simp add: unat_of_nat)
  with assms have "(of_nat n :: uint16_t) \<le> l" by (simp add: word_le_nat_alt)
  then have "unat (l - of_nat n) = unat l - unat (of_nat n :: uint16_t)" by (rule unat_sub)
  with n show ?thesis by simp
qed

lemma ServerReadExtList_record:
  assumes wf: "wf_ext (t, v)"
    and rd: "mem_read b ext (4 + length v) = Inr (ext_record t v)"
    and le: "4 + length v \<le> unat l"
  shows "ServerReadExtList b ext l ctx st =
    ServerReadExtList b (ext + (4 + length v)) (l - of_nat (4 + length v))
      (fst (apply_ext (t, v) (ctx, st))) (snd (apply_ext (t, v) (ctx, st)))"
proof -
  from wf have len: "length v \<le> 65531" by (simp add: wf_ext_def)
  then have u: "unat (of_nat (length v) :: uint16_t) = length v"
    by (simp add: unat_of_nat)
  from le have pos: "0 < l" by (simp add: word_less_nat_alt)
  have 1: "mem_read b ext 2 = Inr (TlsWriteUint16 t)"
    using mem_read_sub [OF rd, of 0 2] by (simp add: ext_record_def)
  have 2: "mem_read b (Suc (Suc ext)) 2 = Inr (TlsWriteUint16 (of_nat (length v)))"
    using mem_read_sub [OF rd, of 2 2] by (simp add: ext_record_def)
  have 3: "(of_nat (length v) + 4 :: uint16_t) = of_nat (4 + length v)" by simp
  show ?thesis
    using pos le u
    by (subst ServerReadExtList.simps)
       (simp add: 1 2 3 TlsReadUint16_TlsWriteUint16 ServerProcessExtension_wf [OF wf rd]
         ac_simps del: of_nat_add)
qed

lemma encode_exts_Cons:
  "encode_exts (e # es) = ext_record (fst e) (snd e) @ encode_exts es"
  by (simp add: encode_exts_def)

lemma encode_exts_Nil [simp]: "encode_exts [] = []"
  by (simp add: encode_exts_def)

lemma encode_exts_append: "encode_exts (xs @ ys) = encode_exts xs @ encode_exts ys"
  by (simp add: encode_exts_def)

lemma length_ext_record: "length (ext_record t v) = 4 + length v"
  by (simp add: ext_record_def)

lemma ServerReadExtList_records:
  assumes "\<forall>e \<in> set es. wf_ext e"
    and "mem_read b ext (length (encode_exts es)) = Inr (encode_exts es)"
    and "length (encode_exts es) \<le> unat l"
  shows "ServerReadExtList b ext l ctx st =
    ServerReadExtList b (ext + length (encode_exts es)) (l - of_nat (length (encode_exts es)))
      (fst (fold apply_ext es (ctx, st))) (snd (fold apply_ext es (ctx, st)))"
  using assms
proof (induction es arbitrary: ext l ctx st)
  case Nil
  then show ?case by simp
next
  case (Cons e es)
  obtain t v where e: "e = (t, v)" by (cases e)
  let ?n = "4 + length v"
  let ?r = "length (encode_exts es)"
  have total: "length (encode_exts (e # es)) = ?n + ?r"
    by (simp add: encode_exts_Cons e length_ext_record)
  from Cons.prems(1) have wf: "wf_ext (t, v)" and wfs: "\<forall>e \<in> set es. wf_ext e"
    by (simp_all add: e)
  from Cons.prems(2) have rd: "mem_read b ext (?n + ?r) = Inr (ext_record t v @ encode_exts es)"
    by (simp add: total) (simp add: encode_exts_Cons e)
  have rd1: "mem_read b ext ?n = Inr (ext_record t v)"
    using mem_read_sub [OF rd, of 0 ?n] by (simp add: length_ext_record)
  have rd2: "mem_read b (ext + ?n) ?r = Inr (encode_exts es)"
    using mem_read_sub [OF rd, of ?n ?r] by (simp add: length_ext_record)
  from Cons.prems(3) have le: "?n + ?r \<le> unat l" by (simp add: total)
  then have le1: "?n \<le> unat l" by simp
  have u: "unat (l - of_nat ?n) = unat l - ?n" using le1 by (rule unat_sub_16)
  with le have le2: "?r \<le> unat (l - of_nat ?n)" by simp
  have step: "ServerReadExtList b ext l ctx st =
      ServerReadExtList b (ext + ?n) (l - of_nat ?n)
        (fst (apply_ext (t, v) (ctx, st))) (snd (apply_ext (t, v) (ctx, st)))"
    using wf rd1 le1 by (rule ServerReadExtList_record)
  have rest: "ServerReadExtList b (ext + ?n) (l - of_nat ?n)
        (fst (apply_ext (t, v) (ctx, st))) (snd (apply_ext (t, v) (ctx, st))) =
      ServerReadExtList b (ext + ?n + ?r) (l - of_nat ?n - of_nat ?r)
        (fst (fold apply_ext es (apply_ext (t, v) (ctx, st))))
        (snd (fold apply_ext es (apply_ext (t, v) (ctx, st))))"
    using Cons.IH [OF wfs rd2 le2] by simp
  have f1: "ext + length (encode_exts (e # es)) = ext + ?n + ?r"
    by (simp add: total)
  have f2: "l - of_nat (length (encode_exts (e # es))) = l - of_nat ?n - of_nat ?r"
    by (simp add: total)
  have f3: "fold apply_ext (e # es) (ctx, st) = fold apply_ext es (apply_ext (t, v) (ctx, st))"
    by (simp add: e)
  show ?case by (simp only: f1 f2 f3 step rest)
qed

lemma ucast_32_16: "(ucast (x :: uint32_t) :: uint16_t) = of_nat (unat x)"
  by (simp add: word_unat_eq_iff unsigned_ucast_eq unat_of_nat take_bit_eq_mod)

lemma ucast_16_8: "(ucast (x :: uint16_t) :: uint8_t) = of_nat (unat x)"
  by (simp add: word_unat_eq_iff unsigned_ucast_eq unat_of_nat take_bit_eq_mod)

lemma ClientWriteSni_None: "SNI ctx = None \<Longrightarrow> ClientWriteSni ctx b ext = Inr (0, b)"
  by (simp add: ClientWriteSni_def)

lemma length_cstring [simp]: "length (cstring s) = strlen s"
  by (simp add: strlen_def)

lemma ClientWriteSni_Some:
  assumes "SNI ctx = Some s" "9 + strlen s \<le> 65535" "ext + (9 + strlen s) \<le> length b"
  shows "ClientWriteSni ctx b ext =
    Inr (of_nat (9 + strlen s), poke b ext (ext_record TlsExt_ServerName (sni_value (cstring s))))"
proof -
  have u: "unat (of_nat (strlen s) :: uint16_t) = strlen s"
    using assms(2) by (simp add: unat_of_nat)
  show ?thesis
    using assms u
    by (simp add: ClientWriteSni_def Let_def mem_write_ok length_poke poke_poke_fuse
        ext_record_def sni_value_def ac_simps)
qed

lemma ClientWriteAlpn_ok:
  assumes "unat (AlpnLength (TlsSession ctx)) \<le> length (Alpn (TlsSession ctx))"
    "k + (7 + unat (AlpnLength (TlsSession ctx))) \<le> 65535"
    "ext + (k + (7 + unat (AlpnLength (TlsSession ctx)))) \<le> length b"
  shows "ClientWriteAlpn ctx (of_nat k) b ext =
    Inr (of_nat (k + (7 + unat (AlpnLength (TlsSession ctx)))),
         poke b (ext + k) (ext_record TlsExt_AppProtocolNegotiation
           (alpn_value (take (unat (AlpnLength (TlsSession ctx))) (Alpn (TlsSession ctx))))))"
proof -
  define a where "a = unat (AlpnLength (TlsSession ctx))"
  define p where "p = take a (Alpn (TlsSession ctx))"
  have u: "unat (of_nat k :: uint16_t) = k"
    using assms(2) by (simp add: unat_of_nat)
  have lp: "length p = a" using assms(1) by (simp add: p_def a_def)
  have rd: "mem_read (Alpn (TlsSession ctx)) 0 a = Inr p"
    using assms(1) by (simp add: mem_read_ok p_def a_def)
  have al: "AlpnLength (TlsSession ctx) = of_nat a" by (simp add: a_def)
  have ua: "unat (of_nat a :: uint16_t) = a" by (simp add: a_def)
  have w: "mem_writes b
             [(ext + k, TlsWriteUint16 TlsExt_AppProtocolNegotiation),
              (ext + k + 2, TlsWriteUint16 (3 + of_nat a)),
              (ext + k + 4, TlsWriteUint16 (1 + of_nat a)),
              (ext + k + 6, [ucast (of_nat a :: uint16_t)]),
              (ext + k + 7, p)] =
        Inr (poke b (ext + k) (ext_record TlsExt_AppProtocolNegotiation (alpn_value p)))"
    using assms(3) lp ua
    by (simp add: a_def [symmetric] mem_write_ok length_poke poke_poke_fuse ext_record_def
        alpn_value_def ucast_16_8)
  have "ClientWriteAlpn ctx (of_nat k) b ext =
      Inr (of_nat k + (7 + of_nat a),
        poke b (ext + k) (ext_record TlsExt_AppProtocolNegotiation (alpn_value p)))"
    by (simp only: ClientWriteAlpn_def Let_def u al ua rd fbind_Inr w)
  then show ?thesis by (simp add: a_def p_def)
qed

lemma ClientWriteTicket_ok:
  assumes "k + (if EarlyDataAttempted st then 4 else 0) \<le> 65535"
    "ext + (k + (if EarlyDataAttempted st then 4 else 0)) \<le> length b"
  shows "ClientWriteTicket st (of_nat k) b ext =
    Inr (of_nat (k + (if EarlyDataAttempted st then 4 else 0)),
         poke b (ext + k) (if EarlyDataAttempted st then ext_record TlsExt_SessionTicket [] else []))"
proof (cases "EarlyDataAttempted st")
  case True
  with assms have u: "unat (of_nat k :: uint16_t) = k" and r: "ext + k + 4 \<le> length b"
    by (simp_all add: unat_of_nat)
  from True r show ?thesis
    by (simp add: ClientWriteTicket_def Let_def u mem_write_ok length_poke poke_poke_fuse
        ext_record_def)
next
  case False
  with assms have "poke b (ext + k) [] = b" by (simp add: poke_def)
  with False show ?thesis by (simp add: ClientWriteTicket_def)
qed

lemma ClientWriteQuicTP_ok:
  assumes "unat (LocalTPLength ctx) \<le> length (LocalTPBuffer ctx)"
    "k + (4 + unat (LocalTPLength ctx)) \<le> 65535"
    "ext + (k + (4 + unat (LocalTPLength ctx))) \<le> length b"
  shows "ClientWriteQuicTP ctx (of_nat k) b ext =
    Inr (of_nat (k + (4 + unat (LocalTPLength ctx))),
         poke b (ext + k) (ext_record TlsExt_QuicTransportParameters
           (take (unat (LocalTPLength ctx)) (LocalTPBuffer ctx))))"
proof -
  let ?a = "unat (LocalTPLength ctx)"
  let ?p = "take ?a (LocalTPBuffer ctx)"
  have u: "unat (of_nat k :: uint16_t) = k"
    using assms(2) by (simp add: unat_of_nat)
  have lp: "length ?p = ?a" using assms(1) by simp
  have rd: "mem_read (LocalTPBuffer ctx) 0 ?a = Inr ?p"
    using assms(1) by (simp add: mem_read_def)
  have al: "(ucast (LocalTPLength ctx) :: uint16_t) = of_nat ?a" by (rule ucast_32_16)
  have w: "mem_writes b
             [(ext + k, TlsWriteUint16 TlsExt_QuicTransportParameters),
              (ext + k + 2, TlsWriteUint16 (of_nat ?a)),
              (ext + k + 4, ?p)] =
        Inr (poke b (ext + k) (ext_record TlsExt_QuicTransportParameters ?p))"
    using assms(3) lp
    by (simp add: mem_write_ok length_poke poke_poke_fuse ext_record_def)
  have "ClientWriteQuicTP ctx (of_nat k) b ext =
      Inr (of_nat k + (4 + of_nat ?a),
        poke b (ext + k) (ext_record TlsExt_QuicTransportParameters ?p))"
    by (simp only: ClientWriteQuicTP_def Let_def u al rd fbind_Inr w)
  then show ?thesis by simp
qed

lemma length_client_extensions:
  assumes "unat (AlpnLength (TlsSession ctx)) \<le> length (Alpn (TlsSession ctx))"
    "unat (LocalTPLength ctx) \<le> length (LocalTPBuffer ctx)"
  shows "length (encode_exts (client_extensions ctx st)) =
    (case SNI ctx of None \<Rightarrow> 0 | Some s \<Rightarrow> 9 + strlen s) +
    (7 + unat (AlpnLength (TlsSession ctx))) +
    (if EarlyDataAttempted st then 4 else 0) + (4 + unat (LocalTPLength ctx))"
  using assms
  by (simp add: client_extensions_def serialize_client_extensions_def encode_exts_def
      ext_record_def sni_value_def alpn_value_def min_def split: option.split)

lemma ClientWriteExtList_ok:
  assumes a: "unat (AlpnLength (TlsSession ctx)) \<le> length (Alpn (TlsSession ctx))"
    and t: "unat (LocalTPLength ctx) \<le> length (LocalTPBuffer ctx)"
    and n: "length (encode_exts (client_extensions ctx st)) \<le> 65535"
    and r: "ext + length (encode_exts (client_extensions ctx st)) \<le> length b"
  shows "ClientWriteExtList ctx st b ext =
    Inr (of_nat (length (encode_exts (client_extensions ctx st))),
         poke b ext (encode_exts (client_extensions ctx st)))"
proof -
  let ?a = "unat (AlpnLength (TlsSession ctx))"
  let ?t = "unat (LocalTPLength ctx)"
  let ?e = "if EarlyDataAttempted st then 4 else (0::nat)"
  let ?A = "ext_record TlsExt_AppProtocolNegotiation
           (alpn_value (take ?a (Alpn (TlsSession ctx))))"
  let ?K = "if EarlyDataAttempted st then ext_record TlsExt_SessionTicket [] else []"
  let ?T = "ext_record TlsExt_QuicTransportParameters (take ?t (LocalTPBuffer ctx))"
  have lA: "length ?A = 7 + ?a" using a by (simp add: ext_record_def alpn_value_def min_def)
  have lK: "length ?K = ?e" by (simp add: ext_record_def)
  have lT: "length ?T = 4 + ?t" using t by (simp add: ext_record_def min_def)
  note len = length_client_extensions [OF a t, of st]
  show ?thesis
  proof (cases "SNI ctx")
    case None
    have E: "encode_exts (client_extensions ctx st) = ?A @ ?K @ ?T"
      by (simp add: client_extensions_def serialize_client_extensions_def encode_exts_def None)
    from n r len None have b1: "0 + (7 + ?a) \<le> 65535" "ext + (0 + (7 + ?a)) \<le> length b"
      and b2: "(7 + ?a) + ?e \<le> 65535" "ext + ((7 + ?a) + ?e) \<le> length b"
      and b3: "(7 + ?a + ?e) + (4 + ?t) \<le> 65535" "ext + ((7 + ?a + ?e) + (4 + ?t)) \<le> length b"
      by simp_all
    have 1: "ClientWriteAlpn ctx 0 b ext = Inr (of_nat (7 + ?a), poke b ext ?A)"
      using ClientWriteAlpn_ok [OF a b1, of ] by simp
    have 2: "ClientWriteTicket st (of_nat (7 + ?a)) (poke b ext ?A) ext =
        Inr (of_nat (7 + ?a + ?e), poke (poke b ext ?A) (ext + (7 + ?a)) ?K)"
      using ClientWriteTicket_ok [of "7 + ?a" st ext "poke b ext ?A"] b2 b1 lA
      by (simp add: length_poke)
    have 3: "ClientWriteQuicTP ctx (of_nat (7 + ?a + ?e))
          (poke (poke b ext ?A) (ext + (7 + ?a)) ?K) ext =
        Inr (of_nat (7 + ?a + ?e + (4 + ?t)),
             poke (poke (poke b ext ?A) (ext + (7 + ?a)) ?K) (ext + (7 + ?a + ?e)) ?T)"
      using ClientWriteQuicTP_ok [OF t, of "7 + ?a + ?e" ext
          "poke (poke b ext ?A) (ext + (7 + ?a)) ?K"] b3 b2 b1 lA lK
      by (simp add: length_poke)
    have fuse: "poke (poke (poke b ext ?A) (ext + (7 + ?a)) ?K) (ext + (7 + ?a + ?e)) ?T =
        poke b ext (?A @ ?K @ ?T)"
      using b1 b2 b3 lA lK lT
      by (simp add: poke_poke_fuse length_poke)
    show ?thesis
      unfolding ClientWriteExtList_def
      by (simp only: ClientWriteSni_None [OF None] fbind_Inr fst_conv snd_conv 1 2 3 fuse E)
         (simp add: lA lK lT)
  next
    case (Some s)
    let ?S = "ext_record TlsExt_ServerName (sni_value (cstring s))"
    let ?s = "9 + strlen s"
    have lS: "length ?S = ?s" by (simp add: ext_record_def sni_value_def)
    have E: "encode_exts (client_extensions ctx st) = ?S @ ?A @ ?K @ ?T"
      by (simp add: client_extensions_def serialize_client_extensions_def encode_exts_def Some)
    from n r len Some have b0: "?s \<le> 65535" "ext + ?s \<le> length b"
      and b1: "?s + (7 + ?a) \<le> 65535" "ext + (?s + (7 + ?a)) \<le> length b"
      and b2: "(?s + (7 + ?a)) + ?e \<le> 65535" "ext + ((?s + (7 + ?a)) + ?e) \<le> length b"
      and b3: "(?s + (7 + ?a) + ?e) + (4 + ?t) \<le> 65535"
        "ext + ((?s + (7 + ?a) + ?e) + (4 + ?t)) \<le> length b"
      by simp_all
    have 0: "ClientWriteSni ctx b ext = Inr (of_nat ?s, poke b ext ?S)"
      using Some b0 by (rule ClientWriteSni_Some)
    have 1: "ClientWriteAlpn ctx (of_nat ?s) (poke b ext ?S) ext =
        Inr (of_nat (?s + (7 + ?a)), poke (poke b ext ?S) (ext + ?s) ?A)"
      using ClientWriteAlpn_ok [OF a, of ?s ext "poke b ext ?S"] b1 b0 lS
      by (simp add: length_poke)
    have 2: "ClientWriteTicket st (of_nat (?s + (7 + ?a))) (poke (poke b ext ?S) (ext + ?s) ?A) ext =
        Inr (of_nat (?s + (7 + ?a) + ?e),
             poke (poke (poke b ext ?S) (ext + ?s) ?A) (ext + (?s + (7 + ?a))) ?K)"
      using ClientWriteTicket_ok [of "?s + (7 + ?a)" st ext "poke (poke b ext ?S) (ext + ?s) ?A"]
        b2 b1 b0 lS lA
      by (simp add: length_poke)
    have 3: "ClientWriteQuicTP ctx (of_nat (?s + (7 + ?a) + ?e))
          (poke (poke (poke b ext ?S) (ext + ?s) ?A) (ext + (?s + (7 + ?a))) ?K) ext =
        Inr (of_nat (?s + (7 + ?a) + ?e + (4 + ?t)),
             poke (poke (poke (poke b ext ?S) (ext + ?s) ?A) (ext + (?s + (7 + ?a))) ?K)
               (ext + (?s + (7 + ?a) + ?e)) ?T)"
      using ClientWriteQuicTP_ok [OF t, of "?s + (7 + ?a) + ?e" ext
          "poke (poke (poke b ext ?S) (ext + ?s) ?A) (ext + (?s + (7 + ?a))) ?K"]
        b3 b2 b1 b0 lS lA lK
      by (simp add: length_poke)
    have fuse: "poke (poke (poke (poke b ext ?S) (ext + ?s) ?A) (ext + (?s + (7 + ?a))) ?K)
               (ext + (?s + (7 + ?a) + ?e)) ?T =
        poke b ext (?S @ ?A @ ?K @ ?T)"
      using b0 b1 b2 b3 lS lA lK lT
      by (simp add: poke_poke_fuse length_poke)
    show ?thesis
      unfolding ClientWriteExtList_def
      by (simp only: 0 fbind_Inr fst_conv snd_conv 1 2 3 fuse E)
         (simp add: lS lA lK lT)
  qed
qed

lemma wf_ext_sni:
  assumes "length name \<le> 65526"
  shows "wf_ext (TlsExt_ServerName, sni_value name)"
    and "sni_name_of (sni_value name) = name"
proof -
  have u: "unat (of_nat (length name) :: uint16_t) = length name"
    using assms by (simp add: unat_of_nat)
  have r: "take 2 (drop 3 (sni_value name)) = TlsWriteUint16 (of_nat (length name))"
    by (simp add: sni_value_def)
  show "wf_ext (TlsExt_ServerName, sni_value name)"
    using assms
    by (simp add: wf_ext_def recognised_extensions_def r TlsReadUint16_TlsWriteUint16 u)
       (simp add: sni_value_def)
  show "sni_name_of (sni_value name) = name"
    by (simp add: sni_name_of_def r TlsReadUint16_TlsWriteUint16 u) (simp add: sni_value_def)
qed

lemma wf_client_extensions:
  assumes a: "unat (AlpnLength (TlsSession ctx)) \<le> length (Alpn (TlsSession ctx))"
    and t: "unat (LocalTPLength ctx) \<le> length (LocalTPBuffer ctx)"
    and n: "client_ext_list_size ctx st \<le> 65535"
  shows "\<forall>e \<in> set (client_extensions ctx st). wf_ext e"
proof -
  have alpn: "wf_ext (TlsExt_AppProtocolNegotiation,
      alpn_value (take (unat (AlpnLength (TlsSession ctx))) (Alpn (TlsSession ctx))))"
    using a n
    by (simp add: wf_ext_def recognised_extensions_def ext_type_distinct alpn_value_def
        client_ext_list_size_def min_def)
  have ticket: "wf_ext (TlsExt_SessionTicket, [])"
    by (simp add: wf_ext_def recognised_extensions_def ext_type_distinct)
  have tp: "wf_ext (TlsExt_QuicTransportParameters,
      take (unat (LocalTPLength ctx)) (LocalTPBuffer ctx))"
    using t n
    by (simp add: wf_ext_def recognised_extensions_def ext_type_distinct
        client_ext_list_size_def min_def)
  have sni: "wf_ext (TlsExt_ServerName, sni_value (cstring s))" if "SNI ctx = Some s" for s
    using n that by (intro wf_ext_sni) (simp add: client_ext_list_size_def)
  show ?thesis
    using alpn ticket tp sni
    by (auto simp: client_extensions_def serialize_client_extensions_def split: option.split)
qed

lemma fold_apply_client_extensions:
  assumes "client_ext_list_size cctx cst \<le> 65535"
    "unat (LocalTPLength cctx) \<le> length (LocalTPBuffer cctx)"
  shows "fold apply_ext (client_extensions cctx cst) (sctx, sst) =
    (sctx\<lparr>SNI := (case SNI cctx of None \<Rightarrow> SNI sctx | Some s \<Rightarrow> Some (cstring s)),
           ReceivedTP := ReceivedTP sctx @
             [(ucast (LocalTPLength cctx), take (unat (LocalTPLength cctx)) (LocalTPBuffer cctx))]\<rparr>,
     if EarlyDataAttempted cst
     then sst\<lparr>EarlyDataAttempted := True, EarlyDataAccepted := True\<rparr> else sst)"
proof -
  have n: "sni_name_of (sni_value (cstring s)) = cstring s" if "SNI cctx = Some s" for s
    using assms(1) that by (intro wf_ext_sni) (simp add: client_ext_list_size_def)
  show ?thesis
    using assms(2) n
    by (cases "SNI cctx")
       (simp_all add: client_extensions_def serialize_client_extensions_def apply_ext_def
         ext_type_distinct min_def)
qed

text \<open>Claim C6: for every valid combination of optional server name, ALPN value,
  early-data-attempted flag and transport-parameter bytes, serializing the client extension
  list and then parsing it with the server-side extension parser recovers the same server
  name, the same early-data-attempted flag, and delivers exactly the same transport-parameter
  bytes through the callback. Valid: the session and the context hold the bytes their length
  fields announce, the list fits its 16-bit length, and the output buffer has room for it.
  The server starts, as in its first call, without a server name and with the
  early-data flag cleared.\<close>

theorem extension_roundtrip:
  assumes a: "unat (AlpnLength (TlsSession cctx)) \<le> length (Alpn (TlsSession cctx))"
    and t: "unat (LocalTPLength cctx) \<le> length (LocalTPBuffer cctx)"
    and n: "client_ext_list_size cctx cst \<le> 65535"
    and r: "ext + client_ext_list_size cctx cst \<le> length b"
    and s0: "SNI sctx = None" and e0: "\<not> EarlyDataAttempted sst"
  shows "\<exists>l b' sctx' sst'.
      ClientWriteExtList cctx cst b ext = Inr (l, b') \<and>
      ServerReadExtList b' ext l sctx sst = Inr (sctx', sst') \<and>
      SNI sctx' = map_option cstring (SNI cctx) \<and>
      EarlyDataAttempted sst' = EarlyDataAttempted cst \<and>
      ReceivedTP sctx' = ReceivedTP sctx @
        [(ucast (LocalTPLength cctx), take (unat (LocalTPLength cctx)) (LocalTPBuffer cctx))]"
proof -
  let ?es = "client_extensions cctx cst"
  let ?E = "encode_exts ?es"
  have len: "length ?E = client_ext_list_size cctx cst"
    using length_client_extensions [OF a t] by (simp add: client_ext_list_size_def)
  have w: "ClientWriteExtList cctx cst b ext = Inr (of_nat (length ?E), poke b ext ?E)"
    using a t n r by (intro ClientWriteExtList_ok) (simp_all add: len)
  have rd: "mem_read (poke b ext ?E) ext (length ?E) = Inr ?E"
    using r mem_read_poke_within [of ext ?E b ext "length ?E"] by (simp add: len)
  have u: "unat (of_nat (length ?E) :: uint16_t) = length ?E"
    using n by (simp add: len unat_of_nat)
  have "ServerReadExtList (poke b ext ?E) ext (of_nat (length ?E)) sctx sst =
      ServerReadExtList (poke b ext ?E) (ext + length ?E) (of_nat (length ?E) - of_nat (length ?E))
        (fst (fold apply_ext ?es (sctx, sst))) (snd (fold apply_ext ?es (sctx, sst)))"
    using wf_client_extensions [OF a t n] rd
    by (rule ServerReadExtList_records) (simp add: u)
  then have p: "ServerReadExtList (poke b ext ?E) ext (of_nat (length ?E)) sctx sst =
      Inr (fold apply_ext ?es (sctx, sst))"
    by (simp add: ServerReadExtList_done)
  show ?thesis
    using s0 e0
    by (simp add: w p fold_apply_client_extensions [OF n t] split: option.split)
qed

theorem extension_roundtrip_witness:
  "unat (AlpnLength (TlsSession (example_context False QUIC_TLS_MESSAGE_INVALID
       (Some [0x61, 0x2e, 0x74, 0x65, 0x73, 0x74]) [1, 2, 3] 0)))
     \<le> length (Alpn (TlsSession (example_context False QUIC_TLS_MESSAGE_INVALID
       (Some [0x61, 0x2e, 0x74, 0x65, 0x73, 0x74]) [1, 2, 3] 0))) \<and>
   client_ext_list_size (example_context False QUIC_TLS_MESSAGE_INVALID
       (Some [0x61, 0x2e, 0x74, 0x65, 0x73, 0x74]) [1, 2, 3] 0)
     ((example_state 128)\<lparr>EarlyDataAttempted := True\<rparr>) = 35 \<and>
   SNI (example_context True QUIC_TLS_MESSAGE_INVALID None [] 50) = None \<and>
   \<not> EarlyDataAttempted (example_state 512) \<and>
   (\<exists>l b' sctx' sst'.
      ClientWriteExtList (example_context False QUIC_TLS_MESSAGE_INVALID
          (Some [0x61, 0x2e, 0x74, 0x65, 0x73, 0x74]) [1, 2, 3] 0)
        ((example_state 128)\<lparr>EarlyDataAttempted := True\<rparr>) (replicate 128 0) 45 = Inr (l, b') \<and>
      ServerReadExtList b' 45 l (example_context True QUIC_TLS_MESSAGE_INVALID None [] 50)
        (example_state 512) = Inr (sctx', sst') \<and>
      SNI sctx' = Some [0x61, 0x2e, 0x74, 0x65, 0x73, 0x74] \<and>
      EarlyDataAttempted sst' = True \<and>
      ReceivedTP sctx' = [(3, [1, 2, 3])])"
  using extension_roundtrip [of
      "example_context False QUIC_TLS_MESSAGE_INVALID (Some [0x61, 0x2e, 0x74, 0x65, 0x73, 0x74])
         [1, 2, 3] 0"
      "(example_state 128)\<lparr>EarlyDataAttempted := True\<rparr>" 45 "replicate 128 0"
      "example_context True QUIC_TLS_MESSAGE_INVALID None [] 50" "example_state 512"]
  by (simp add: example_defs client_ext_list_size_def strlen_def cstring_def)

section \<open>Extensions the server does not accept\<close>

text \<open>A ClientInitial with the given extension-list bytes, for the concrete runs.\<close>

definition example_client_initial :: "uint8_t list \<Rightarrow> uint8_t list" where
  "example_client_initial exts =
     [1] @ TlsWriteUint24 (of_nat (41 + length exts)) @ [3, 2] @ replicate 32 0x5a @ [0] @ [0, 0]
       @ [1] @ [0] @ TlsWriteUint16 (of_nat (length exts)) @ exts"

lemma ServerReadExtList_offending:
  assumes pos: "0 < l"
    and rd: "mem_read b ext 4 = Inr (TlsWriteUint16 t @ TlsWriteUint16 len)"
    and bad: "t \<notin> recognised_extensions \<or> unat l < unat len + 4"
  shows "ServerReadExtList b ext l ctx st = Inl FreAssert"
proof -
  have 1: "mem_read b ext 2 = Inr (TlsWriteUint16 t)"
    using mem_read_sub [OF rd, of 0 2] by simp
  have 2: "mem_read b (Suc (Suc ext)) 2 = Inr (TlsWriteUint16 len)"
    using mem_read_sub [OF rd, of 2 2] by simp
  show ?thesis
  proof (cases "unat len + 4 \<le> unat l")
    case False
    with pos show ?thesis
      by (subst ServerReadExtList.simps) (simp add: 1 2 TlsReadUint16_TlsWriteUint16)
  next
    case True
    with bad have "t \<notin> recognised_extensions" by simp
    then have "ServerProcessExtension b ext t len ctx st = Inl FreAssert"
      by (simp add: ServerProcessExtension_def recognised_extensions_def)
    with pos True show ?thesis
      by (subst ServerReadExtList.simps) (simp add: 1 2 TlsReadUint16_TlsWriteUint16)
  qed
qed

lemma ServerReadExtList_aborts:
  assumes wf: "\<forall>e \<in> set es. wf_ext e"
    and rd: "mem_read b ext (length (encode_exts es) + 4) =
               Inr (encode_exts es @ TlsWriteUint16 t @ TlsWriteUint16 len)"
    and more: "length (encode_exts es) < unat l"
    and bad: "t \<notin> recognised_extensions \<or> unat l - length (encode_exts es) < unat len + 4"
  shows "ServerReadExtList b ext l ctx st = Inl FreAssert"
proof -
  let ?n = "length (encode_exts es)"
  have rd1: "mem_read b ext ?n = Inr (encode_exts es)"
    using mem_read_sub [OF rd, of 0 ?n] by simp
  have rd2: "mem_read b (ext + ?n) 4 = Inr (TlsWriteUint16 t @ TlsWriteUint16 len)"
    using mem_read_sub [OF rd, of ?n 4] by simp
  have u: "unat (l - of_nat ?n) = unat l - ?n"
    using more by (intro unat_sub_16) simp
  with more have pos: "0 < l - of_nat ?n" by (simp add: word_less_nat_alt)
  have "ServerReadExtList b ext l ctx st =
      ServerReadExtList b (ext + ?n) (l - of_nat ?n)
        (fst (fold apply_ext es (ctx, st))) (snd (fold apply_ext es (ctx, st)))"
    using wf rd1 more by (intro ServerReadExtList_records) simp_all
  also have "\<dots> = Inl FreAssert"
    using pos rd2 bad by (intro ServerReadExtList_offending) (simp_all add: u)
  finally show ?thesis .
qed

text \<open>Claim C2, as amended: for every ClientInitial processed by the server from state None,
  if the extension list holds, after any number of well-formed recognised extensions, an
  extension whose type is outside the closed set (ServerName,
  ApplicationProtocolNegotiation, SessionTicket, QuicTransportParameters), or whose declared
  length (+4) exceeds the remaining declared list length, then the call does not return: the
  release assertion fails and the process aborts, no result flag being reported and nothing
  having been emitted.\<close>

theorem offending_extension_aborts:
  assumes server: "IsServer ctx" "LastMessageType ctx = QUIC_TLS_MESSAGE_INVALID"
    and room: "BufferLength st < BufferAllocLength st"
    and valid: "QuicTlsHasValidMessageToProcess ctx b"
    and decl: "mem_read b off_ExtListLength 2 = Inr (TlsWriteUint16 l)"
    and wf: "\<forall>e \<in> set es. wf_ext e"
    and rd: "mem_read b off_ExtList (length (encode_exts es) + 4) =
               Inr (encode_exts es @ TlsWriteUint16 t @ TlsWriteUint16 len)"
    and more: "length (encode_exts es) < unat l"
    and bad: "t \<notin> recognised_extensions \<or> unat l - length (encode_exts es) < unat len + 4"
  shows "QuicTlsProcessData cp ctx b st = Inl FreAssert"
proof -
  from decl have "off_Type + 1 \<le> length b" by (simp add: mem_read_Inr_iff offs)
  then obtain ty where ty: "mem_read b off_Type (Suc 0) = Inr ty" by (simp add: mem_read_def)
  have loop: "ServerReadExtList b off_ExtList l ctx
      (st\<lparr>EarlyDataAttempted := False, EarlyDataAccepted := False\<rparr>) = Inl FreAssert"
    using wf rd more bad by (rule ServerReadExtList_aborts)
  have "ServerProcessClientInitial cp (BufferAllocLength st - BufferLength st) ctx {} st b =
      Inl FreAssert"
    by (simp add: ServerProcessClientInitial_def ty decl TlsReadUint16_TlsWriteUint16 loop)
  with server room valid show ?thesis
    by (simp add: QuicTlsProcessData_def QuicTlsServerProcess_def)
qed

theorem offending_extension_aborts_witness:
  "IsServer (example_context True QUIC_TLS_MESSAGE_INVALID None [] 50) \<and>
   BufferLength (example_state 512) < BufferAllocLength (example_state 512) \<and>
   QuicTlsHasValidMessageToProcess (example_context True QUIC_TLS_MESSAGE_INVALID None [] 50)
     (example_client_initial [0, 0x23, 0, 0, 0, 5, 0, 0]) \<and>
   wf_ext (TlsExt_SessionTicket, []) \<and>
   (5 :: uint16_t) \<notin> recognised_extensions \<and>
   QuicTlsProcessData example_platform (example_context True QUIC_TLS_MESSAGE_INVALID None [] 50)
     (example_client_initial [0, 0x23, 0, 0, 0, 5, 0, 0]) (example_state 512) = Inl FreAssert"
proof -
  have v: "QuicTlsHasValidMessageToProcess (example_context True QUIC_TLS_MESSAGE_INVALID None [] 50)
     (example_client_initial [0, 0x23, 0, 0, 0, 5, 0, 0])"
    by (simp add: QuicTlsHasValidMessageToProcess_def example_client_initial_def
        example_context_def offs TlsWriteUint24_def TlsReadUint24_def)
  have w: "wf_ext (TlsExt_SessionTicket, [])"
    by (simp add: wf_ext_def recognised_extensions_def ext_type_distinct)
  have n: "(5 :: uint16_t) \<notin> recognised_extensions"
    by (simp add: recognised_extensions_def TlsExt_ServerName_def
        TlsExt_AppProtocolNegotiation_def TlsExt_SessionTicket_def
        TlsExt_QuicTransportParameters_def)
  have d: "mem_read (example_client_initial [0, 0x23, 0, 0, 0, 5, 0, 0]) off_ExtListLength 2 =
      Inr (TlsWriteUint16 8)"
    by (simp add: example_client_initial_def mem_read_def offs TlsWriteUint16_def)
  have r: "mem_read (example_client_initial [0, 0x23, 0, 0, 0, 5, 0, 0]) off_ExtList
        (length (encode_exts [(TlsExt_SessionTicket, [])]) + 4) =
      Inr (encode_exts [(TlsExt_SessionTicket, [])] @ TlsWriteUint16 5 @ TlsWriteUint16 0)"
    by (simp add: example_client_initial_def mem_read_def offs encode_exts_def ext_record_def
        TlsWriteUint16_consts)
       (simp add: TlsWriteUint16_def)
  have "QuicTlsProcessData example_platform (example_context True QUIC_TLS_MESSAGE_INVALID None [] 50)
     (example_client_initial [0, 0x23, 0, 0, 0, 5, 0, 0]) (example_state 512) = Inl FreAssert"
    using _ _ _ v d _ r
    by (rule offending_extension_aborts)
       (simp_all add: example_context_def example_state_def w n encode_exts_def ext_record_def)
  with v w n show ?thesis by (simp add: example_context_def example_state_def)
qed

text \<open>The claim as first stated fails: a ClientInitial whose only extension has the
  unknown type 5, and one whose declared list length 3 is shorter than its one extension,
  both abort the call instead of returning the Error flag.\<close>

theorem unknown_extension_type_aborts:
  "QuicTlsProcessData example_platform (example_context True QUIC_TLS_MESSAGE_INVALID None [] 50)
     (example_client_initial [0, 5, 0, 0]) (example_state 512) = Inl FreAssert \<and>
   QuicTlsProcessData example_platform (example_context True QUIC_TLS_MESSAGE_INVALID None [] 50)
     ([1] @ TlsWriteUint24 45 @ [3, 2] @ replicate 32 0x5a @ [0] @ [0, 0] @ [1] @ [0]
        @ TlsWriteUint16 3 @ [0, 0x23, 0, 0]) (example_state 512) = Inl FreAssert"
  by (simp add: QuicTlsProcessData_def QuicTlsHasValidMessageToProcess_def
      QuicTlsServerProcess_def ServerProcessClientInitial_def example_client_initial_def
      example_context_def example_state_def offs mem_read_def TlsWriteUint24_def
      TlsReadUint24_def TlsWriteUint16_def TlsReadUint16_def ServerReadExtList.simps
      ServerProcessExtension_def TlsExt_ServerName_def
      TlsExt_AppProtocolNegotiation_def TlsExt_SessionTicket_def
      TlsExt_QuicTransportParameters_def)

section \<open>The input validity gate\<close>

text \<open>The framed length a message header declares: the 24-bit length plus the header.\<close>

definition declared_record_length :: "uint8_t list \<Rightarrow> nat" where
  "declared_record_length b = unat (TlsReadUint24 (take 3 (drop off_Length b))) + 4"

lemma length_encode_client_extensions:
  assumes "unat (AlpnLength (TlsSession ctx)) \<le> length (Alpn (TlsSession ctx))"
    "unat (LocalTPLength ctx) \<le> length (LocalTPBuffer ctx)"
  shows "length (encode_exts (client_extensions ctx st)) = client_ext_list_size ctx st"
  using length_client_extensions [OF assms] by (simp add: client_ext_list_size_def)

lemma ClientSendInitial_ok:
  assumes a: "unat (AlpnLength (TlsSession ctx)) \<le> length (Alpn (TlsSession ctx))"
    and t: "unat (LocalTPLength ctx) \<le> length (LocalTPBuffer ctx)"
    and n: "client_ext_list_size ctx (st\<lparr>EarlyDataAttempted := True, EarlyDataAccepted := False\<rparr>)
              \<le> 65535"
    and r: "unat (BufferLength st) + (45 + client_ext_list_size ctx
              (st\<lparr>EarlyDataAttempted := True, EarlyDataAccepted := False\<rparr>)) \<le> length (Buffer st)"
  shows "\<exists>r. ClientSendInitial ctx rf st = Inr r \<and>
      ResultFlags r = insert QUIC_TLS_RESULT_DATA rf \<and> DrainLength r = 0 \<and>
      TlsContext r = ctx\<lparr>LastMessageType := QUIC_TLS_MESSAGE_CLIENT_INITIAL\<rparr> \<and>
      mem_read (Buffer (State r)) (unat (BufferLength st) + off_Type) 1 =
        Inr [TlsHandshake_ClientHello] \<and>
      mem_read (Buffer (State r)) (unat (BufferLength st) + off_ExtList)
          (client_ext_list_size ctx (st\<lparr>EarlyDataAttempted := True, EarlyDataAccepted := False\<rparr>)) =
        Inr (encode_exts (client_extensions ctx
          (st\<lparr>EarlyDataAttempted := True, EarlyDataAccepted := False\<rparr>)))"
proof -
  define st1 where "st1 = st\<lparr>EarlyDataAttempted := True, EarlyDataAccepted := False\<rparr>"
  define cm where "cm = unat (BufferLength st)"
  define E where "E = encode_exts (client_extensions ctx st1)"
  define b1 where "b1 = poke (poke (poke (poke (poke (Buffer st)
      (cm + off_Type) [TlsHandshake_ClientHello])
      (cm + off_Version) (TlsWriteUint16 0x0302)) (cm + off_SessionIdLength) [0])
      (cm + off_CipherSuiteLength) (TlsWriteUint16 0)) (cm + off_CompressionMethodLength) [1]"
  define b2 where "b2 = poke b1 (cm + off_ExtList) E"
  define ml where "ml = (of_nat sizeof_QUIC_TLS_CLIENT_HELLO + of_nat (length E) + 4 :: uint16_t)"
  define b3 where "b3 = poke (poke b2 (cm + off_ExtListLength) (TlsWriteUint16 (of_nat (length E))))
      (cm + off_Length) (TlsWriteUint24 (ucast ml - 4))"
  have len: "length E = client_ext_list_size ctx st1"
    unfolding E_def using a t by (rule length_encode_client_extensions)
  from n r have n': "length E \<le> 65535" and r': "cm + (45 + length E) \<le> length (Buffer st)"
    by (simp_all add: len st1_def cm_def)
  have hdr: "mem_writes (Buffer st1)
       [(cm + off_Type, [TlsHandshake_ClientHello]),
        (cm + off_Version, TlsWriteUint16 0x0302),
        (cm + off_SessionIdLength, [0]),
        (cm + off_CipherSuiteLength, TlsWriteUint16 0),
        (cm + off_CompressionMethodLength, [1])] = Inr b1"
    using r' by (simp add: b1_def st1_def offs mem_write_ok length_poke)
  have l1: "length b1 = length (Buffer st)"
    using r' by (simp add: b1_def offs length_poke)
  have ext: "ClientWriteExtList ctx st1 b1 (cm + off_ExtList) = Inr (of_nat (length E), b2)"
    unfolding b2_def E_def
    using a t n' r' by (intro ClientWriteExtList_ok) (simp_all add: l1 E_def offs)
  have l2: "length b2 = length (Buffer st)"
    using r' by (simp add: b2_def length_poke l1 offs)
  have tail: "mem_writes b2
       [(cm + off_ExtListLength, TlsWriteUint16 (of_nat (length E))),
        (cm + off_Length, TlsWriteUint24 (ucast ml - 4))] = Inr b3"
    using r' by (simp add: b3_def offs mem_write_ok length_poke l2)
  have run: "ClientSendInitial ctx rf st =
      Inr \<lparr> ResultFlags = insert QUIC_TLS_RESULT_DATA rf, DrainLength = 0,
            TlsContext = ctx\<lparr>LastMessageType := QUIC_TLS_MESSAGE_CLIENT_INITIAL\<rparr>,
            State = st1\<lparr>Buffer := b3, BufferLength := ml, BufferTotalLength := ucast ml,
              WriteKey := QUIC_PACKET_KEY_0_RTT,
              WriteKeys := (WriteKeys st)
                (QUIC_PACKET_KEY_0_RTT \<mapsto> QuicStubAllocKey QUIC_PACKET_KEY_0_RTT)\<rparr> \<rparr>"
    unfolding ClientSendInitial_def Let_def st1_def [symmetric] cm_def [symmetric]
    by (simp only: hdr fbind_Inr ext fst_conv snd_conv tail ml_def [symmetric])
       (simp add: st1_def)
  have rd1: "mem_read b3 (cm + off_Type) (Suc 0) = Inr [TlsHandshake_ClientHello]"
    using r'
    by (simp add: b3_def b2_def b1_def offs mem_read_poke_disjoint mem_read_poke_within
        length_poke)
  have rd2: "mem_read b3 (cm + off_ExtList) (length E) = Inr E"
    using r'
    by (simp add: b3_def b2_def offs mem_read_poke_disjoint mem_read_poke_within length_poke l1)
  show ?thesis
    unfolding st1_def [symmetric] cm_def [symmetric] E_def [symmetric] len [symmetric]
    by (simp only: run) (simp add: rd1 rd2)
qed

lemma unat_TlsReadUint24_bound:
  assumes "length xs = 3"
  shows "unat (TlsReadUint24 xs) < 2 ^ 24"
proof -
  from assms obtain a b c where xs: "xs = [a, b, c]"
    by (cases xs; cases "tl xs"; cases "tl (tl xs)") auto
  show ?thesis
    using unat_lt_256 [of a] unat_lt_256 [of b] unat_lt_256 [of c]
    by (simp add: xs unat_TlsReadUint24)
qed

lemma unat_framed_length:
  assumes "7 \<le> length b"
  shows "unat (TlsReadUint24 (take 3 (drop off_Length b)) + 4) = declared_record_length b"
proof -
  have "unat (TlsReadUint24 (take 3 (drop off_Length b))) < 2 ^ 24"
    using assms by (intro unat_TlsReadUint24_bound) (simp add: offs)
  then show ?thesis
    by (simp add: declared_record_length_def unat_word_ariths)
qed

text \<open>Claim C5: for every processing call where the input has fewer than 7 bytes, or where
  the declared 24-bit message length plus 4 exceeds the bytes available, the call returns
  zero result flags, reports zero bytes consumed and changes nothing; the single exception
  is a client in state None given zero input bytes, which is processed normally and
  produces the first ClientInitial (whenever the output buffer has room for it and the
  context holds the bytes its length fields announce).\<close>

theorem need_more_data:
  "((length b < 7 \<or> 7 \<le> length b \<and> length b < declared_record_length b) \<and>
      \<not> (\<not> IsServer ctx \<and> LastMessageType ctx = QUIC_TLS_MESSAGE_INVALID \<and> length b = 0) \<longrightarrow>
      QuicTlsProcessData cp ctx b st =
        Inr \<lparr> ResultFlags = {}, DrainLength = 0, TlsContext = ctx, State = st \<rparr>) \<and>
   (\<not> IsServer ctx \<and> LastMessageType ctx = QUIC_TLS_MESSAGE_INVALID \<and>
      BufferLength st < BufferAllocLength st \<and>
      unat (AlpnLength (TlsSession ctx)) \<le> length (Alpn (TlsSession ctx)) \<and>
      unat (LocalTPLength ctx) \<le> length (LocalTPBuffer ctx) \<and>
      client_ext_list_size ctx (st\<lparr>EarlyDataAttempted := True, EarlyDataAccepted := False\<rparr>)
        \<le> 65535 \<and>
      unat (BufferLength st) + (45 + client_ext_list_size ctx
        (st\<lparr>EarlyDataAttempted := True, EarlyDataAccepted := False\<rparr>)) \<le> length (Buffer st) \<longrightarrow>
      (\<exists>r. QuicTlsProcessData cp ctx [] st = Inr r \<and>
         ResultFlags r = {QUIC_TLS_RESULT_DATA} \<and> DrainLength r = 0 \<and>
         TlsContext r = ctx\<lparr>LastMessageType := QUIC_TLS_MESSAGE_CLIENT_INITIAL\<rparr> \<and>
         mem_read (Buffer (State r)) (unat (BufferLength st) + off_Type) 1 =
           Inr [TlsHandshake_ClientHello] \<and>
         mem_read (Buffer (State r)) (unat (BufferLength st) + off_ExtList)
             (client_ext_list_size ctx
               (st\<lparr>EarlyDataAttempted := True, EarlyDataAccepted := False\<rparr>)) =
           Inr (encode_exts (client_extensions ctx
             (st\<lparr>EarlyDataAttempted := True, EarlyDataAccepted := False\<rparr>)))))"
proof (intro conjI impI)
  assume h: "(length b < 7 \<or> 7 \<le> length b \<and> length b < declared_record_length b) \<and>
      \<not> (\<not> IsServer ctx \<and> LastMessageType ctx = QUIC_TLS_MESSAGE_INVALID \<and> length b = 0)"
  have "\<not> QuicTlsHasValidMessageToProcess ctx b"
  proof (cases "length b < 7")
    case True
    with h show ?thesis by (auto simp: QuicTlsHasValidMessageToProcess_def)
  next
    case False
    with h have "length b < declared_record_length b" by simp
    with False h show ?thesis
      by (auto simp: QuicTlsHasValidMessageToProcess_def Let_def unat_framed_length)
  qed
  then show "QuicTlsProcessData cp ctx b st =
        Inr \<lparr> ResultFlags = {}, DrainLength = 0, TlsContext = ctx, State = st \<rparr>"
    by (simp add: QuicTlsProcessData_def)
next
  assume h: "\<not> IsServer ctx \<and> LastMessageType ctx = QUIC_TLS_MESSAGE_INVALID \<and>
      BufferLength st < BufferAllocLength st \<and>
      unat (AlpnLength (TlsSession ctx)) \<le> length (Alpn (TlsSession ctx)) \<and>
      unat (LocalTPLength ctx) \<le> length (LocalTPBuffer ctx) \<and>
      client_ext_list_size ctx (st\<lparr>EarlyDataAttempted := True, EarlyDataAccepted := False\<rparr>)
        \<le> 65535 \<and>
      unat (BufferLength st) + (45 + client_ext_list_size ctx
        (st\<lparr>EarlyDataAttempted := True, EarlyDataAccepted := False\<rparr>)) \<le> length (Buffer st)"
  then have run: "QuicTlsProcessData cp ctx [] st = ClientSendInitial ctx {} st"
    by (simp add: QuicTlsProcessData_def QuicTlsHasValidMessageToProcess_def
        QuicTlsClientProcess_def)
  from h have "\<exists>r. ClientSendInitial ctx {} st = Inr r \<and>
      ResultFlags r = insert QUIC_TLS_RESULT_DATA {} \<and> DrainLength r = 0 \<and>
      TlsContext r = ctx\<lparr>LastMessageType := QUIC_TLS_MESSAGE_CLIENT_INITIAL\<rparr> \<and>
      mem_read (Buffer (State r)) (unat (BufferLength st) + off_Type) 1 =
        Inr [TlsHandshake_ClientHello] \<and>
      mem_read (Buffer (State r)) (unat (BufferLength st) + off_ExtList)
          (client_ext_list_size ctx (st\<lparr>EarlyDataAttempted := True, EarlyDataAccepted := False\<rparr>)) =
        Inr (encode_exts (client_extensions ctx
          (st\<lparr>EarlyDataAttempted := True, EarlyDataAccepted := False\<rparr>)))"
    by (intro ClientSendInitial_ok) simp_all
  then show "\<exists>r. QuicTlsProcessData cp ctx [] st = Inr r \<and>
         ResultFlags r = {QUIC_TLS_RESULT_DATA} \<and> DrainLength r = 0 \<and>
         TlsContext r = ctx\<lparr>LastMessageType := QUIC_TLS_MESSAGE_CLIENT_INITIAL\<rparr> \<and>
         mem_read (Buffer (State r)) (unat (BufferLength st) + off_Type) 1 =
           Inr [TlsHandshake_ClientHello] \<and>
         mem_read (Buffer (State r)) (unat (BufferLength st) + off_ExtList)
             (client_ext_list_size ctx
               (st\<lparr>EarlyDataAttempted := True, EarlyDataAccepted := False\<rparr>)) =
           Inr (encode_exts (client_extensions ctx
             (st\<lparr>EarlyDataAttempted := True, EarlyDataAccepted := False\<rparr>)))"
    by (simp only: run)
qed

theorem need_more_data_witness:
  "length [5, 0, 0, 4, 1 :: uint8_t] < 7 \<and>
   QuicTlsProcessData example_platform (example_context True QUIC_TLS_MESSAGE_INVALID None [] 50)
       [5, 0, 0, 4, 1] (example_state 64) =
     Inr \<lparr> ResultFlags = {}, DrainLength = 0,
           TlsContext = example_context True QUIC_TLS_MESSAGE_INVALID None [] 50,
           State = example_state 64 \<rparr> \<and>
   7 \<le> length [3, 0, 0, 10, 0, 0, 0, 0 :: uint8_t] \<and>
   length [3, 0, 0, 10, 0, 0, 0, 0 :: uint8_t] < declared_record_length [3, 0, 0, 10, 0, 0, 0, 0] \<and>
   QuicTlsProcessData example_platform
       (example_context False QUIC_TLS_MESSAGE_CLIENT_INITIAL None [] 50)
       [3, 0, 0, 10, 0, 0, 0, 0] (example_state 64) =
     Inr \<lparr> ResultFlags = {}, DrainLength = 0,
           TlsContext = example_context False QUIC_TLS_MESSAGE_CLIENT_INITIAL None [] 50,
           State = example_state 64 \<rparr> \<and>
   client_ext_list_size (example_context False QUIC_TLS_MESSAGE_INVALID None [] 50)
     ((example_state 64)\<lparr>EarlyDataAttempted := True, EarlyDataAccepted := False\<rparr>) = 17 \<and>
   (\<exists>r. QuicTlsProcessData example_platform
           (example_context False QUIC_TLS_MESSAGE_INVALID None [] 50) [] (example_state 64) = Inr r \<and>
      ResultFlags r = {QUIC_TLS_RESULT_DATA} \<and> DrainLength r = 0 \<and>
      TlsContext r = (example_context False QUIC_TLS_MESSAGE_INVALID None [] 50)
        \<lparr>LastMessageType := QUIC_TLS_MESSAGE_CLIENT_INITIAL\<rparr> \<and>
      mem_read (Buffer (State r)) (unat (BufferLength (example_state 64)) + off_Type) 1 =
        Inr [TlsHandshake_ClientHello] \<and>
      mem_read (Buffer (State r)) (unat (BufferLength (example_state 64)) + off_ExtList)
          (client_ext_list_size (example_context False QUIC_TLS_MESSAGE_INVALID None [] 50)
            ((example_state 64)\<lparr>EarlyDataAttempted := True, EarlyDataAccepted := False\<rparr>)) =
        Inr (encode_exts (client_extensions (example_context False QUIC_TLS_MESSAGE_INVALID None [] 50)
          ((example_state 64)\<lparr>EarlyDataAttempted := True, EarlyDataAccepted := False\<rparr>))))"
  using need_more_data [of "[5, 0, 0, 4, 1]"
      "example_context True QUIC_TLS_MESSAGE_INVALID None [] 50" example_platform
      "example_state 64"]
    need_more_data [of "[3, 0, 0, 10, 0, 0, 0, 0]"
      "example_context False QUIC_TLS_MESSAGE_CLIENT_INITIAL None [] 50" example_platform
      "example_state 64"]
    need_more_data [of "[]"
      "example_context False QUIC_TLS_MESSAGE_INVALID None [] 50" example_platform
      "example_state 64"]
  by (simp add: declared_record_length_def TlsReadUint24_def offs client_ext_list_size_def
      example_defs)

section \<open>The server's first flight\<close>

text \<open>The bytes the engine has emitted when a call returns: the first \<^verbatim>\<open>BufferLength\<close> bytes
  of the output buffer.\<close>

definition emitted_records :: "fault + process_result \<Rightarrow> fault + uint8_t list" where
  "emitted_records res =
     fbind res (\<lambda>r. mem_read (Buffer (State r)) 0 (unat (BufferLength (State r))))"

subsection \<open>Writing and reading back a 24-bit length\<close>

lemma split24: "(x::nat) div 65536 mod 256 * 65536 + x div 256 mod 256 * 256 + x mod 256 = x mod 16777216"
proof -
  have 1: "x mod 16777216 = x mod 256 + 256 * (x div 256 mod 65536)"
    using mod_mult2_eq [of x 256 65536] by simp
  have 2: "x div 256 mod 65536 = x div 256 mod 256 + 256 * (x div 256 div 256 mod 256)"
    using mod_mult2_eq [of "x div 256" 256 256] by simp
  have 3: "x div 256 div 256 = x div 65536"
    by (simp add: div_mult2_eq [symmetric])
  show ?thesis by (simp add: 1 2 3)
qed

lemma mod_32_8: "(y::nat) mod 4294967296 mod 256 = y mod 256"
  by (simp add: mod_mod_cancel)

lemma TlsReadUint24_TlsWriteUint24:
  "unat (TlsReadUint24 (TlsWriteUint24 v)) = unat v mod 2 ^ 24"
  using split24 [of "unat v"]
  by (simp add: TlsWriteUint24_def unat_TlsReadUint24 to_nat mod_32_8)

lemma drain_length_TlsWriteUint24:
  assumes "n + 4 \<le> 65535"
  shows "drain_length (TlsWriteUint24 (of_nat n)) = of_nat (n + 4)"
proof -
  have u: "unat (of_nat n :: uint32_t) = n" using assms by (simp add: unat_of_nat)
  have "unat (TlsReadUint24 (TlsWriteUint24 (of_nat n))) = n"
    using assms by (simp add: TlsReadUint24_TlsWriteUint24 u)
  then have "TlsReadUint24 (TlsWriteUint24 (of_nat n)) = of_nat n"
    by (metis of_nat_unat ucast_id)
  then show ?thesis
    using assms
    by (simp add: drain_length_def word_unat_eq_iff unsigned_ucast_eq unat_word_ariths
        unat_of_nat take_bit_eq_mod)
qed

subsection \<open>The records of the flight and the call that emits them\<close>

lemma ServerSendHandshake_ok:
  assumes tl: "unat (LocalTPLength ctx) \<le> length (LocalTPBuffer ctx)"
      "unat (LocalTPLength ctx) \<le> 256"
    and fl: "unat (FormatLength sc) \<le> length (FormatBuffer sc)"
    and bl: "BufferLength st = 8"
    and room: "8 + (266 + unat (FormatLength sc)) \<le> length (Buffer st)"
      "length (Buffer st) = unat (BufferAllocLength st)"
    and len: "mem_read b off_Length 3 = Inr lb"
  shows "\<exists>r. ServerSendHandshake sc ctx rf st b = Inr r \<and>
      ResultFlags r = {QUIC_TLS_RESULT_READ_KEY_UPDATED, QUIC_TLS_RESULT_WRITE_KEY_UPDATED,
          QUIC_TLS_RESULT_DATA}
        \<union> (if EarlyDataAccepted st then {QUIC_TLS_RESULT_EARLY_DATA_ACCEPT} else {}) \<union> rf \<and>
      DrainLength r = drain_length lb \<and>
      TlsContext r = ctx\<lparr>LastMessageType := QUIC_TLS_MESSAGE_SERVER_HANDSHAKE\<rparr> \<and>
      BufferLength (State r) = 8 + (266 + FormatLength sc) \<and>
      BufferAllocLength (State r) = BufferAllocLength st \<and>
      BufferOffsetHandshake (State r) = BufferOffsetHandshake st \<and>
      BufferOffset1Rtt (State r) = BufferTotalLength st + ucast (266 + FormatLength sc) \<and>
      ReadKey (State r) = QUIC_PACKET_KEY_HANDSHAKE \<and>
      WriteKey (State r) = QUIC_PACKET_KEY_1_RTT \<and>
      ReadKeys (State r) QUIC_PACKET_KEY_HANDSHAKE = Some \<lparr>Type = QUIC_PACKET_KEY_HANDSHAKE\<rparr> \<and>
      WriteKeys (State r) QUIC_PACKET_KEY_HANDSHAKE = Some \<lparr>Type = QUIC_PACKET_KEY_HANDSHAKE\<rparr> \<and>
      WriteKeys (State r) QUIC_PACKET_KEY_1_RTT = Some \<lparr>Type = QUIC_PACKET_KEY_1_RTT\<rparr> \<and>
      ReadKeys (State r) QUIC_PACKET_KEY_0_RTT =
        (if EarlyDataAccepted st then Some \<lparr>Type = QUIC_PACKET_KEY_0_RTT\<rparr>
         else ReadKeys st QUIC_PACKET_KEY_0_RTT) \<and>
      mem_read (Buffer (State r)) 0 8 = mem_read (Buffer st) 0 8 \<and>
      mem_read (Buffer (State r)) (8 + off_Type) 1 =
        Inr [message_type_value QUIC_TLS_MESSAGE_SERVER_HANDSHAKE] \<and>
      mem_read (Buffer (State r)) (8 + off_Length) 3 =
        Inr (TlsWriteUint24 (ucast (266 + FormatLength sc) - 4)) \<and>
      mem_read (Buffer (State r)) (8 + off_Body) 1 = Inr [ucast (LocalTPLength ctx)] \<and>
      mem_read (Buffer (State r)) (8 + off_QuicTP) (unat (LocalTPLength ctx)) =
        Inr (take (unat (LocalTPLength ctx)) (LocalTPBuffer ctx)) \<and>
      mem_read (Buffer (State r)) (8 + off_CertificateLength) 2 =
        Inr (store_host_uint16 (FormatLength sc)) \<and>
      mem_read (Buffer (State r)) (8 + off_Certificate) (unat (FormatLength sc)) =
        Inr (take (unat (FormatLength sc)) (FormatBuffer sc))"
proof -
  define tn where "tn = unat (LocalTPLength ctx)"
  define fn where "fn = unat (FormatLength sc)"
  define tp where "tp = take tn (LocalTPBuffer ctx)"
  define cert where "cert = take fn (FormatBuffer sc)"
  define ml where "ml = MinMessageLengths QUIC_TLS_MESSAGE_SERVER_HANDSHAKE + FormatLength sc"
  define b' where "b' = poke (poke (poke (poke (poke (poke (Buffer st)
      (8 + off_Length) (TlsWriteUint24 (ucast ml - 4)))
      (8 + off_Type) [4])
      (8 + off_Body) [ucast (LocalTPLength ctx)])
      (8 + off_QuicTP) tp)
      (8 + off_CertificateLength) (store_host_uint16 (FormatLength sc)))
      (8 + off_Certificate) cert"
  have ltp: "length tp = tn" using tl by (simp add: tp_def tn_def)
  have lcert: "length cert = fn" using fl by (simp add: cert_def fn_def)
  have tn256: "tn \<le> 256" using tl by (simp add: tn_def)
  from room have room': "8 + (266 + fn) \<le> length (Buffer st)" by (simp add: fn_def)
  have alloc: "unat (BufferAllocLength st) < 65536" by (rule unat_lt_65536)
  with room have fn_small: "274 + fn \<le> 65535" by (simp add: fn_def)
  have uml: "unat ml = 266 + fn"
    using fn_small by (simp add: ml_def fn_def unat_word_ariths)
  have ml_eq: "ml = 266 + FormatLength sc" by (simp add: ml_def)
  have "(8 :: uint16_t) \<le> BufferAllocLength st"
    using room by (simp add: word_le_nat_alt)
  then have "unat (BufferAllocLength st - 8) = unat (BufferAllocLength st) - unat (8 :: uint16_t)"
    by (rule unat_sub)
  with room have pre: "\<not> unat (BufferAllocLength st - BufferLength st)
      < unat (MinMessageLengths QUIC_TLS_MESSAGE_SERVER_HANDSHAKE) + unat (FormatLength sc)"
    by (simp add: bl fn_def)
  have rtp: "mem_read (LocalTPBuffer ctx) 0 (unat (LocalTPLength ctx)) = Inr tp"
    using tl by (simp add: mem_read_def tp_def tn_def)
  have rcert: "mem_read (FormatBuffer sc) 0 (unat (FormatLength sc)) = Inr cert"
    using fl by (simp add: mem_read_def cert_def fn_def)
  have sm: "unat (BufferLength st) = 8" by (simp add: bl)
  have w: "mem_writes (Buffer st)
       [(8 + off_Length, TlsWriteUint24 (ucast ml - 4)),
        (8 + off_Type, [4]),
        (8 + off_Body, [ucast (LocalTPLength ctx)]),
        (8 + off_QuicTP, tp),
        (8 + off_CertificateLength, store_host_uint16 (FormatLength sc)),
        (8 + off_Certificate, cert)] = Inr b'"
    using room' tn256 ltp lcert
    by (simp add: b'_def offs mem_write_ok length_poke store_host_uint16_def)
  define R where "R = \<lparr> ResultFlags = insert QUIC_TLS_RESULT_WRITE_KEY_UPDATED
          (insert QUIC_TLS_RESULT_DATA (insert QUIC_TLS_RESULT_WRITE_KEY_UPDATED
            (insert QUIC_TLS_RESULT_READ_KEY_UPDATED
              (if EarlyDataAccepted st then insert QUIC_TLS_RESULT_EARLY_DATA_ACCEPT rf else rf)))),
        DrainLength = drain_length lb,
        TlsContext = ctx\<lparr>LastMessageType := QUIC_TLS_MESSAGE_SERVER_HANDSHAKE\<rparr>,
        State = (if EarlyDataAccepted st
              then st\<lparr>ReadKeys := (ReadKeys st)
                     (QUIC_PACKET_KEY_0_RTT \<mapsto> QuicStubAllocKey QUIC_PACKET_KEY_0_RTT)\<rparr>
              else st)
          \<lparr>ReadKey := QUIC_PACKET_KEY_HANDSHAKE,
           ReadKeys := (ReadKeys (if EarlyDataAccepted st
              then st\<lparr>ReadKeys := (ReadKeys st)
                     (QUIC_PACKET_KEY_0_RTT \<mapsto> QuicStubAllocKey QUIC_PACKET_KEY_0_RTT)\<rparr>
              else st))
             (QUIC_PACKET_KEY_HANDSHAKE \<mapsto> QuicStubAllocKey QUIC_PACKET_KEY_HANDSHAKE),
           WriteKey := QUIC_PACKET_KEY_HANDSHAKE,
           WriteKeys := (WriteKeys st)
             (QUIC_PACKET_KEY_HANDSHAKE \<mapsto> QuicStubAllocKey QUIC_PACKET_KEY_HANDSHAKE),
           Buffer := b', BufferLength := 8 + ml,
           BufferTotalLength := BufferTotalLength st + ucast ml,
           BufferOffset1Rtt := BufferTotalLength st + ucast ml,
           WriteKey := QUIC_PACKET_KEY_1_RTT,
           WriteKeys := (WriteKeys st)
             (QUIC_PACKET_KEY_HANDSHAKE \<mapsto> QuicStubAllocKey QUIC_PACKET_KEY_HANDSHAKE,
              QUIC_PACKET_KEY_1_RTT \<mapsto> QuicStubAllocKey QUIC_PACKET_KEY_1_RTT)\<rparr> \<rparr>"
  have run: "ServerSendHandshake sc ctx rf st b = Inr R"
    unfolding ServerSendHandshake_def Let_def R_def
    by (simp only: pre if_False rtp rcert fbind_Inr sm ml_def [symmetric] len)
       (cases "EarlyDataAccepted st"; simp add: w bl del: mem_writes.simps)
  have rds:
    "mem_read b' 0 8 = mem_read (Buffer st) 0 8"
    "mem_read b' (8 + off_Type) (Suc 0) = Inr [4]"
    "mem_read b' (8 + off_Length) 3 = Inr (TlsWriteUint24 (ucast ml - 4))"
    "mem_read b' (8 + off_Body) (Suc 0) = Inr [ucast (LocalTPLength ctx)]"
    "mem_read b' (8 + off_QuicTP) tn = Inr tp"
    "mem_read b' (8 + off_CertificateLength) 2 = Inr (store_host_uint16 (FormatLength sc))"
    "mem_read b' (8 + off_Certificate) fn = Inr cert"
    using room' tn256 ltp lcert
    by (simp_all add: b'_def offs mem_read_poke_disjoint mem_read_poke_within length_poke
        store_host_uint16_def)
  show ?thesis
    unfolding tn_def [symmetric] fn_def [symmetric] tp_def [symmetric] cert_def [symmetric]
      ml_eq [symmetric]
    by (rule exI [of _ R]) (auto simp: run R_def rds QuicStubAllocKey_def)
qed

lemma example_client_initial_reads:
  shows "length (example_client_initial exts) = 45 + length exts"
    and "mem_read (example_client_initial exts) off_Type (Suc 0) = Inr [1]"
    and "mem_read (example_client_initial exts) off_Length 3 =
      Inr (TlsWriteUint24 (of_nat (41 + length exts)))"
    and "take 3 (drop off_Length (example_client_initial exts)) =
      TlsWriteUint24 (of_nat (41 + length exts))"
    and "mem_read (example_client_initial exts) off_ExtListLength 2 =
      Inr (TlsWriteUint16 (of_nat (length exts)))"
    and "mem_read (example_client_initial exts) off_ExtList (length exts) = Inr exts"
  by (simp_all add: example_client_initial_def mem_read_def offs)

lemma apply_ext_fields:
  "IsServer (fst (apply_ext e s)) = IsServer (fst s)"
  "LastMessageType (fst (apply_ext e s)) = LastMessageType (fst s)"
  "SecConfig (fst (apply_ext e s)) = SecConfig (fst s)"
  "LocalTPBuffer (fst (apply_ext e s)) = LocalTPBuffer (fst s)"
  "LocalTPLength (fst (apply_ext e s)) = LocalTPLength (fst s)"
  "Buffer (snd (apply_ext e s)) = Buffer (snd s)"
  "BufferLength (snd (apply_ext e s)) = BufferLength (snd s)"
  "BufferAllocLength (snd (apply_ext e s)) = BufferAllocLength (snd s)"
  "ReadKeys (snd (apply_ext e s)) = ReadKeys (snd s)"
  by (simp_all add: apply_ext_def)

lemma fold_apply_ext_fields:
  "IsServer (fst (fold apply_ext es s)) = IsServer (fst s) \<and>
   LastMessageType (fst (fold apply_ext es s)) = LastMessageType (fst s) \<and>
   SecConfig (fst (fold apply_ext es s)) = SecConfig (fst s) \<and>
   LocalTPBuffer (fst (fold apply_ext es s)) = LocalTPBuffer (fst s) \<and>
   LocalTPLength (fst (fold apply_ext es s)) = LocalTPLength (fst s) \<and>
   Buffer (snd (fold apply_ext es s)) = Buffer (snd s) \<and>
   BufferLength (snd (fold apply_ext es s)) = BufferLength (snd s) \<and>
   BufferAllocLength (snd (fold apply_ext es s)) = BufferAllocLength (snd s) \<and>
   ReadKeys (snd (fold apply_ext es s)) = ReadKeys (snd s)"
  by (induction es arbitrary: s) (simp_all add: apply_ext_fields)

lemma ServerReadExtList_all:
  assumes "\<forall>e \<in> set es. wf_ext e"
    and "mem_read b ext (length (encode_exts es)) = Inr (encode_exts es)"
    and "length (encode_exts es) \<le> 65535"
  shows "ServerReadExtList b ext (of_nat (length (encode_exts es))) ctx st =
    Inr (fold apply_ext es (ctx, st))"
proof -
  have u: "unat (of_nat (length (encode_exts es)) :: uint16_t) = length (encode_exts es)"
    using assms(3) by (simp add: unat_of_nat)
  have "ServerReadExtList b ext (of_nat (length (encode_exts es))) ctx st =
      ServerReadExtList b (ext + length (encode_exts es))
        (of_nat (length (encode_exts es)) - of_nat (length (encode_exts es)))
        (fst (fold apply_ext es (ctx, st))) (snd (fold apply_ext es (ctx, st)))"
    using assms(1,2) by (rule ServerReadExtList_records) (simp add: u)
  then show ?thesis by (simp add: ServerReadExtList_done)
qed

lemma ServerSendInitial_ok:
  assumes sc: "SecConfig ctx = Some sc" "QuicCertSelect cp (Certificate sc) [0x0804] \<noteq> None"
    and tl: "unat (LocalTPLength ctx) \<le> length (LocalTPBuffer ctx)"
      "unat (LocalTPLength ctx) \<le> 256"
    and fl: "unat (FormatLength sc) \<le> length (FormatBuffer sc)"
    and bl: "BufferLength st = 0"
    and room: "8 + (266 + unat (FormatLength sc)) \<le> length (Buffer st)"
      "length (Buffer st) = unat (BufferAllocLength st)"
    and len: "mem_read b off_Length 3 = Inr lb"
  shows "\<exists>r. ServerSendInitial cp (BufferAllocLength st) ctx {} st b = Inr r \<and>
      ResultFlags r = {QUIC_TLS_RESULT_READ_KEY_UPDATED, QUIC_TLS_RESULT_WRITE_KEY_UPDATED,
          QUIC_TLS_RESULT_DATA}
        \<union> (if EarlyDataAccepted st then {QUIC_TLS_RESULT_EARLY_DATA_ACCEPT} else {}) \<and>
      DrainLength r = drain_length lb \<and>
      TlsContext r = ctx\<lparr>LastMessageType := QUIC_TLS_MESSAGE_SERVER_HANDSHAKE\<rparr> \<and>
      BufferLength (State r) = 8 + (266 + FormatLength sc) \<and>
      BufferOffsetHandshake (State r) = 8 \<and>
      BufferOffset1Rtt (State r) = 8 + ucast (266 + FormatLength sc) \<and>
      WriteKey (State r) = QUIC_PACKET_KEY_1_RTT \<and>
      ReadKey (State r) = QUIC_PACKET_KEY_HANDSHAKE \<and>
      ReadKeys (State r) QUIC_PACKET_KEY_HANDSHAKE = Some \<lparr>Type = QUIC_PACKET_KEY_HANDSHAKE\<rparr> \<and>
      WriteKeys (State r) QUIC_PACKET_KEY_HANDSHAKE = Some \<lparr>Type = QUIC_PACKET_KEY_HANDSHAKE\<rparr> \<and>
      WriteKeys (State r) QUIC_PACKET_KEY_1_RTT = Some \<lparr>Type = QUIC_PACKET_KEY_1_RTT\<rparr> \<and>
      ReadKeys (State r) QUIC_PACKET_KEY_0_RTT =
        (if EarlyDataAccepted st then Some \<lparr>Type = QUIC_PACKET_KEY_0_RTT\<rparr>
         else ReadKeys st QUIC_PACKET_KEY_0_RTT) \<and>
      mem_read (Buffer (State r)) off_Type 1 =
        Inr [message_type_value QUIC_TLS_MESSAGE_SERVER_INITIAL] \<and>
      mem_read (Buffer (State r)) off_Length 3 = Inr (TlsWriteUint24 4) \<and>
      mem_read (Buffer (State r)) (8 + off_Type) 1 =
        Inr [message_type_value QUIC_TLS_MESSAGE_SERVER_HANDSHAKE] \<and>
      mem_read (Buffer (State r)) (8 + off_Length) 3 =
        Inr (TlsWriteUint24 (ucast (266 + FormatLength sc) - 4)) \<and>
      mem_read (Buffer (State r)) (8 + off_Body) 1 = Inr [ucast (LocalTPLength ctx)] \<and>
      mem_read (Buffer (State r)) (8 + off_QuicTP) (unat (LocalTPLength ctx)) =
        Inr (take (unat (LocalTPLength ctx)) (LocalTPBuffer ctx)) \<and>
      mem_read (Buffer (State r)) (8 + off_CertificateLength) 2 =
        Inr (store_host_uint16 (FormatLength sc)) \<and>
      mem_read (Buffer (State r)) (8 + off_Certificate) (unat (FormatLength sc)) =
        Inr (take (unat (FormatLength sc)) (FormatBuffer sc))"
proof -
  define b1 where "b1 = poke (poke (Buffer st) off_Length (TlsWriteUint24 4)) off_Type [3]"
  define old where "old = take (Suc 0) (drop off_Body b1)"
  define b2 where "b2 = poke b1 off_Body [store_EarlyDataAccepted (old ! 0) (EarlyDataAccepted st)]"
  define st2 where "st2 = st\<lparr>Buffer := b2, BufferLength := 8, BufferTotalLength := 8,
      BufferOffsetHandshake := 8\<rparr>"
  from room have room8: "8 \<le> length (Buffer st)" by simp
  have l1: "length b1 = length (Buffer st)"
    using room8 by (simp add: b1_def offs length_poke)
  have l2: "length b2 = length (Buffer st)"
    using room8 by (simp add: b2_def offs length_poke l1)
  have w1: "mem_writes (Buffer st) [(off_Length, TlsWriteUint24 4), (off_Type, [3])] = Inr b1"
    using room8 by (simp add: b1_def offs mem_write_ok length_poke)
  have r1: "mem_read b1 off_Body (Suc 0) = Inr old"
    using room8 by (simp add: old_def mem_read_def l1 offs)
  have w2: "mem_write b1 off_Body
      [store_EarlyDataAccepted (old ! 0) (EarlyDataAccepted st)] = Inr b2"
    using room8 by (simp add: b2_def mem_write_ok l1 offs)
  have pre: "\<not> BufferAllocLength st < 8"
    using room by (simp add: word_less_nat_alt)
  have run1: "ServerSendInitial cp (BufferAllocLength st) ctx {} st b =
      ServerSendHandshake sc ctx {} st2 b"
  proof -
    from sc(2) obtain y where y: "QuicCertSelect cp (Certificate sc) [0x0804] = Some y"
      by blast
    show ?thesis
      unfolding ServerSendInitial_def Let_def
      using pre by (simp add: sc(1) y bl w1 r1 w2 st2_def del: mem_writes.simps)
  qed
  have "\<exists>r. ServerSendHandshake sc ctx {} st2 b = Inr r \<and>
      ResultFlags r = {QUIC_TLS_RESULT_READ_KEY_UPDATED, QUIC_TLS_RESULT_WRITE_KEY_UPDATED,
          QUIC_TLS_RESULT_DATA}
        \<union> (if EarlyDataAccepted st2 then {QUIC_TLS_RESULT_EARLY_DATA_ACCEPT} else {}) \<union> {} \<and>
      DrainLength r = drain_length lb \<and>
      TlsContext r = ctx\<lparr>LastMessageType := QUIC_TLS_MESSAGE_SERVER_HANDSHAKE\<rparr> \<and>
      BufferLength (State r) = 8 + (266 + FormatLength sc) \<and>
      BufferAllocLength (State r) = BufferAllocLength st2 \<and>
      BufferOffsetHandshake (State r) = BufferOffsetHandshake st2 \<and>
      BufferOffset1Rtt (State r) = BufferTotalLength st2 + ucast (266 + FormatLength sc) \<and>
      ReadKey (State r) = QUIC_PACKET_KEY_HANDSHAKE \<and>
      WriteKey (State r) = QUIC_PACKET_KEY_1_RTT \<and>
      ReadKeys (State r) QUIC_PACKET_KEY_HANDSHAKE = Some \<lparr>Type = QUIC_PACKET_KEY_HANDSHAKE\<rparr> \<and>
      WriteKeys (State r) QUIC_PACKET_KEY_HANDSHAKE = Some \<lparr>Type = QUIC_PACKET_KEY_HANDSHAKE\<rparr> \<and>
      WriteKeys (State r) QUIC_PACKET_KEY_1_RTT = Some \<lparr>Type = QUIC_PACKET_KEY_1_RTT\<rparr> \<and>
      ReadKeys (State r) QUIC_PACKET_KEY_0_RTT =
        (if EarlyDataAccepted st2 then Some \<lparr>Type = QUIC_PACKET_KEY_0_RTT\<rparr>
         else ReadKeys st2 QUIC_PACKET_KEY_0_RTT) \<and>
      mem_read (Buffer (State r)) 0 8 = mem_read (Buffer st2) 0 8 \<and>
      mem_read (Buffer (State r)) (8 + off_Type) 1 =
        Inr [message_type_value QUIC_TLS_MESSAGE_SERVER_HANDSHAKE] \<and>
      mem_read (Buffer (State r)) (8 + off_Length) 3 =
        Inr (TlsWriteUint24 (ucast (266 + FormatLength sc) - 4)) \<and>
      mem_read (Buffer (State r)) (8 + off_Body) 1 = Inr [ucast (LocalTPLength ctx)] \<and>
      mem_read (Buffer (State r)) (8 + off_QuicTP) (unat (LocalTPLength ctx)) =
        Inr (take (unat (LocalTPLength ctx)) (LocalTPBuffer ctx)) \<and>
      mem_read (Buffer (State r)) (8 + off_CertificateLength) 2 =
        Inr (store_host_uint16 (FormatLength sc)) \<and>
      mem_read (Buffer (State r)) (8 + off_Certificate) (unat (FormatLength sc)) =
        Inr (take (unat (FormatLength sc)) (FormatBuffer sc))"
    using tl fl _ _ _ len
    by (rule ServerSendHandshake_ok) (use room in \<open>simp_all add: st2_def l2\<close>)
  then obtain r where r: "ServerSendHandshake sc ctx {} st2 b = Inr r"
    and flags: "ResultFlags r = {QUIC_TLS_RESULT_READ_KEY_UPDATED,
          QUIC_TLS_RESULT_WRITE_KEY_UPDATED, QUIC_TLS_RESULT_DATA}
        \<union> (if EarlyDataAccepted st2 then {QUIC_TLS_RESULT_EARLY_DATA_ACCEPT} else {}) \<union> {}"
    and rest: "DrainLength r = drain_length lb"
      "TlsContext r = ctx\<lparr>LastMessageType := QUIC_TLS_MESSAGE_SERVER_HANDSHAKE\<rparr>"
      "BufferLength (State r) = 8 + (266 + FormatLength sc)"
      "BufferOffsetHandshake (State r) = BufferOffsetHandshake st2"
      "BufferOffset1Rtt (State r) = BufferTotalLength st2 + ucast (266 + FormatLength sc)"
      "ReadKey (State r) = QUIC_PACKET_KEY_HANDSHAKE"
      "WriteKey (State r) = QUIC_PACKET_KEY_1_RTT"
      "ReadKeys (State r) QUIC_PACKET_KEY_HANDSHAKE = Some \<lparr>Type = QUIC_PACKET_KEY_HANDSHAKE\<rparr>"
      "WriteKeys (State r) QUIC_PACKET_KEY_HANDSHAKE = Some \<lparr>Type = QUIC_PACKET_KEY_HANDSHAKE\<rparr>"
      "WriteKeys (State r) QUIC_PACKET_KEY_1_RTT = Some \<lparr>Type = QUIC_PACKET_KEY_1_RTT\<rparr>"
      "ReadKeys (State r) QUIC_PACKET_KEY_0_RTT =
        (if EarlyDataAccepted st2 then Some \<lparr>Type = QUIC_PACKET_KEY_0_RTT\<rparr>
         else ReadKeys st2 QUIC_PACKET_KEY_0_RTT)"
      "mem_read (Buffer (State r)) (8 + off_Type) 1 =
        Inr [message_type_value QUIC_TLS_MESSAGE_SERVER_HANDSHAKE]"
      "mem_read (Buffer (State r)) (8 + off_Length) 3 =
        Inr (TlsWriteUint24 (ucast (266 + FormatLength sc) - 4))"
      "mem_read (Buffer (State r)) (8 + off_Body) 1 = Inr [ucast (LocalTPLength ctx)]"
      "mem_read (Buffer (State r)) (8 + off_QuicTP) (unat (LocalTPLength ctx)) =
        Inr (take (unat (LocalTPLength ctx)) (LocalTPBuffer ctx))"
      "mem_read (Buffer (State r)) (8 + off_CertificateLength) 2 =
        Inr (store_host_uint16 (FormatLength sc))"
      "mem_read (Buffer (State r)) (8 + off_Certificate) (unat (FormatLength sc)) =
        Inr (take (unat (FormatLength sc)) (FormatBuffer sc))"
    and first: "mem_read (Buffer (State r)) 0 8 = mem_read (Buffer st2) 0 8"
    by blast
  have "mem_read (Buffer st2) 0 8 = Inr (take 8 b2)"
    using room8 by (simp add: st2_def mem_read_def l2)
  with first have f8: "mem_read (Buffer (State r)) 0 8 = Inr (take 8 b2)"
    by (simp only:)
  have t1: "mem_read (Buffer (State r)) off_Type 1 = Inr [3]"
    using mem_read_sub [OF f8, of 0 1] room8
    by (simp add: offs b2_def b1_def poke_def)
  have t2: "mem_read (Buffer (State r)) off_Length 3 = Inr (TlsWriteUint24 4)"
    using mem_read_sub [OF f8, of 1 3] room8
    by (simp add: offs b2_def b1_def poke_def)
  show ?thesis
    using r flags rest t1 t2 by (intro exI [of _ r]) (simp add: run1 st2_def)
qed

lemma fold_apply_ext_early:
  "EarlyDataAccepted (snd (fold apply_ext es s)) \<longleftrightarrow>
     EarlyDataAccepted (snd s) \<or> TlsExt_SessionTicket \<in> fst ` set es"
  by (induction es arbitrary: s)
    (auto simp: apply_ext_def TlsExt_SessionTicket_def TlsExt_ServerName_def
      TlsExt_QuicTransportParameters_def)

lemma example_client_initial_valid:
  assumes "45 + length exts \<le> 65535"
  shows "QuicTlsHasValidMessageToProcess ctx (example_client_initial exts)"
proof -
  have "unat (TlsReadUint24 (TlsWriteUint24 (of_nat (41 + length exts))) + 4) =
      45 + length exts"
    using assms
    by (simp add: unat_word_ariths TlsReadUint24_TlsWriteUint24 unat_of_nat take_bit_eq_mod)
  then show ?thesis
    by (simp add: QuicTlsHasValidMessageToProcess_def example_client_initial_reads Let_def)
qed

text \<open>Claim C4, as amended: for a server in state None (\<^verbatim>\<open>QUIC_TLS_MESSAGE_INVALID\<close>) with a
  security configuration and an empty output buffer with room for the flight, processing a
  well-formed ClientInitial (any list of recognised extensions, among them the SNI "a.test",
  the ALPN "h3" and the transport parameters) returns a result: the output holds a
  ServerInitial record of 8 bytes (type 3, length field 4) followed by a ServerHandshake
  record of \<^verbatim>\<open>266 + FormatLength\<close> bytes (type 4, length field \<^verbatim>\<open>266 + FormatLength - 4\<close>),
  in which the transport parameters sit in a field of 256 bytes whatever their length, so
  that the record is 316 bytes for a certificate of 50 bytes and parameters of 10 bytes;
  the flags are ReadKeyUpdated, WriteKeyUpdated (raised for the Handshake write key and
  again for the 1-RTT write key) and Data, and EarlyDataAccept exactly when the list
  carries a session ticket; a Handshake read key, a Handshake write key and a 1-RTT write
  key are installed in the key tables, and a 0-RTT read key exactly when the list carries
  a session ticket; the current read key is the Handshake key and the current write key
  the 1-RTT key; the last message type becomes \<^verbatim>\<open>QUIC_TLS_MESSAGE_SERVER_HANDSHAKE\<close>, and
  \<^verbatim>\<open>DrainLength\<close> is the full framed length of the ClientInitial.\<close>

theorem server_first_flight:
  assumes server: "IsServer ctx" "LastMessageType ctx = QUIC_TLS_MESSAGE_INVALID"
    and sc: "SecConfig ctx = Some sc" "QuicCertSelect cp (Certificate sc) [0x0804] \<noteq> None"
    and tl: "unat (LocalTPLength ctx) \<le> length (LocalTPBuffer ctx)"
      "unat (LocalTPLength ctx) \<le> 256"
    and fl: "unat (FormatLength sc) \<le> length (FormatBuffer sc)"
    and bl: "BufferLength st = 0"
    and room: "8 + (266 + unat (FormatLength sc)) \<le> length (Buffer st)"
      "length (Buffer st) = unat (BufferAllocLength st)"
    and es: "\<forall>e \<in> set es. wf_ext e" "45 + length (encode_exts es) \<le> 65535"
  shows "\<exists>r. QuicTlsProcessData cp ctx (example_client_initial (encode_exts es)) st = Inr r \<and>
      ResultFlags r = {QUIC_TLS_RESULT_READ_KEY_UPDATED, QUIC_TLS_RESULT_WRITE_KEY_UPDATED,
          QUIC_TLS_RESULT_DATA}
        \<union> (if TlsExt_SessionTicket \<in> fst ` set es then {QUIC_TLS_RESULT_EARLY_DATA_ACCEPT}
           else {}) \<and>
      DrainLength r = of_nat (length (example_client_initial (encode_exts es))) \<and>
      TlsContext r =
        (fst (fold apply_ext es (ctx, st\<lparr>EarlyDataAttempted := False,
           EarlyDataAccepted := False\<rparr>)))\<lparr>LastMessageType := QUIC_TLS_MESSAGE_SERVER_HANDSHAKE\<rparr> \<and>
      BufferLength (State r) = 8 + (266 + FormatLength sc) \<and>
      BufferOffsetHandshake (State r) = 8 \<and>
      BufferOffset1Rtt (State r) = 8 + ucast (266 + FormatLength sc) \<and>
      WriteKey (State r) = QUIC_PACKET_KEY_1_RTT \<and>
      ReadKey (State r) = QUIC_PACKET_KEY_HANDSHAKE \<and>
      ReadKeys (State r) QUIC_PACKET_KEY_HANDSHAKE = Some \<lparr>Type = QUIC_PACKET_KEY_HANDSHAKE\<rparr> \<and>
      WriteKeys (State r) QUIC_PACKET_KEY_HANDSHAKE = Some \<lparr>Type = QUIC_PACKET_KEY_HANDSHAKE\<rparr> \<and>
      WriteKeys (State r) QUIC_PACKET_KEY_1_RTT = Some \<lparr>Type = QUIC_PACKET_KEY_1_RTT\<rparr> \<and>
      ReadKeys (State r) QUIC_PACKET_KEY_0_RTT =
        (if TlsExt_SessionTicket \<in> fst ` set es then Some \<lparr>Type = QUIC_PACKET_KEY_0_RTT\<rparr>
         else ReadKeys st QUIC_PACKET_KEY_0_RTT) \<and>
      mem_read (Buffer (State r)) off_Type 1 =
        Inr [message_type_value QUIC_TLS_MESSAGE_SERVER_INITIAL] \<and>
      mem_read (Buffer (State r)) off_Length 3 = Inr (TlsWriteUint24 4) \<and>
      mem_read (Buffer (State r)) (8 + off_Type) 1 =
        Inr [message_type_value QUIC_TLS_MESSAGE_SERVER_HANDSHAKE] \<and>
      mem_read (Buffer (State r)) (8 + off_Length) 3 =
        Inr (TlsWriteUint24 (ucast (266 + FormatLength sc) - 4)) \<and>
      mem_read (Buffer (State r)) (8 + off_Body) 1 = Inr [ucast (LocalTPLength ctx)] \<and>
      mem_read (Buffer (State r)) (8 + off_QuicTP) (unat (LocalTPLength ctx)) =
        Inr (take (unat (LocalTPLength ctx)) (LocalTPBuffer ctx)) \<and>
      mem_read (Buffer (State r)) (8 + off_CertificateLength) 2 =
        Inr (store_host_uint16 (FormatLength sc)) \<and>
      mem_read (Buffer (State r)) (8 + off_Certificate) (unat (FormatLength sc)) =
        Inr (take (unat (FormatLength sc)) (FormatBuffer sc))"
proof -
  define E where "E = encode_exts es"
  define b where "b = example_client_initial E"
  define st0 where "st0 = st\<lparr>EarlyDataAttempted := False, EarlyDataAccepted := False\<rparr>"
  define ctx1 where "ctx1 = fst (fold apply_ext es (ctx, st0))"
  define st1 where "st1 = snd (fold apply_ext es (ctx, st0))"
  define lb where "lb = TlsWriteUint24 (of_nat (41 + length E))"
  have small: "length E \<le> 65535" "45 + length E \<le> 65535"
    using es(2) by (simp_all add: E_def)
  have valid: "QuicTlsHasValidMessageToProcess ctx b"
    unfolding b_def using small(2) by (rule example_client_initial_valid)
  have lt: "0 < BufferAllocLength st"
    using room by (simp add: word_less_nat_alt)
  have ty: "mem_read b off_Type (Suc 0) = Inr [1]"
    by (simp add: b_def example_client_initial_reads)
  have ell: "mem_read b off_ExtListLength 2 = Inr (TlsWriteUint16 (of_nat (length E)))"
    by (simp add: b_def example_client_initial_reads)
  have body: "mem_read b off_ExtList (length (encode_exts es)) = Inr (encode_exts es)"
    by (simp add: b_def example_client_initial_reads E_def)
  have len: "mem_read b off_Length 3 = Inr lb"
    by (simp add: b_def lb_def example_client_initial_reads)
  have exts: "ServerReadExtList b off_ExtList (of_nat (length E)) ctx st0 = Inr (ctx1, st1)"
    using ServerReadExtList_all [OF es(1) body, of ctx st0] small(1)
    by (simp add: E_def ctx1_def st1_def)
  have keep: "SecConfig ctx1 = Some sc" "LocalTPLength ctx1 = LocalTPLength ctx"
    "LocalTPBuffer ctx1 = LocalTPBuffer ctx" "BufferLength st1 = 0"
    "Buffer st1 = Buffer st" "BufferAllocLength st1 = BufferAllocLength st"
    "ReadKeys st1 = ReadKeys st"
    using fold_apply_ext_fields [of es "(ctx, st0)"]
    by (simp_all add: ctx1_def st1_def st0_def sc bl)
  have run: "QuicTlsProcessData cp ctx b st =
      ServerSendInitial cp (BufferAllocLength st1) ctx1 {} st1 b"
    unfolding QuicTlsProcessData_def QuicTlsServerProcess_def ServerProcessClientInitial_def
    using lt
    by (simp add: valid server bl ty ell TlsReadUint16_TlsWriteUint16 exts [unfolded st0_def]
        keep)
  have early: "EarlyDataAccepted st1 \<longleftrightarrow> TlsExt_SessionTicket \<in> fst ` set es"
    by (simp add: st1_def fold_apply_ext_early st0_def)
  have drain: "drain_length lb = of_nat (length b)"
    unfolding lb_def using small(2)
    by (subst drain_length_TlsWriteUint24) (simp_all add: b_def example_client_initial_reads)
  have "\<exists>r. ServerSendInitial cp (BufferAllocLength st1) ctx1 {} st1 b = Inr r \<and>
      ResultFlags r = {QUIC_TLS_RESULT_READ_KEY_UPDATED, QUIC_TLS_RESULT_WRITE_KEY_UPDATED,
          QUIC_TLS_RESULT_DATA}
        \<union> (if EarlyDataAccepted st1 then {QUIC_TLS_RESULT_EARLY_DATA_ACCEPT} else {}) \<and>
      DrainLength r = drain_length lb \<and>
      TlsContext r = ctx1\<lparr>LastMessageType := QUIC_TLS_MESSAGE_SERVER_HANDSHAKE\<rparr> \<and>
      BufferLength (State r) = 8 + (266 + FormatLength sc) \<and>
      BufferOffsetHandshake (State r) = 8 \<and>
      BufferOffset1Rtt (State r) = 8 + ucast (266 + FormatLength sc) \<and>
      WriteKey (State r) = QUIC_PACKET_KEY_1_RTT \<and>
      ReadKey (State r) = QUIC_PACKET_KEY_HANDSHAKE \<and>
      ReadKeys (State r) QUIC_PACKET_KEY_HANDSHAKE = Some \<lparr>Type = QUIC_PACKET_KEY_HANDSHAKE\<rparr> \<and>
      WriteKeys (State r) QUIC_PACKET_KEY_HANDSHAKE = Some \<lparr>Type = QUIC_PACKET_KEY_HANDSHAKE\<rparr> \<and>
      WriteKeys (State r) QUIC_PACKET_KEY_1_RTT = Some \<lparr>Type = QUIC_PACKET_KEY_1_RTT\<rparr> \<and>
      ReadKeys (State r) QUIC_PACKET_KEY_0_RTT =
        (if EarlyDataAccepted st1 then Some \<lparr>Type = QUIC_PACKET_KEY_0_RTT\<rparr>
         else ReadKeys st1 QUIC_PACKET_KEY_0_RTT) \<and>
      mem_read (Buffer (State r)) off_Type 1 =
        Inr [message_type_value QUIC_TLS_MESSAGE_SERVER_INITIAL] \<and>
      mem_read (Buffer (State r)) off_Length 3 = Inr (TlsWriteUint24 4) \<and>
      mem_read (Buffer (State r)) (8 + off_Type) 1 =
        Inr [message_type_value QUIC_TLS_MESSAGE_SERVER_HANDSHAKE] \<and>
      mem_read (Buffer (State r)) (8 + off_Length) 3 =
        Inr (TlsWriteUint24 (ucast (266 + FormatLength sc) - 4)) \<and>
      mem_read (Buffer (State r)) (8 + off_Body) 1 = Inr [ucast (LocalTPLength ctx1)] \<and>
      mem_read (Buffer (State r)) (8 + off_QuicTP) (unat (LocalTPLength ctx1)) =
        Inr (take (unat (LocalTPLength ctx1)) (LocalTPBuffer ctx1)) \<and>
      mem_read (Buffer (State r)) (8 + off_CertificateLength) 2 =
        Inr (store_host_uint16 (FormatLength sc)) \<and>
      mem_read (Buffer (State r)) (8 + off_Certificate) (unat (FormatLength sc)) =
        Inr (take (unat (FormatLength sc)) (FormatBuffer sc))"
    using keep(1) sc(2) _ _ fl keep(4) _ _ len
    by (rule ServerSendInitial_ok) (use tl room in \<open>simp_all add: keep\<close>)
  note flight = this [folded run, unfolded keep early drain,
      unfolded b_def E_def ctx1_def st0_def]
  show ?thesis by (rule flight)
qed

lemma TlsWriteUint24_consts:
  "TlsWriteUint24 4 = [0, 0, 4]" "TlsWriteUint24 312 = [0, 1, 0x38]"
  by (simp_all add: TlsWriteUint24_def word_eq_iff_unsigned [where ?'a = nat] to_nat)

theorem server_first_flight_witness:
  "\<exists>r. QuicTlsProcessData example_platform
        (example_context True QUIC_TLS_MESSAGE_INVALID None [1, 2, 3, 4, 5, 6, 7, 8, 9, 10] 50)
        (example_client_initial (encode_exts (serialize_client_extensions
           (Some [0x61, 0x2e, 0x74, 0x65, 0x73, 0x74]) [0x68, 0x33] False
           [1, 2, 3, 4, 5, 6, 7, 8, 9, 10])))
        (example_state 512) = Inr r \<and>
      ResultFlags r = {QUIC_TLS_RESULT_READ_KEY_UPDATED, QUIC_TLS_RESULT_WRITE_KEY_UPDATED,
          QUIC_TLS_RESULT_DATA} \<and>
      DrainLength r = 83 \<and>
      TlsContext r =
        (example_context True QUIC_TLS_MESSAGE_SERVER_HANDSHAKE
           (Some [0x61, 0x2e, 0x74, 0x65, 0x73, 0x74]) [1, 2, 3, 4, 5, 6, 7, 8, 9, 10] 50)
        \<lparr>ReceivedTP := [(10, [1, 2, 3, 4, 5, 6, 7, 8, 9, 10])]\<rparr> \<and>
      BufferLength (State r) = 324 \<and>
      BufferOffsetHandshake (State r) = 8 \<and>
      BufferOffset1Rtt (State r) = 324 \<and>
      WriteKey (State r) = QUIC_PACKET_KEY_1_RTT \<and>
      ReadKey (State r) = QUIC_PACKET_KEY_HANDSHAKE \<and>
      ReadKeys (State r) QUIC_PACKET_KEY_HANDSHAKE = Some \<lparr>Type = QUIC_PACKET_KEY_HANDSHAKE\<rparr> \<and>
      WriteKeys (State r) QUIC_PACKET_KEY_HANDSHAKE = Some \<lparr>Type = QUIC_PACKET_KEY_HANDSHAKE\<rparr> \<and>
      WriteKeys (State r) QUIC_PACKET_KEY_1_RTT = Some \<lparr>Type = QUIC_PACKET_KEY_1_RTT\<rparr> \<and>
      ReadKeys (State r) QUIC_PACKET_KEY_0_RTT = None \<and>
      mem_read (Buffer (State r)) 0 1 = Inr [3] \<and>
      mem_read (Buffer (State r)) 1 3 = Inr [0, 0, 4] \<and>
      mem_read (Buffer (State r)) 8 1 = Inr [4] \<and>
      mem_read (Buffer (State r)) 9 3 = Inr [0, 1, 0x38] \<and>
      mem_read (Buffer (State r)) 12 1 = Inr [10] \<and>
      mem_read (Buffer (State r)) 13 10 = Inr [1, 2, 3, 4, 5, 6, 7, 8, 9, 10] \<and>
      mem_read (Buffer (State r)) 269 2 = Inr [50, 0] \<and>
      mem_read (Buffer (State r)) 271 50 = Inr (replicate 50 0xcc)"
  using server_first_flight [of
      "example_context True QUIC_TLS_MESSAGE_INVALID None [1, 2, 3, 4, 5, 6, 7, 8, 9, 10] 50"
      "example_sec_config 50" example_platform "example_state 512"
      "serialize_client_extensions (Some [0x61, 0x2e, 0x74, 0x65, 0x73, 0x74]) [0x68, 0x33] False
         [1, 2, 3, 4, 5, 6, 7, 8, 9, 10]"]
  by (simp add: example_defs example_client_initial_reads serialize_client_extensions_def
      wf_ext_def recognised_extensions_def sni_value_def alpn_value_def encode_exts_def
      ext_record_def apply_ext_def sni_name_of_def TlsExt_ServerName_def
      TlsExt_AppProtocolNegotiation_def TlsExt_SessionTicket_def
      TlsExt_QuicTransportParameters_def TlsExt_Sni_NameType_HostName_def
      TlsWriteUint16_def TlsReadUint16_def TlsWriteUint24_consts store_host_uint16_def offs)

text \<open>The flight for a certificate of 50 bytes and transport parameters of 10 bytes, byte by
  byte: 8 bytes of ServerInitial, then a ServerHandshake record whose length field is
  \<^verbatim>\<open>0x000138 = 312\<close>, 316 bytes in all and not 67: after the 10 bytes of parameters come the
  246 unused bytes of their field, and after the certificate the 3 bytes by which
  \<^verbatim>\<open>MinMessageLengths[QUIC_TLS_MESSAGE_SERVER_HANDSHAKE]\<close> exceeds the offset of
  \<^verbatim>\<open>Certificate\<close>.\<close>

theorem server_handshake_record_length:
  "emitted_records (QuicTlsProcessData example_platform
      (example_context True QUIC_TLS_MESSAGE_INVALID None [1, 2, 3, 4, 5, 6, 7, 8, 9, 10] 50)
      (example_client_initial (encode_exts (serialize_client_extensions
         (Some [0x61, 0x2e, 0x74, 0x65, 0x73, 0x74]) [0x68, 0x33] False
         [1, 2, 3, 4, 5, 6, 7, 8, 9, 10])))
      (example_state 512)) =
    Inr ([3, 0, 0, 4, 0, 0, 0, 0] @
         [4, 0, 1, 0x38] @ [10] @ [1, 2, 3, 4, 5, 6, 7, 8, 9, 10] @ replicate 246 0 @
         [50, 0] @ replicate 50 0xcc @ [0, 0, 0])"
  by code_simp

end
